(* ===== verification/Prelude.thy ===== *)
theory Prelude
  imports Main "HOL-Library.Word" "HOL-Library.Sublist"
begin

text \<open>
  Shared vocabulary of the development. JavaScript strings are sequences of
  UTF-16 code units, so a character of the model is a \<open>16 word\<close> and a string a
  list of them; \<open>length\<close> then counts what \<open>String.prototype.length\<close> counts.
  Literals of the source are written as Isabelle strings and converted by \<open>js\<close>
  (every literal of the source is ASCII except the bullet U+2022, which is written
  as its code unit). Byte buffers (\<open>Buffer\<close>) are lists of \<open>8 word\<close>.
  The collection \<open>js_string\<close> gathers the rewrite rules of the string model that
  component proofs pass to \<open>simp\<close>; \<open>frame\<close> gathers the lemmas saying which
  parts of the world an operation leaves alone.
\<close>

type_synonym jchar = "16 word"
type_synonym jstr = "jchar list"
type_synonym bytes = "8 word list"

named_theorems js_string "rewrite rules of the JavaScript string model"
named_theorems frame "frame lemmas: the parts of the world an operation does not touch"

definition js :: "string \<Rightarrow> jstr" where
  "js s = map (\<lambda>c. word_of_nat (of_char c)) s"

lemma js_append [js_string]: "js (a @ b) = js a @ js b"
  by (simp add: js_def)

lemma length_js [simp, js_string]: "length (js s) = length s"
  by (simp add: js_def)

lemma js_Nil [simp]: "js [] = []"
  by (simp add: js_def)

lemma js_Cons: "js (c # s) = word_of_nat (of_char c) # js s"
  by (simp add: js_def)

text \<open>Character codes of the separators the source splits and joins on.\<close>

abbreviation nl :: jchar where "nl \<equiv> 10"
abbreviation space_char :: jchar where "space_char \<equiv> 32"

subsection \<open>Generic facts on contiguous sublists\<close>

text \<open>
  \<open>sublist p s\<close> (HOL-Library.Sublist) is "\<open>p\<close> occurs contiguously in \<open>s\<close>"; the
  lemmas below are the closure facts the string proofs share.
\<close>

lemma sublist_take_self [intro]: "sublist (take n s) s"
  by (rule prefix_imp_sublist) (rule take_is_prefix)

lemma sublist_drop_self [intro]: "sublist (drop n s) s"
  by (rule suffix_imp_sublist) (rule suffix_drop)

lemma sublist_take_drop [intro]: "sublist (take k (drop n s)) s"
  using sublist_take_self sublist_drop_self sublist_order.order_trans by blast

lemma sublist_map [intro]: "sublist p s \<Longrightarrow> sublist (map f p) (map f s)"
  unfolding sublist_def by (metis map_append)

lemma sublist_set_subset: "sublist p s \<Longrightarrow> set p \<subseteq> set s"
  by (auto simp: sublist_def)

lemma sublist_append_disjoint_right:
  assumes "sublist p (a @ b)" and "p \<noteq> []" and "set p \<inter> set b = {}"
  shows "sublist p a"
proof -
  from assms(1) consider "sublist p a" | "sublist p b"
    | xs1 xs2 where "p = xs1 @ xs2" "suffix xs1 a" "prefix xs2 b"
    by (auto simp: sublist_append)
  then show ?thesis
  proof cases
    case 2
    then have "set p \<subseteq> set b" by (rule sublist_set_subset)
    moreover from assms(2) obtain x where "x \<in> set p" by (cases p) auto
    ultimately show ?thesis using assms(3) by blast
  next
    case 3
    show ?thesis
    proof (cases xs2)
      case Nil
      with 3 show ?thesis by (simp add: suffix_imp_sublist)
    next
      case (Cons y ys)
      with 3 have "y \<in> set p" and "y \<in> set b"
        by (auto simp: prefix_def)
      with assms(3) show ?thesis by blast
    qed
  qed
qed

lemma option_map_eq_None [simp]: "(map_option f x = None) = (x = None)"
  by (cases x) auto

end
