(* ===== verification/JsString.thy ===== *)
theory JsString
  imports Prelude
begin

text \<open>
  The JavaScript string built-ins that \<^verbatim>\<open>src/contentProcessor.js\<close> calls, on UTF-16
  code units: \<^verbatim>\<open>trim\<close>, \<^verbatim>\<open>toLowerCase\<close>, \<^verbatim>\<open>includes\<close>, \<^verbatim>\<open>split\<close>, \<^verbatim>\<open>join\<close>,
  \<^verbatim>\<open>substring\<close>, and the decimal rendering of a number inside a template literal.
  They are written after the ECMAScript algorithms (StringIndexOf, TrimString,
  the clamping and swapping of \<^verbatim>\<open>substring\<close>), and each comes with the lemma that
  characterises it, so that the component theories reason about lists.
  \<^verbatim>\<open>toLowerCase\<close> is modelled on ASCII letters only (see the root header).
\<close>

subsection \<open>White space and digits\<close>

text \<open>
  ECMAScript WhiteSpace and LineTerminator code points: what \<^verbatim>\<open>trim\<close> removes and
  what \<^verbatim>\<open>\s\<close> matches in a regular expression.
\<close>

definition is_js_space :: "jchar \<Rightarrow> bool" where
  "is_js_space c \<longleftrightarrow>
     c \<in> set [9, 10, 11, 12, 13, 32, 160, 5760, 8232, 8233, 8239, 8287, 12288, 65279]
     \<or> (8192 \<le> c \<and> c \<le> 8202)"

text \<open>\<^verbatim>\<open>\d\<close> of a JavaScript regular expression: the ASCII digits only.\<close>

definition is_digit :: "jchar \<Rightarrow> bool" where
  "is_digit c \<longleftrightarrow> 48 \<le> c \<and> c \<le> 57"

lemma is_digit_not_space [simp]: "is_digit c \<Longrightarrow> \<not> is_js_space c"
  by (auto simp: is_digit_def is_js_space_def word_le_nat_alt)

subsection \<open>trim\<close>

lemma prefix_rev_dropWhile_rev: "prefix (rev (dropWhile P (rev d))) d"
  using suffix_dropWhile [of P "rev d"] by (simp add: suffix_to_prefix)

definition js_trim :: "jstr \<Rightarrow> jstr" where
  "js_trim s = rev (dropWhile is_js_space (rev (dropWhile is_js_space s)))"

lemma js_trim_sublist [intro]: "sublist (js_trim s) s"
proof -
  have "suffix (dropWhile is_js_space s) s"
    by (metis suffix_dropWhile)
  moreover have "prefix (rev (dropWhile is_js_space (rev (dropWhile is_js_space s))))
                   (dropWhile is_js_space s)"
    by (rule prefix_rev_dropWhile_rev)
  ultimately show ?thesis unfolding js_trim_def
    by (meson prefix_imp_sublist suffix_imp_sublist sublist_order.order_trans)
qed

lemma js_trim_Nil [simp]: "js_trim [] = []"
  by (simp add: js_trim_def)

lemma js_trim_hd: "js_trim s = c # r \<Longrightarrow> \<not> is_js_space c"
proof -
  assume eq: "js_trim s = c # r"
  let ?d = "dropWhile is_js_space s"
  have "?d \<noteq> []"
  proof
    assume d0: "?d = []"
    have "js_trim s = rev (dropWhile is_js_space (rev ?d))" by (simp only: js_trim_def)
    also have "\<dots> = []" by (simp only: d0 rev.simps dropWhile.simps)
    finally show False using eq by simp
  qed
  then obtain x xs where d: "?d = x # xs" by (cases ?d) auto
  then have "\<not> is_js_space x" by (metis dropWhile_eq_Cons_conv)
  from eq have "prefix [c] (js_trim s)" by simp
  moreover have "prefix (js_trim s) ?d"
    unfolding js_trim_def by (rule prefix_rev_dropWhile_rev)
  ultimately have "prefix [c] ?d" by (rule prefix_order.order_trans)
  with d have "c = x" by simp
  with \<open>\<not> is_js_space x\<close> show ?thesis by simp
qed

text \<open>Trimming keeps every occurrence of a phrase that starts and ends with a visible character.\<close>

lemma sublist_dropWhile:
  assumes "sublist p x" and "p \<noteq> []" and "\<not> P (hd p)"
  shows "sublist p (dropWhile P x)"
proof -
  from assms(1) obtain u v where x: "x = u @ p @ v" by (auto simp: sublist_def)
  from assms(2,3) have "dropWhile P (p @ v) = p @ v" by (cases p) auto
  then show ?thesis using x by (auto simp: dropWhile_append)
qed

lemma sublist_js_trim:
  assumes "sublist p x" and "p \<noteq> []" and "\<not> is_js_space (hd p)" and "\<not> is_js_space (last p)"
  shows "sublist p (js_trim x)"
proof -
  have d: "sublist p (dropWhile is_js_space x)"
    using assms(1-3) by (rule sublist_dropWhile)
  have "sublist (rev p) (rev (dropWhile is_js_space x))"
    using d by (simp add: sublist_rev_right)
  then have "sublist (rev p) (dropWhile is_js_space (rev (dropWhile is_js_space x)))"
    using assms(2,4) by (intro sublist_dropWhile) (simp_all add: hd_rev)
  then show ?thesis by (simp add: js_trim_def sublist_rev_right)
qed

subsection \<open>toLowerCase\<close>

definition js_lower_char :: "jchar \<Rightarrow> jchar" where
  "js_lower_char c = (if 65 \<le> c \<and> c \<le> 90 then c + 32 else c)"

definition js_lower :: "jstr \<Rightarrow> jstr" where
  "js_lower s = map js_lower_char s"

lemma length_js_lower [simp]: "length (js_lower s) = length s"
  by (simp add: js_lower_def)

lemma js_lower_Nil [simp]: "js_lower [] = []"
  by (simp add: js_lower_def)

lemma js_lower_Cons [simp]: "js_lower (c # s) = js_lower_char c # js_lower s"
  by (simp add: js_lower_def)

lemma js_lower_char_nl [simp]: "js_lower_char nl = nl"
  by (simp add: js_lower_char_def)

lemma js_lower_append [js_string]: "js_lower (a @ b) = js_lower a @ js_lower b"
  by (simp add: js_lower_def)

lemma js_lower_sublist [intro]: "sublist a b \<Longrightarrow> sublist (js_lower a) (js_lower b)"
  unfolding js_lower_def by (rule sublist_map)

lemma js_lower_char_fixed: "\<not> (65 \<le> c \<and> c \<le> 90) \<Longrightarrow> js_lower_char c = c"
  by (simp add: js_lower_char_def)

subsection \<open>includes: StringIndexOf\<close>

text \<open>
  StringIndexOf(S, searchValue, fromIndex) tries the positions from \<open>fromIndex\<close>
  upwards and returns the first at which the search value occurs; \<^verbatim>\<open>includes\<close> asks
  whether it returns anything from 0. The loop runs while a match still fits.
\<close>

function js_index_of :: "jstr \<Rightarrow> jstr \<Rightarrow> nat \<Rightarrow> nat option" where
  "js_index_of s p i =
     (if length s < i + length p then None
      else if take (length p) (drop i s) = p then Some i
      else js_index_of s p (Suc i))"
  by pat_completeness auto
termination
  by (relation "measure (\<lambda>(s, p, i). Suc (length s) - i)") auto

declare js_index_of.simps [simp del]

definition js_includes :: "jstr \<Rightarrow> jstr \<Rightarrow> bool" where
  "js_includes s p \<longleftrightarrow> js_index_of s p 0 \<noteq> None"

lemma js_index_of_Some:
  "js_index_of s p i = Some k \<Longrightarrow> i \<le> k \<and> take (length p) (drop k s) = p \<and> k + length p \<le> length s"
proof (induction s p i rule: js_index_of.induct)
  case (1 s p i)
  show ?case
    using "1.prems" "1.IH" by (auto simp: js_index_of.simps [of s p i] split: if_splits)
qed

lemma js_index_of_None:
  "js_index_of s p i = None \<Longrightarrow> i \<le> k \<Longrightarrow> take (length p) (drop k s) = p \<Longrightarrow>
     length s < k + length p"
proof (induction s p i rule: js_index_of.induct)
  case (1 s p i)
  show ?case
  proof (cases "length s < i + length p")
    case True
    with "1.prems"(2) show ?thesis by simp
  next
    case False
    with "1.prems"(1) have ne: "take (length p) (drop i s) \<noteq> p"
      and rec: "js_index_of s p (Suc i) = None"
      by (auto simp: js_index_of.simps [of s p i] split: if_splits)
    with "1.prems"(3) have "k \<noteq> i" by auto
    with "1.prems"(2) have "Suc i \<le> k" by simp
    with "1.IH" False ne rec "1.prems"(3) show ?thesis by blast
  qed
qed

lemma sublist_conv_take_drop:
  "sublist p s \<longleftrightarrow> (\<exists>k. take (length p) (drop k s) = p \<and> k + length p \<le> length s)"
proof
  assume "sublist p s"
  then obtain u v where "s = u @ p @ v" by (auto simp: sublist_def)
  then show "\<exists>k. take (length p) (drop k s) = p \<and> k + length p \<le> length s"
    by (intro exI [of _ "length u"]) simp
next
  assume "\<exists>k. take (length p) (drop k s) = p \<and> k + length p \<le> length s"
  then obtain k where "take (length p) (drop k s) = p" by blast
  then show "sublist p s" by (metis sublist_take_drop)
qed

text \<open>The scan of StringIndexOf decides contiguous occurrence.\<close>

lemma js_includes_iff_sublist [js_string]: "js_includes s p \<longleftrightarrow> sublist p s"
proof
  assume "js_includes s p"
  then obtain k where "js_index_of s p 0 = Some k" by (auto simp: js_includes_def)
  then show "sublist p s"
    by (auto simp: sublist_conv_take_drop dest!: js_index_of_Some)
next
  assume "sublist p s"
  then obtain k where k: "take (length p) (drop k s) = p" "k + length p \<le> length s"
    by (auto simp: sublist_conv_take_drop)
  show "js_includes s p"
  proof (rule ccontr)
    assume "\<not> js_includes s p"
    then have "js_index_of s p 0 = None" by (simp add: js_includes_def)
    from js_index_of_None [OF this _ k(1)] k(2) show False by simp
  qed
qed

subsection \<open>split and join on a one-character separator\<close>

text \<open>
  \<^verbatim>\<open>s.split(sep)\<close> for a one-code-unit separator: the pieces between separators, an
  empty string before a leading and after a trailing separator, and \<open>[""]\<close> for the
  empty string.
\<close>

fun js_split :: "jchar \<Rightarrow> jstr \<Rightarrow> jstr list" where
  "js_split c [] = [[]]"
| "js_split c (x # xs) =
     (let r = js_split c xs in if x = c then [] # r else (x # hd r) # tl r)"

fun js_join :: "jstr \<Rightarrow> jstr list \<Rightarrow> jstr" where
  "js_join sep [] = []"
| "js_join sep [w] = w"
| "js_join sep (w # ws) = w @ sep @ js_join sep ws"

lemma js_split_not_Nil [simp]: "js_split c s \<noteq> []"
  by (induction s) (auto simp: Let_def)

lemma js_join_Cons: "ws \<noteq> [] \<Longrightarrow> js_join sep (w # ws) = w @ sep @ js_join sep ws"
  by (cases ws) auto

lemma js_split_pieces: "w \<in> set (js_split c s) \<Longrightarrow> c \<notin> set w"
proof (induction s arbitrary: w)
  case Nil
  then show ?case by simp
next
  case (Cons x xs)
  obtain r0 rs where r: "js_split c xs = r0 # rs"
    by (cases "js_split c xs") auto
  with Cons show ?case by (auto simp: Let_def split: if_splits)
qed

lemma length_js_split: "length (js_split c s) = Suc (count_list s c)"
proof (induction s)
  case Nil
  then show ?case by simp
next
  case (Cons x xs)
  obtain r0 rs where "js_split c xs = r0 # rs"
    by (cases "js_split c xs") auto
  with Cons show ?case by (auto simp: Let_def)
qed

text \<open>Splitting undoes joining, and joining undoes splitting, on separator-free pieces.\<close>

lemma js_join_js_split [js_string]: "js_join [c] (js_split c s) = s"
proof (induction s)
  case Nil
  then show ?case by simp
next
  case (Cons x xs)
  obtain r0 rs where r: "js_split c xs = r0 # rs"
    by (cases "js_split c xs") auto
  show ?case
  proof (cases "x = c")
    case True
    with Cons r show ?thesis by (cases rs) (auto simp: Let_def)
  next
    case False
    with Cons r show ?thesis by (cases rs) (auto simp: Let_def)
  qed
qed

lemma js_split_no_sep: "c \<notin> set w \<Longrightarrow> js_split c w = [w]"
  by (induction w) (auto simp: Let_def)

lemma js_split_append_sep: "c \<notin> set w \<Longrightarrow> js_split c (w @ c # t) = w # js_split c t"
  by (induction w) (auto simp: Let_def)

lemma js_split_js_join:
  "ws \<noteq> [] \<Longrightarrow> (\<forall>w \<in> set ws. c \<notin> set w) \<Longrightarrow> js_split c (js_join [c] ws) = ws"
proof (induction ws)
  case Nil
  then show ?case by simp
next
  case (Cons w ws)
  show ?case
  proof (cases "ws = []")
    case True
    with Cons.prems show ?thesis by (simp add: js_split_no_sep)
  next
    case False
    with Cons show ?thesis by (simp add: js_join_Cons js_split_append_sep)
  qed
qed

text \<open>A phrase free of the separator occurs in a joined text only inside one piece.\<close>

lemma sublist_js_join:
  assumes "sublist p (js_join [c] ws)" and "p \<noteq> []" and "c \<notin> set p"
  shows "\<exists>w \<in> set ws. sublist p w"
  using assms(1)
proof (induction ws)
  case Nil
  with assms(2) show ?case by simp
next
  case (Cons w ws)
  show ?case
  proof (cases "ws = []")
    case True
    with Cons.prems show ?thesis by simp
  next
    case False
    with Cons.prems have "sublist p (w @ [c] @ js_join [c] ws)" by (simp add: js_join_Cons)
    then consider "sublist p w" | "sublist p ([c] @ js_join [c] ws)"
      | xs1 xs2 where "p = xs1 @ xs2" "suffix xs1 w" "prefix xs2 ([c] @ js_join [c] ws)"
      by (auto simp: sublist_append)
    then show ?thesis
    proof cases
      case 1
      then show ?thesis by auto
    next
      case 2
      then have "sublist p (js_join [c] ws)"
        using assms(3) by (auto simp: sublist_Cons_right prefix_Cons)
      with Cons.IH show ?thesis by auto
    next
      case 3
      show ?thesis
      proof (cases xs2)
        case Nil
        with 3 have "sublist p w" by (simp add: suffix_imp_sublist)
        then show ?thesis by auto
      next
        case (Cons y ys)
        with 3 have "y = c" and "y \<in> set p" by (auto simp: prefix_def)
        with assms(3) show ?thesis by simp
      qed
    qed
  qed
qed

lemma sublist_js_join_piece: "w \<in> set ws \<Longrightarrow> sublist p w \<Longrightarrow> sublist p (js_join sep ws)"
proof (induction ws)
  case Nil
  then show ?case by simp
next
  case (Cons v vs)
  show ?case
  proof (cases "vs = []")
    case True
    with Cons.prems show ?thesis by simp
  next
    case False
    then have j: "js_join sep (v # vs) = v @ sep @ js_join sep vs" by (rule js_join_Cons)
    show ?thesis
    proof (cases "w = v")
      case True
      have "sublist v (js_join sep (v # vs))" unfolding j by (rule sublist_append_rightI)
      with Cons.prems True show ?thesis by (blast intro: sublist_order.order_trans)
    next
      case False
      with Cons have "sublist p (js_join sep vs)" by simp
      moreover have "sublist (js_join sep vs) (js_join sep (v # vs))"
        unfolding j append.assoc [symmetric] by (rule sublist_append_leftI)
      ultimately show ?thesis by (rule sublist_order.order_trans)
    qed
  qed
qed

subsection \<open>findIndex\<close>

text \<open>
  \<^verbatim>\<open>Array.prototype.findIndex\<close>, and the equivalent \<^verbatim>\<open>for\<close> loop with \<^verbatim>\<open>break\<close>
  of the source: the first index whose element satisfies the test; \<open>None\<close> stands
  for the \<open>-1\<close> of the source.
\<close>

fun js_find_index :: "('a \<Rightarrow> bool) \<Rightarrow> 'a list \<Rightarrow> nat option" where
  "js_find_index P [] = None"
| "js_find_index P (x # xs) = (if P x then Some 0 else map_option Suc (js_find_index P xs))"

lemma js_find_index_None [js_string]: "js_find_index P xs = None \<longleftrightarrow> (\<forall>x \<in> set xs. \<not> P x)"
  by (induction xs) auto

lemma js_find_index_Some:
  "js_find_index P xs = Some k \<Longrightarrow> k < length xs \<and> P (xs ! k) \<and> (\<forall>j < k. \<not> P (xs ! j))"
proof (induction xs arbitrary: k)
  case Nil
  then show ?case by simp
next
  case (Cons x xs)
  show ?case
  proof (cases "P x")
    case True
    with Cons.prems show ?thesis by simp
  next
    case False
    with Cons.prems obtain k' where k': "js_find_index P xs = Some k'" "k = Suc k'"
      by auto
    with Cons.IH have "k' < length xs \<and> P (xs ! k') \<and> (\<forall>j < k'. \<not> P (xs ! j))"
      by blast
    with False k'(2) show ?thesis by (auto simp: less_Suc_eq_0_disj)
  qed
qed

lemma js_find_index_take: "js_find_index P xs = Some k \<Longrightarrow> \<forall>x \<in> set (take k xs). \<not> P x"
  by (auto dest!: js_find_index_Some simp: in_set_conv_nth)

lemma js_find_index_append:
  "(\<forall>x \<in> set xs. \<not> P x) \<Longrightarrow> P y \<Longrightarrow> js_find_index P (xs @ y # ys) = Some (length xs)"
  by (induction xs) auto

subsection \<open>substring\<close>

text \<open>
  \<^verbatim>\<open>s.substring(start, end)\<close>: both arguments are clamped to \<open>[0, length]\<close>, and
  swapped when \<open>start > end\<close>; \<^verbatim>\<open>s.substring(start)\<close> runs to the end.
\<close>

definition js_substring :: "jstr \<Rightarrow> int \<Rightarrow> int \<Rightarrow> jstr" where
  "js_substring s i j =
     (let n = int (length s);
          a = min (max i 0) n; b = min (max j 0) n;
          lo = nat (min a b); hi = nat (max a b)
      in take (hi - lo) (drop lo s))"

definition js_substring_from :: "jstr \<Rightarrow> int \<Rightarrow> jstr" where
  "js_substring_from s i = js_substring s i (int (length s))"

lemma js_substring_in_range:
  "0 \<le> i \<Longrightarrow> i \<le> j \<Longrightarrow> j \<le> int (length s) \<Longrightarrow>
     js_substring s i j = take (nat (j - i)) (drop (nat i) s)"
  by (simp add: js_substring_def Let_def nat_diff_distrib)

lemma js_substring_prefix [js_string]:
  "0 \<le> j \<Longrightarrow> js_substring s 0 j = take (nat j) s"
  by (simp add: js_substring_def Let_def min_def max_def nat_le_iff take_all)

lemma length_js_substring_prefix:
  "0 \<le> j \<Longrightarrow> length (js_substring s 0 j) = min (nat j) (length s)"
  by (simp add: js_substring_prefix)

lemma js_substring_sublist [intro]: "sublist (js_substring s i j) s"
  by (simp add: js_substring_def Let_def sublist_take_drop)

subsection \<open>Numbers in template literals\<close>

text \<open>A non-negative integer rendered in a template literal: its decimal digits.\<close>

fun js_show_nat :: "nat \<Rightarrow> jstr" where
  "js_show_nat n =
     (if n < 10 then [48 + word_of_nat n] else js_show_nat (n div 10) @ [48 + word_of_nat (n mod 10)])"

declare js_show_nat.simps [simp del]

end
