(* ===== verification/World.thy ===== *)
theory World
  imports JsString
begin

text \<open>
  The interface between the worker (\<^verbatim>\<open>src/contentProcessor.js\<close>) and what it talks
  to. A call that may throw returns an \<open>outcome\<close>: \<open>Inl\<close> with the message of the
  thrown \<^verbatim>\<open>Error\<close>, \<open>Inr\<close> with the value. The external services (HTTP, the YouTube
  Data API, the transcript library, OpenRouter, the PowerShell speech engine) and the
  process environment are fields of a \<open>services\<close> record that the model reads and
  never changes: each is an arbitrary function, so every theorem holds for every way
  they answer. The state the worker changes is the file system, a \<open>world\<close> record of
  file contents and directories; \<^verbatim>\<open>Date.now()\<close> reads its clock.
\<close>

type_synonym 'a outcome = "jstr + 'a"

text \<open>A video resource of the YouTube Data API: \<^verbatim>\<open>snippet.title\<close> and \<^verbatim>\<open>snippet.description\<close>.\<close>

type_synonym snippet = "jstr \<times> jstr"

record services =
  http_get :: "jstr \<Rightarrow> jstr outcome"
  yt_videos :: "nat \<Rightarrow> jstr option \<Rightarrow> jstr \<Rightarrow> snippet list outcome"
  yt_transcript :: "jstr \<Rightarrow> jstr list outcome"
  openrouter_key :: "jstr option"
  youtube_key :: "jstr option"
  chat :: "jstr \<Rightarrow> jstr \<Rightarrow> jstr \<Rightarrow> jstr outcome"
  speak :: "jstr \<Rightarrow> jstr \<Rightarrow> bytes outcome"
  write_error :: "jstr \<Rightarrow> jstr option"
  base_dir :: jstr

text \<open>
  \<open>http_get url\<close> is \<^verbatim>\<open>axios.get(url, ...)\<close> and its \<^verbatim>\<open>response.data\<close>;
  \<open>yt_videos n key id\<close> is the \<open>n\<close>-th request to the videos endpoint of one job (0 in
  the \<^verbatim>\<open>try\<close> block, 1 in the \<^verbatim>\<open>catch\<close> block, which may be answered differently) and
  its \<^verbatim>\<open>items\<close>; \<open>yt_transcript id\<close> is \<^verbatim>\<open>YoutubeTranscript.fetchTranscript\<close> with
  the \<^verbatim>\<open>text\<close> of its segments; \<open>chat key model prompt\<close> is the POST to OpenRouter and
  its \<^verbatim>\<open>choices[0].message.content\<close>; \<open>speak voice text\<close> is the PowerShell command
  with its 60 s timeout, the wave data it renders or the error \<^verbatim>\<open>execAsync\<close> rejects
  with; \<open>write_error p\<close> is the error a write or \<^verbatim>\<open>mkdir\<close> at \<open>p\<close> throws, if any;
  \<open>base_dir\<close> is \<^verbatim>\<open>__dirname\<close>.
\<close>

datatype fdata = TextFile jstr | BinFile bytes

record world =
  files :: "jstr \<rightharpoonup> fdata"
  dirs :: "jstr set"
  clock :: nat

subsection \<open>File-system operations\<close>

text \<open>\<^verbatim>\<open>path.join(dir, name)\<close> on Windows, where the PowerShell engine runs.\<close>

definition path_join :: "jstr \<Rightarrow> jstr \<Rightarrow> jstr" where
  "path_join d n = d @ [92] @ n"

definition write_file :: "services \<Rightarrow> jstr \<Rightarrow> fdata \<Rightarrow> world \<Rightarrow> world outcome" where
  "write_file srv p x w =
     (case write_error srv p of
        Some e \<Rightarrow> Inl e
      | None \<Rightarrow> Inr (w\<lparr>files := (files w)(p \<mapsto> x)\<rparr>))"

definition unlink_file :: "jstr \<Rightarrow> world \<Rightarrow> world outcome" where
  "unlink_file p w =
     (if p \<in> dom (files w) then Inr (w\<lparr>files := (files w)(p := None)\<rparr>)
      else Inl (js ''ENOENT: no such file or directory, unlink'' @ js '' '' @ p))"

definition make_dir :: "services \<Rightarrow> jstr \<Rightarrow> world \<Rightarrow> world outcome" where
  "make_dir srv d w =
     (case write_error srv d of
        Some e \<Rightarrow> Inl e
      | None \<Rightarrow> Inr (w\<lparr>dirs := insert d (dirs w)\<rparr>))"

subsection \<open>A concrete environment\<close>

text \<open>
  Services that answer every request, and an empty file system at time 7: the
  witnesses below run the operations on them and on variants of them built by record
  update.
\<close>

definition demo_answer :: jstr where
  "demo_answer = js ''Intro'' @ [nl] @ js ''Key points:'' @ [nl] @ js ''1. Learn topic A'' @ [nl] @
                 js ''2. Learn topic B'' @ [nl] @ js ''3. Learn topic C''"

definition demo_services :: services where
  "demo_services =
     \<lparr>http_get = \<lambda>u. Inr (js ''<html><TITLE>Test</Title></html>''),
      yt_videos = \<lambda>n k v. Inr [(js ''Talk'', js ''About it'')],
      yt_transcript = \<lambda>v. Inr [js ''hello'', js ''world''],
      openrouter_key = Some (js ''key''), youtube_key = Some (js ''yt''),
      chat = \<lambda>k m p. Inr demo_answer,
      speak = \<lambda>v t. Inr [1, 2], write_error = \<lambda>p. None, base_dir = js ''C:''\<rparr>"

definition demo_world :: world where
  "demo_world = \<lparr>files = Map.empty, dirs = {}, clock = 7\<rparr>"

lemma write_file_Inr:
  "write_file srv p x w = Inr w' \<longleftrightarrow> write_error srv p = None \<and> w' = w\<lparr>files := (files w)(p \<mapsto> x)\<rparr>"
  by (auto simp: write_file_def split: option.splits)

lemma write_file_Inl: "write_file srv p x w = Inl e \<longleftrightarrow> write_error srv p = Some e"
  by (auto simp: write_file_def split: option.splits)

lemma make_dir_Inr:
  "make_dir srv d w = Inr w' \<longleftrightarrow> write_error srv d = None \<and> w' = w\<lparr>dirs := insert d (dirs w)\<rparr>"
  by (auto simp: make_dir_def split: option.splits)

lemma unlink_file_present:
  "p \<in> dom (files w) \<Longrightarrow> unlink_file p w = Inr (w\<lparr>files := (files w)(p := None)\<rparr>)"
  by (simp add: unlink_file_def)

subsection \<open>Numbers in file names\<close>

text \<open>
  A number in a file name (\<^verbatim>\<open>${Date.now()}\<close>, \<^verbatim>\<open>${contentData.sourceId}\<close>) is a
  non-empty run of ASCII digits.
\<close>

lemma js_show_nat_digits: "\<forall>c \<in> set (js_show_nat n). is_digit c"
proof (induction n rule: js_show_nat.induct)
  case (1 n)
  have d: "is_digit (48 + word_of_nat m)" if "m < 10" for m :: nat
  proof -
    have "unat (48 + word_of_nat m :: 16 word) = 48 + m"
      using that by (simp add: unat_word_ariths unat_of_nat)
    then show ?thesis using that by (simp add: is_digit_def word_le_nat_alt)
  qed
  show ?case
    using "1.IH" d by (subst js_show_nat.simps) auto
qed

lemma js_show_nat_not_Nil [simp]: "js_show_nat n \<noteq> []"
  by (subst js_show_nat.simps) simp

end
