(* ===== verification/Transcript.thy ===== *)
theory Transcript
  imports JsString
begin

text \<open>
  The pure parts of the YouTube branch of \<^verbatim>\<open>processContent\<close>
  (\<^verbatim>\<open>src/contentProcessor.js\<close>): the video identifier taken from the URL by the
  regular expression of line 71, the transcript text of line 96, and the content
  summary of lines 99--111 with its sampling of long transcripts (first, middle and
  last 1000 code units). The effectful calls around them are in \<open>Extractor\<close>.
\<close>

subsection \<open>The video identifier (lines 71--72)\<close>

text \<open>
  \<^verbatim>\<open>/(?:youtube\.com\/watch\?v=|youtu\.be\/)([^&\n?#]+)/\<close>: the leftmost position at
  which one of the two literal prefixes is followed by at least one character outside
  \<open>& \n ? #\<close>; the greedy group takes the longest such run. At one position at most
  one alternative can match (they differ at their sixth character), so trying them in
  order is the backtracking of the regular expression.
\<close>

definition yt_watch :: jstr where "yt_watch = js ''youtube.com/watch?v=''"
definition yt_short :: jstr where "yt_short = js ''youtu.be/''"

definition is_id_char :: "jchar \<Rightarrow> bool" where
  "is_id_char c \<longleftrightarrow> c \<notin> {38, 10, 63, 35}"

definition id_at :: "jstr \<Rightarrow> jstr option" where
  "id_at s =
     (let v1 = takeWhile is_id_char (drop (length yt_watch) s);
          v2 = takeWhile is_id_char (drop (length yt_short) s)
      in if prefix yt_watch s \<and> v1 \<noteq> [] then Some v1
         else if prefix yt_short s \<and> v2 \<noteq> [] then Some v2
         else None)"

fun video_id_match :: "jstr \<Rightarrow> jstr option" where
  "video_id_match [] = None"
| "video_id_match (c # s) = (case id_at (c # s) of Some v \<Rightarrow> Some v | None \<Rightarrow> video_id_match s)"

subsection \<open>Transcript text and content summary (lines 96--111)\<close>

definition transcript_text :: "jstr list \<Rightarrow> jstr" where
  "transcript_text segs = js_join [space_char] segs"

definition sample_first :: "jstr \<Rightarrow> jstr" where
  "sample_first t = js_substring t 0 1000"

definition middle_start :: "jstr \<Rightarrow> int" where
  "middle_start t = int (length t) div 2 - 500"

definition sample_middle :: "jstr \<Rightarrow> jstr" where
  "sample_middle t = js_substring t (middle_start t) (middle_start t + 1000)"

definition sample_end :: "jstr \<Rightarrow> jstr" where
  "sample_end t = js_substring_from t (int (length t) - 1000)"

definition transcript_section :: "jstr \<Rightarrow> jstr" where
  "transcript_section t =
     (if 3000 < length t
      then js ''Transcript (sampled):'' @ [nl] @ sample_first t @ js ''...'' @ [nl, nl] @
           js ''[middle section]'' @ [nl] @ sample_middle t @ js ''...'' @ [nl, nl] @
           js ''[end section]'' @ [nl] @ sample_end t
      else js ''Transcript: '' @ t)"

definition video_summary :: "jstr \<Rightarrow> jstr \<Rightarrow> jstr \<Rightarrow> jstr" where
  "video_summary title descr t =
     title @ [nl, nl] @ js ''Description: '' @ descr @ [nl, nl] @ transcript_section t"

subsection \<open>Facts about the identifier scan\<close>

lemma id_at_Some:
  "id_at s = Some v \<Longrightarrow> v \<noteq> [] \<and> (\<forall>c \<in> set v. is_id_char c) \<and> (prefix (yt_watch @ v) s \<or> prefix (yt_short @ v) s)"
proof -
  assume a: "id_at s = Some v"
  have tw: "\<forall>c \<in> set (takeWhile is_id_char xs). is_id_char c" for xs :: jstr
    by (auto dest: set_takeWhileD)
  have pre: "prefix (u @ takeWhile is_id_char (drop (length u) s)) s" if "prefix u s" for u
  proof -
    from that obtain r where s: "s = u @ r" by (auto simp: prefix_def)
    have "prefix (takeWhile is_id_char r) r" by (rule takeWhile_is_prefix)
    then show ?thesis using s by simp
  qed
  show ?thesis using a tw pre by (auto simp: id_at_def Let_def split: if_splits)
qed

lemma id_at_no_y: "s \<noteq> [] \<Longrightarrow> hd s \<noteq> 121 \<Longrightarrow> id_at s = None"
  by (cases s) (auto simp: id_at_def Let_def yt_watch_def yt_short_def js_def)

lemma video_id_match_skip: "121 \<notin> set p \<Longrightarrow> video_id_match (p @ s) = video_id_match s"
  by (induction p) (auto simp: id_at_no_y)

lemma takeWhile_append_stop:
  "\<forall>x \<in> set v. P x \<Longrightarrow> r = [] \<or> \<not> P (hd r) \<Longrightarrow> takeWhile P (v @ r) = v"
  by (cases r) (simp_all add: takeWhile_append2)

lemma video_id_match_id_at: "id_at s = Some v \<Longrightarrow> video_id_match s = Some v"
  by (cases s) (simp_all add: id_at_def Let_def)

subsection \<open>Facts about the sampling\<close>

lemma sampling_parts:
  assumes "3000 < length t"
  shows "sample_first t = take 1000 t"
    and "sample_middle t = take 1000 (drop (length t div 2 - 500) t)"
    and "sample_end t = drop (length t - 1000) t"
proof -
  show "sample_first t = take 1000 t"
    by (simp add: sample_first_def js_substring_prefix)
  have ms: "middle_start t = int (length t div 2 - 500)"
    using assms by (simp add: middle_start_def zdiv_int of_nat_diff)
  have "length t div 2 - 500 + 1000 \<le> length t" using assms by simp
  moreover have "nat (int (length t div 2) - 500) = length t div 2 - 500"
    by (simp add: nat_diff_distrib')
  ultimately show "sample_middle t = take 1000 (drop (length t div 2 - 500) t)"
    unfolding sample_middle_def ms by (subst js_substring_in_range) simp_all
  show "sample_end t = drop (length t - 1000) t"
    unfolding sample_end_def js_substring_from_def
    using assms by (subst js_substring_in_range) (simp_all add: nat_diff_distrib')
qed

subsection \<open>Properties of the YouTube content pieces\<close>

text \<open>
  C10. A transcript longer than 3000 code units is sampled as its first 1000 code
  units, the 1000 code units starting 500 before its middle, and its last 1000 code
  units: three windows of exactly 1000 code units each.
\<close>

theorem transcript_sampling:
  assumes "3000 < length t"
  shows "sample_first t = take 1000 t \<and> sample_middle t = take 1000 (drop (length t div 2 - 500) t) \<and>
         sample_end t = drop (length t - 1000) t \<and>
         length (sample_first t) = 1000 \<and> length (sample_middle t) = 1000 \<and> length (sample_end t) = 1000"
  using sampling_parts [OF assms] assms by simp

text \<open>
  C11. Whatever the length of the transcript, the transcript part of the video
  content is at most 3063 code units long: a short transcript appears whole after its
  12-unit label, a long one as three 1000-unit windows with 63 units of labels.
\<close>

theorem transcript_section_length: "length (transcript_section t) \<le> 3063"
proof (cases "3000 < length t")
  case True
  then show ?thesis using sampling_parts [OF True] by (simp add: transcript_section_def)
next
  case False
  then show ?thesis by (simp add: transcript_section_def)
qed

text \<open>
  C12. The identifier written after \<^verbatim>\<open>youtube.com/watch?v=\<close> or \<^verbatim>\<open>youtu.be/\<close> in a URL is
  read back exactly: when it is non-empty, has none of \<open>& \n ? #\<close>, is followed by the
  end of the URL or by one of those characters, and the text before it has no \<open>y\<close>.
\<close>

theorem video_id_roundtrip:
  assumes "121 \<notin> set p" and "v \<noteq> []" and "list_all is_id_char v"
    and "r = [] \<or> \<not> is_id_char (hd r)"
  shows "video_id_match (p @ js ''youtube.com/watch?v='' @ v @ r) = Some v \<and>
         video_id_match (p @ js ''youtu.be/'' @ v @ r) = Some v"
proof -
  have tw: "takeWhile is_id_char (v @ r) = v"
    by (rule takeWhile_append_stop) (use assms(3,4) in \<open>simp_all add: list_all_iff\<close>)
  have w: "id_at (yt_watch @ v @ r) = Some v"
    using tw assms(2) by (simp add: id_at_def Let_def)
  have ne: "\<not> prefix yt_watch (yt_short @ v @ r)"
    by (simp add: yt_watch_def yt_short_def js_def)
  have s: "id_at (yt_short @ v @ r) = Some v"
    using tw assms(2) ne by (simp add: id_at_def Let_def)
  show ?thesis
    using video_id_match_id_at [OF w] video_id_match_id_at [OF s] assms(1)
    by (simp add: video_id_match_skip yt_watch_def yt_short_def)
qed

text \<open>
  C13. An identifier the regular expression yields is non-empty, has none of
  \<open>& \n ? #\<close>, and occurs in the URL right after one of the two literal prefixes.
\<close>

theorem video_id_match_sound:
  "video_id_match s = Some v \<Longrightarrow>
     v \<noteq> [] \<and> list_all is_id_char v \<and> (sublist (yt_watch @ v) s \<or> sublist (yt_short @ v) s)"
proof (induction s)
  case Nil
  then show ?case by simp
next
  case (Cons c s)
  show ?case
  proof (cases "id_at (c # s)")
    case None
    with Cons.prems have "video_id_match s = Some v" by simp
    with Cons.IH show ?thesis by (auto simp: sublist_Cons_right)
  next
    case (Some w)
    with Cons.prems have "w = v" by simp
    with Some show ?thesis by (auto dest!: id_at_Some intro: prefix_imp_sublist simp: list_all_iff)
  qed
qed

subsection \<open>Witnesses\<close>

theorem transcript_sampling_witness:
  "length (sample_middle (replicate 3001 space_char)) = 1000"
  using transcript_sampling [of "replicate 3001 space_char"] by simp

theorem video_id_roundtrip_witness:
  "video_id_match (js ''https://www.youtube.com/watch?v='' @ js ''abc'' @ js ''&t=1'') = Some (js ''abc'')"
proof -
  have "video_id_match (js ''https://www.'' @ js ''youtube.com/watch?v='' @ js ''abc'' @ js ''&t=1'') = Some (js ''abc'')"
    using video_id_roundtrip [of "js ''https://www.''" "js ''abc''" "js ''&t=1''"]
    by (simp add: js_def is_id_char_def)
  then show ?thesis by (simp add: js_append [symmetric])
qed

theorem video_id_match_sound_witness:
  "sublist (yt_short @ js ''xyz'') (js ''youtu.be/xyz'')"
proof -
  have "video_id_match (js ''youtu.be/xyz'') = Some (js ''xyz'')" by code_simp
  from video_id_match_sound [OF this] show ?thesis
    by (simp add: yt_watch_def yt_short_def js_def)
qed

end
