(* ===== verification/Extractor.thy ===== *)
theory Extractor
  imports World Transcript
begin

text \<open>
  The extraction step of \<^verbatim>\<open>processContent\<close> (\<^verbatim>\<open>src/contentProcessor.js\<close>, lines
  58--142): the dispatch on \<^verbatim>\<open>contentData.type\<close>, the article fetch and its title
  regular expression, the YouTube branch with its metadata and transcript requests
  and the fallback in its \<^verbatim>\<open>catch\<close> block, and the stub content of every other source
  type. It returns the pair \<open>(content, title)\<close> or the message of the error it lets
  escape to the outer \<^verbatim>\<open>catch\<close> of \<^verbatim>\<open>processContent\<close>.
\<close>

subsection \<open>The job description\<close>

text \<open>
  \<^verbatim>\<open>contentData\<close> as \<^verbatim>\<open>App.js\<close> sends it through the IPC handler of \<^verbatim>\<open>main.js\<close>:
  \<^verbatim>\<open>{sourceId, url, type, model}\<close>; \<open>cd_model\<close> is \<open>None\<close> when the field is missing.
\<close>

record content_data =
  cd_source_id :: nat
  cd_url :: jstr
  cd_type :: jstr
  cd_model :: "jstr option"

subsection \<open>The article title (line 67)\<close>

text \<open>
  \<^verbatim>\<open>/<title>(.*?)<\/title>/i\<close>: at the leftmost position where \<^verbatim>\<open><title>\<close> occurs in
  any letter case, the shortest run of characters other than line terminators that is
  followed by \<^verbatim>\<open></title>\<close>. The \<^verbatim>\<open>i\<close> flag without \<^verbatim>\<open>u\<close> identifies a character
  with its upper-case form only when both are ASCII or both are not, so for the ASCII
  literals here it is ASCII case folding, which \<open>js_lower\<close> computes.
\<close>

definition ci_prefix :: "jstr \<Rightarrow> jstr \<Rightarrow> bool" where
  "ci_prefix p s \<longleftrightarrow> length p \<le> length s \<and> js_lower (take (length p) s) = js_lower p"

definition is_line_terminator :: "jchar \<Rightarrow> bool" where
  "is_line_terminator c \<longleftrightarrow> c \<in> {10, 13, 8232, 8233}"

definition title_open :: jstr where "title_open = js ''<title>''"
definition title_close :: jstr where "title_close = js ''</title>''"

fun title_close_scan :: "jstr \<Rightarrow> jstr option" where
  "title_close_scan [] = None"
| "title_close_scan (c # s) =
     (if ci_prefix title_close (c # s) then Some []
      else if is_line_terminator c then None
      else map_option (Cons c) (title_close_scan s))"

definition title_at :: "jstr \<Rightarrow> jstr option" where
  "title_at s = (if ci_prefix title_open s then title_close_scan (drop (length title_open) s) else None)"

fun title_search :: "jstr \<Rightarrow> jstr option" where
  "title_search [] = None"
| "title_search (c # s) = (case title_at (c # s) of Some t \<Rightarrow> Some t | None \<Rightarrow> title_search s)"

definition article_title :: "jstr \<Rightarrow> jstr" where
  "article_title body = (case title_search body of Some t \<Rightarrow> t | None \<Rightarrow> js ''Article'')"

subsection \<open>The three branches (lines 58--142)\<close>

definition extract_article :: "services \<Rightarrow> content_data \<Rightarrow> (jstr \<times> jstr) outcome" where
  "extract_article srv cd =
     (case http_get srv (cd_url cd) of
        Inl e \<Rightarrow> Inl e
      | Inr body \<Rightarrow> Inr (body, article_title body))"

definition youtube_stub :: "content_data \<Rightarrow> jstr \<times> jstr" where
  "youtube_stub cd = (js ''YouTube video: '' @ cd_url cd, js ''YouTube Video'')"

text \<open>Lines 75--113: the \<^verbatim>\<open>try\<close> block, metadata first, then the transcript.\<close>

definition youtube_try :: "services \<Rightarrow> jstr \<Rightarrow> (jstr \<times> jstr) outcome" where
  "youtube_try srv vid =
     (case yt_videos srv 0 (youtube_key srv) vid of
        Inl e \<Rightarrow> Inl e
      | Inr items \<Rightarrow>
          (let (vtitle, vdescr) = (case items of [] \<Rightarrow> (js ''YouTube Video'', []) | it # _ \<Rightarrow> it) in
           case yt_transcript srv vid of
             Inl e \<Rightarrow> Inl e
           | Inr segs \<Rightarrow> Inr (video_summary vtitle vdescr (transcript_text segs), vtitle)))"

text \<open>Lines 115--133: the \<^verbatim>\<open>catch\<close> block repeats the metadata request, outside any \<^verbatim>\<open>try\<close>.\<close>

definition youtube_fallback :: "services \<Rightarrow> content_data \<Rightarrow> jstr \<Rightarrow> (jstr \<times> jstr) outcome" where
  "youtube_fallback srv cd vid =
     (case yt_videos srv 1 (youtube_key srv) vid of
        Inl e \<Rightarrow> Inl e
      | Inr [] \<Rightarrow> Inr (youtube_stub cd)
      | Inr ((vtitle, vdescr) # _) \<Rightarrow> Inr (vtitle @ [nl, nl] @ vdescr, vtitle))"

definition extract_youtube :: "services \<Rightarrow> content_data \<Rightarrow> (jstr \<times> jstr) outcome" where
  "extract_youtube srv cd =
     (case video_id_match (cd_url cd) of
        None \<Rightarrow> Inr (youtube_stub cd)
      | Some vid \<Rightarrow>
          (case youtube_try srv vid of
             Inr r \<Rightarrow> Inr r
           | Inl _ \<Rightarrow> youtube_fallback srv cd vid))"

definition extract_generic :: "content_data \<Rightarrow> jstr \<times> jstr" where
  "extract_generic cd = (js ''Content from '' @ cd_type cd @ js '': '' @ cd_url cd, cd_type cd)"

definition extract_content :: "services \<Rightarrow> content_data \<Rightarrow> (jstr \<times> jstr) outcome" where
  "extract_content srv cd =
     (if cd_type cd = js ''article'' then extract_article srv cd
      else if cd_type cd = js ''youtube'' then extract_youtube srv cd
      else Inr (extract_generic cd))"

subsection \<open>Example jobs\<close>

definition demo_article :: content_data where
  "demo_article = \<lparr>cd_source_id = 1, cd_url = js ''http://example.com'', cd_type = js ''article'', cd_model = None\<rparr>"

definition demo_video :: content_data where
  "demo_video = \<lparr>cd_source_id = 2, cd_url = js ''https://youtu.be/abc'', cd_type = js ''youtube'', cd_model = None\<rparr>"

subsection \<open>Facts about the title scan\<close>

lemma js_lower_char_eq_nonletter:
  assumes "\<not> (65 \<le> x \<and> x \<le> 90)" and "\<not> (97 \<le> x \<and> x \<le> 122)"
  shows "js_lower_char c = x \<longleftrightarrow> c = x"
proof (cases "65 \<le> c \<and> c \<le> 90")
  case True
  then have "97 \<le> c + 32 \<and> c + 32 \<le> (122 :: 16 word)"
    by (simp add: word_le_nat_alt unat_word_ariths)
  then have "c + 32 \<noteq> x" using assms(2) by auto
  moreover have "c \<noteq> x" using True assms(1) by auto
  ultimately show ?thesis using True by (simp add: js_lower_char_def)
next
  case False
  then show ?thesis by (simp add: js_lower_char_fixed)
qed

lemma js_lower_title_close [simp]: "js_lower title_close = title_close"
  by (simp add: title_close_def js_def js_lower_char_def)

lemma js_lower_title_open [simp]: "js_lower title_open = title_open"
  by (simp add: title_open_def js_def js_lower_char_def)

lemma ci_prefix_append: "js_lower q = js_lower p \<Longrightarrow> ci_prefix p (q @ r)"
  unfolding ci_prefix_def by (metis append_eq_conv_conj length_js_lower order_refl length_append le_add1)

lemma lt_not_letter: "js_lower_char c = 60 \<longleftrightarrow> c = 60"
  by (rule js_lower_char_eq_nonletter) simp_all

lemma ci_prefix_tag_hd:
  "ci_prefix title_close (c # s) \<Longrightarrow> c = 60" "ci_prefix title_open (c # s) \<Longrightarrow> c = 60"
  by (simp_all add: ci_prefix_def title_close_def title_open_def js_def lt_not_letter js_lower_char_fixed)

lemma title_close_scan_upto:
  assumes "60 \<notin> set t" and "list_all (\<lambda>c. \<not> is_line_terminator c) t"
    and "js_lower ct = title_close"
  shows "title_close_scan (t @ ct @ r) = Some t"
  using assms
proof (induction t)
  case Nil
  have "ct \<noteq> []" using Nil.prems(3) by (auto simp: title_close_def js_def)
  then obtain c q where "ct = c # q" by (cases ct) auto
  moreover have "ci_prefix title_close (ct @ r)"
    using Nil.prems(3) by (intro ci_prefix_append) simp
  ultimately show ?case by simp
next
  case (Cons c t)
  have "\<not> ci_prefix title_close (c # t @ ct @ r)"
    using Cons.prems(1) ci_prefix_tag_hd(1) by auto
  then show ?case using Cons by simp
qed


lemma length_title_open: "length title_open = 7"
  by (simp add: title_open_def js_def)

lemma ci_prefix_open_take: "ci_prefix title_open x \<Longrightarrow> js_lower (take 7 x) = title_open"
  by (simp add: ci_prefix_def length_title_open)

lemma length_eq_js_lower: "js_lower a = b \<Longrightarrow> length a = length b"
  by (metis length_js_lower)

lemma title_at_open:
  assumes "js_lower ot = title_open"
  shows "title_at (ot @ s) = title_close_scan s"
proof -
  have "length ot = length title_open" using assms by (rule length_eq_js_lower)
  then show ?thesis using assms by (simp add: title_at_def ci_prefix_append)
qed

lemma title_open_no_border:
  assumes "sublist title_open (u @ take 6 title_open)"
  shows "sublist title_open u"
proof -
  have nb: "60 \<notin> set (tl title_open)" by (simp add: title_open_def js_def)
  have l6: "length (take 6 title_open) = 6" by (simp add: length_title_open)
  have mid: False if "title_open = xs1 @ xs2" "xs1 \<noteq> []" "xs2 \<noteq> []" "prefix xs2 (take 6 title_open)"
    for xs1 xs2
  proof -
    have "hd xs2 = 60" using that(3,4) by (auto simp: title_open_def js_def prefix_def Cons_eq_append_conv)
    moreover have "tl title_open = tl xs1 @ xs2" using that(1,2) by (metis tl_append2)
    ultimately have "60 \<in> set (tl title_open)" using that(3) by (metis hd_in_set in_set_conv_decomp append_assoc)
    then show False using nb by simp
  qed
  from assms consider (left) "sublist title_open u" | (right) "sublist title_open (take 6 title_open)"
    | (across) xs1 xs2 where "title_open = xs1 @ xs2" "suffix xs1 u" "prefix xs2 (take 6 title_open)"
    unfolding sublist_append by blast
  then show ?thesis
  proof cases
    case left
    then show ?thesis .
  next
    case right
    then show ?thesis using sublist_length_le [OF right] l6 by (simp add: length_title_open)
  next
    case across
    show ?thesis
    proof (cases "xs2 = []")
      case True
      then show ?thesis using across(1,2) by (simp add: suffix_imp_sublist)
    next
      case False
      have "xs1 \<noteq> []"
      proof
        assume "xs1 = []"
        then have "length title_open \<le> 6"
          using across(1,3) prefix_length_le [OF across(3)] l6 by simp
        then show False by (simp add: length_title_open)
      qed
      then show ?thesis using mid [OF across(1) _ False across(3)] by blast
    qed
  qed
qed

lemma title_search_skip:
  assumes "\<not> sublist title_open (js_lower (p @ take 6 title_open))" and "js_lower ot = title_open"
  shows "title_search (p @ ot @ s) = title_search (ot @ s)"
  using assms(1)
proof (induction p)
  case Nil
  then show ?case by simp
next
  case (Cons c p)
  have lo: "length ot = 7" using length_eq_js_lower [OF assms(2)] by (simp add: title_open_def js_def)
  have t7: "take 7 (c # p @ ot @ s) = take 7 (c # p @ take 6 ot)"
    using lo by (simp add: take_Cons' take_append min_def)
  moreover have "js_lower (take 6 ot) = take 6 title_open"
    using assms(2) by (metis js_lower_def take_map)
  ultimately have lx: "js_lower (c # p @ take 6 ot) = js_lower (c # p) @ take 6 title_open"
    by (simp add: js_lower_append)
  have "prefix (take 7 (c # p @ take 6 ot)) (c # p @ take 6 ot)" by (rule take_is_prefix)
  then have "prefix (js_lower (take 7 (c # p @ take 6 ot))) (js_lower (c # p @ take 6 ot))"
    unfolding js_lower_def by (rule map_mono_prefix)
  then have "prefix (js_lower (take 7 (c # p @ take 6 ot))) (js_lower (c # p) @ take 6 title_open)"
    by (simp only: lx)
  moreover have "js_lower (take 6 title_open) = take 6 title_open"
    by (metis js_lower_def take_map js_lower_title_open)
  then have "\<not> prefix title_open (js_lower (c # p) @ take 6 title_open)"
    using Cons.prems prefix_imp_sublist by (metis append_Cons js_lower_append)
  ultimately have "js_lower (take 7 (c # p @ take 6 ot)) \<noteq> title_open" by metis
  then have "\<not> ci_prefix title_open (c # p @ ot @ s)"
    using ci_prefix_open_take [of "c # p @ ot @ s"] t7 by metis
  then have "title_at (c # p @ ot @ s) = None" by (simp add: title_at_def)
  moreover have "\<not> sublist title_open (js_lower (p @ take 6 title_open))"
    using Cons.prems by (auto simp: sublist_Cons_right)
  ultimately show ?case using Cons.IH by simp
qed


lemma article_ne_youtube [simp]: "js ''article'' \<noteq> js ''youtube''" "js ''youtube'' \<noteq> js ''article''"
  by (simp_all add: js_def)

subsection \<open>Properties of the extraction step\<close>

text \<open>
  C16. The title of an article is read back from its page: when the page is some text
  with no \<^verbatim>\<open><title>\<close> in it, in any letter case, followed by an opening tag, a title
  without \<^verbatim>\<open><\<close> and without line terminators, a closing tag (both tags in any
  letter case) and anything else, the extracted content is the whole page and the
  title is exactly that text.
\<close>

theorem article_title_roundtrip:
  assumes "cd_type cd = js ''article''" and "http_get srv (cd_url cd) = Inr (p @ ot @ t @ ct @ r)"
    and "\<not> sublist title_open (js_lower p)"
    and "js_lower ot = title_open" and "js_lower ct = title_close"
    and "60 \<notin> set t" and "list_all (\<lambda>c. \<not> is_line_terminator c) t"
  shows "extract_content srv cd = Inr (p @ ot @ t @ ct @ r, t)"
proof -
  have "\<not> sublist title_open (js_lower (p @ take 6 title_open))"
  proof
    assume "sublist title_open (js_lower (p @ take 6 title_open))"
    moreover have "js_lower (take 6 title_open) = take 6 title_open"
      by (metis js_lower_def take_map js_lower_title_open)
    ultimately have "sublist title_open (js_lower p @ take 6 title_open)" by (simp add: js_lower_append)
    then show False using assms(3) by (blast dest: title_open_no_border)
  qed
  then have "title_search (p @ ot @ t @ ct @ r) = title_search (ot @ t @ ct @ r)"
    using assms(4) by (rule title_search_skip)
  moreover have "ot \<noteq> []" using length_eq_js_lower [OF assms(4)] by (auto simp: length_title_open)
  then obtain a0 os where "ot = a0 # os" by (cases ot) auto
  moreover have "title_at (ot @ t @ ct @ r) = Some t"
    using assms(4-7) by (simp add: title_at_open title_close_scan_upto)
  ultimately have "title_search (p @ ot @ t @ ct @ r) = Some t" by simp
  then show ?thesis using assms(1,2) by (simp add: extract_content_def extract_article_def article_title_def)
qed

text \<open>
  C17. Extraction fails exactly in two cases, with the error of the failing request:
  the fetch of an article fails, or, for a video whose identifier was found, the
  \<^verbatim>\<open>try\<close> block fails and the repeated metadata request of its \<^verbatim>\<open>catch\<close> block
  fails too. Every other source type, and a video URL without an identifier, always
  yields content.
\<close>

theorem extract_content_error:
  "extract_content srv cd = Inl e \<longleftrightarrow>
     (cd_type cd = js ''article'' \<and> http_get srv (cd_url cd) = Inl e) \<or>
     (cd_type cd = js ''youtube'' \<and>
      (\<exists>v e0. video_id_match (cd_url cd) = Some v \<and> youtube_try srv v = Inl e0 \<and>
              yt_videos srv 1 (youtube_key srv) v = Inl e))"
  by (auto simp: extract_content_def extract_article_def extract_youtube_def youtube_fallback_def
           split: sum.splits option.splits list.splits)

text \<open>
  C18. When the transcript of a video cannot be fetched but the repeated metadata
  request returns the video, the content is its title and description separated by a
  blank line, and the title is the video title.
\<close>

theorem extract_youtube_transcript_fallback:
  assumes "cd_type cd = js ''youtube''" and "video_id_match (cd_url cd) = Some v"
    and "yt_transcript srv v = Inl e"
    and "yt_videos srv 1 (youtube_key srv) v = Inr ((vt, vd) # items)"
  shows "extract_content srv cd = Inr (vt @ [nl, nl] @ vd, vt)"
proof -
  have "\<exists>e'. youtube_try srv v = Inl e'"
    using assms(3) by (auto simp: youtube_try_def split: sum.splits prod.splits)
  then show ?thesis
    using assms by (auto simp: extract_content_def extract_youtube_def youtube_fallback_def)
qed

subsection \<open>Witnesses\<close>

theorem article_title_roundtrip_witness:
  "extract_content demo_services demo_article =
     Inr (js ''<html><TITLE>Test</Title></html>'', js ''Test'')"
proof -
  have "extract_content demo_services demo_article =
          Inr (js ''<html>'' @ js ''<TITLE>'' @ js ''Test'' @ js ''</Title>'' @ js ''</html>'', js ''Test'')"
  proof (rule article_title_roundtrip)
    show "\<not> sublist title_open (js_lower (js ''<html>''))"
      by (simp add: title_open_def js_def js_lower_char_def sublist_Cons_right)
  qed (simp_all add: demo_article_def demo_services_def title_open_def title_close_def js_def
         js_lower_char_def is_line_terminator_def)
  then show ?thesis by (simp add: js_append [symmetric])
qed

theorem extract_youtube_transcript_fallback_witness:
  "extract_content (demo_services\<lparr>yt_transcript := \<lambda>v. Inl (js ''disabled'')\<rparr>) demo_video =
     Inr (js ''Talk'' @ [nl, nl] @ js ''About it'', js ''Talk'')"
proof -
  have vid: "video_id_match (cd_url demo_video) = Some (js ''abc'')"
    by (simp add: demo_video_def) code_simp
  show ?thesis
    by (rule extract_youtube_transcript_fallback [where v = "js ''abc''"])
       (use vid in \<open>simp_all add: demo_video_def demo_services_def\<close>)
qed

end
