(* ===== verification/Summarizer.thy ===== *)
theory Summarizer
  imports World
begin

text \<open>
  The summarisation request of \<^verbatim>\<open>processContent\<close> (\<^verbatim>\<open>src/contentProcessor.js\<close>, lines
  144--184): the credential check, the model fallback, the prompt with the content
  truncated to 6000 code units, and the call to OpenRouter, whose answer
  (\<^verbatim>\<open>choices[0].message.content\<close>) or failure is the \<open>chat\<close> oracle of \<open>services\<close>.
\<close>

text \<open>
  JavaScript truthiness of a string that may be \<^verbatim>\<open>undefined\<close>: \<^verbatim>\<open>!apiKey\<close> and
  \<^verbatim>\<open>contentData.model || ...\<close> treat the empty string like a missing one.
\<close>

definition js_truthy :: "jstr option \<Rightarrow> bool" where
  "js_truthy v \<longleftrightarrow> (case v of None \<Rightarrow> False | Some s \<Rightarrow> s \<noteq> [])"

definition default_model :: jstr where "default_model = js ''openai/gpt-3.5-turbo''"

definition chat_model :: "jstr option \<Rightarrow> jstr" where
  "chat_model m = (if js_truthy m then the m else default_model)"

text \<open>Lines 155--174, the template literal: its lines have no indentation.\<close>

definition prompt_lines :: "jstr list" where
  "prompt_lines =
     [js ''Create a comprehensive, educational summary of this content for learning purposes.'',
      [],
      js ''Provide an in-depth analysis that includes:'',
      js ''- Main topic and objectives'',
      js ''- Key concepts and techniques explained'',
      js ''- Step-by-step implementation guidance where applicable'',
      js ''- Examples and use cases'',
      js ''- Benefits and potential applications'',
      js ''- Resources mentioned'',
      [],
      js ''Then, provide exactly 5 key learning points with actionable takeaways, formatted as:'',
      [],
      js ''**Key Learning Points:**'',
      js ''1. [First actionable takeaway]'',
      js ''2. [Second actionable takeaway]'',
      js ''3. [Third actionable takeaway]'',
      js ''4. [Fourth actionable takeaway]'',
      js ''5. [Fifth actionable takeaway]'',
      []]"

definition prompt_head :: jstr where
  "prompt_head = js_join [nl] prompt_lines @ [nl] @ js ''Content: ''"

definition summary_prompt :: "jstr \<Rightarrow> jstr" where
  "summary_prompt content = prompt_head @ js_substring content 0 6000"

definition missing_key_error :: jstr where
  "missing_key_error = js ''OpenRouter API key not found''"

definition summarize :: "services \<Rightarrow> jstr option \<Rightarrow> jstr \<Rightarrow> jstr outcome" where
  "summarize srv model content =
     (if \<not> js_truthy (openrouter_key srv) then Inl missing_key_error
      else chat srv (the (openrouter_key srv)) (chat_model model) (summary_prompt content))"

end
