(* ===== verification/Speech.thy ===== *)
theory Speech
  imports World
begin

text \<open>
  \<^verbatim>\<open>generateTTS\<close> (\<^verbatim>\<open>src/contentProcessor.js\<close>, lines 12--50): the text is written
  to a temporary file beside the worker, PowerShell renders it to a temporary wave
  file, the wave data is read back, and both temporary files are removed. Every
  failure inside the \<^verbatim>\<open>try\<close> block is caught and turned into \<^verbatim>\<open>null\<close> (\<open>None\<close>),
  so the function never throws; what it leaves behind in the file system on each
  path is what the lemmas below are about.
\<close>

definition tts_voice :: jstr where "tts_voice = js ''Microsoft Zira Desktop''"

definition temp_text_path :: "services \<Rightarrow> world \<Rightarrow> jstr" where
  "temp_text_path srv w = path_join (base_dir srv) (js ''temp_tts_'' @ js_show_nat (clock w) @ js ''.txt'')"

definition temp_audio_path :: "services \<Rightarrow> world \<Rightarrow> jstr" where
  "temp_audio_path srv w = path_join (base_dir srv) (js ''temp_tts_'' @ js_show_nat (clock w) @ js ''.wav'')"

text \<open>
  Lines 36--41: the two \<^verbatim>\<open>unlinkSync\<close> calls share one \<^verbatim>\<open>try\<close>; when the first
  throws, the second is skipped and the warning is only logged.
\<close>

definition tts_cleanup :: "jstr \<Rightarrow> jstr \<Rightarrow> world \<Rightarrow> world" where
  "tts_cleanup tp ap w =
     (case unlink_file tp w of
        Inl _ \<Rightarrow> w
      | Inr w1 \<Rightarrow> (case unlink_file ap w1 of Inl _ \<Rightarrow> w1 | Inr w2 \<Rightarrow> w2))"

text \<open>
  Lines 12--50. The engine renders the text it reads from the temporary file into the
  wave file; when it fails (timeout, missing voice, no PowerShell) or the wave file
  cannot be written, \<^verbatim>\<open>execAsync\<close> rejects and the \<^verbatim>\<open>catch\<close> returns \<^verbatim>\<open>null\<close>
  without reaching the cleanup.
\<close>

definition generate_tts :: "services \<Rightarrow> jstr \<Rightarrow> world \<Rightarrow> bytes option \<times> world" where
  "generate_tts srv text w =
     (let tp = temp_text_path srv w; ap = temp_audio_path srv w in
      case write_file srv tp (TextFile text) w of
        Inl _ \<Rightarrow> (None, w)
      | Inr w1 \<Rightarrow>
          (case speak srv tts_voice text of
             Inl _ \<Rightarrow> (None, w1)
           | Inr audio \<Rightarrow>
               (case write_file srv ap (BinFile audio) w1 of
                  Inl _ \<Rightarrow> (None, w1)
                | Inr w2 \<Rightarrow> (Some audio, tts_cleanup tp ap w2))))"

subsection \<open>Facts\<close>

lemma temp_paths_differ: "temp_text_path srv w \<noteq> temp_audio_path srv w"
  by (simp add: temp_text_path_def temp_audio_path_def path_join_def js_def)

lemma generate_tts_cases:
  obtains (no_write) e where "write_error srv (temp_text_path srv w) = Some e"
      "generate_tts srv text w = (None, w)"
  | (engine_fail) e where "write_error srv (temp_text_path srv w) = None"
      "speak srv tts_voice text = Inl e"
      "generate_tts srv text w = (None, w\<lparr>files := (files w)(temp_text_path srv w \<mapsto> TextFile text)\<rparr>)"
  | (wav_fail) audio e where "write_error srv (temp_text_path srv w) = None"
      "speak srv tts_voice text = Inr audio" "write_error srv (temp_audio_path srv w) = Some e"
      "generate_tts srv text w = (None, w\<lparr>files := (files w)(temp_text_path srv w \<mapsto> TextFile text)\<rparr>)"
  | (spoken) audio where "write_error srv (temp_text_path srv w) = None"
      "speak srv tts_voice text = Inr audio" "write_error srv (temp_audio_path srv w) = None"
      "generate_tts srv text w =
         (Some audio, w\<lparr>files := (files w)(temp_text_path srv w := None, temp_audio_path srv w := None)\<rparr>)"
proof (cases "write_error srv (temp_text_path srv w)")
  case (Some e)
  then show ?thesis using that(1) by (simp add: generate_tts_def write_file_def)
next
  case None
  note tp = None
  show ?thesis
  proof (cases "speak srv tts_voice text")
    case (Inl e)
    then show ?thesis using tp that(2) by (simp add: generate_tts_def write_file_def)
  next
    case (Inr audio)
    show ?thesis
    proof (cases "write_error srv (temp_audio_path srv w)")
      case (Some e)
      then show ?thesis using tp Inr that(3) by (simp add: generate_tts_def write_file_def)
    next
      case None
      have ne: "temp_audio_path srv w \<noteq> temp_text_path srv w"
        using temp_paths_differ by metis
      have "generate_tts srv text w =
         (Some audio, w\<lparr>files := (files w)(temp_text_path srv w := None, temp_audio_path srv w := None)\<rparr>)"
        using tp None Inr ne
        by (simp add: generate_tts_def write_file_def tts_cleanup_def unlink_file_def Let_def fun_upd_twist)
      then show ?thesis using tp Inr None that(4) by simp
    qed
  qed
qed

lemma generate_tts_frame [frame]:
  "dirs (snd (generate_tts srv t w)) = dirs w \<and> clock (snd (generate_tts srv t w)) = clock w"
  by (cases rule: generate_tts_cases [of srv w t]) simp_all

lemma generate_tts_files_other:
  "p \<noteq> temp_text_path srv w \<Longrightarrow> p \<noteq> temp_audio_path srv w \<Longrightarrow>
     files (snd (generate_tts srv t w)) p = files w p"
  by (cases rule: generate_tts_cases [of srv w t]) simp_all

lemma generate_tts_Some_speak:
  "generate_tts srv t w = (Some a, w1) \<Longrightarrow> speak srv tts_voice t = Inr a"
  by (cases rule: generate_tts_cases [of srv w t]) simp_all

lemma generate_tts_world:
  assumes "generate_tts srv t w = (ao, w1)"
  shows "clock w1 = clock w" "dirs w1 = dirs w"
    "p \<noteq> temp_text_path srv w \<Longrightarrow> p \<noteq> temp_audio_path srv w \<Longrightarrow> files w1 p = files w p"
  using generate_tts_frame [of srv t w] generate_tts_files_other [of p srv w t] assms by simp_all

subsection \<open>Properties of the speech step\<close>

text \<open>
  C14. When speech synthesis succeeds, it returns the wave data the engine rendered and
  leaves the file system as it found it apart from the two temporary files, which are
  both gone: the scoped-file exchange of the specification on the success path.
\<close>

theorem generate_tts_success_cleanup:
  assumes "generate_tts srv t w = (Some audio, w')"
  shows "speak srv tts_voice t = Inr audio \<and>
         files w' = (files w)(temp_text_path srv w := None, temp_audio_path srv w := None) \<and>
         dirs w' = dirs w \<and> clock w' = clock w"
  using assms by (cases rule: generate_tts_cases [of srv w t]) auto

text \<open>
  C15. When the temporary text file was written but the engine then fails (timeout,
  missing voice) or its wave file cannot be written, the synthesis returns no audio and
  the temporary text file stays behind with the text in it: the cleanup is reached
  only on the success path, not on every exit path.
\<close>

theorem generate_tts_failure_leaks_text:
  assumes "fst (generate_tts srv t w) = None"
    and "write_error srv (temp_text_path srv w) = None"
  shows "files (snd (generate_tts srv t w)) = (files w)(temp_text_path srv w \<mapsto> TextFile t)"
  using assms by (cases rule: generate_tts_cases [of srv w t]) auto

subsection \<open>Witnesses\<close>

theorem generate_tts_success_cleanup_witness:
  "files (snd (generate_tts demo_services (js ''hi'') demo_world)) (temp_text_path demo_services demo_world) = None"
proof -
  have "fst (generate_tts demo_services (js ''hi'') demo_world) = Some [1, 2]"
    by code_simp
  then have "generate_tts demo_services (js ''hi'') demo_world =
          (Some [1, 2], snd (generate_tts demo_services (js ''hi'') demo_world))"
    by (metis prod.collapse)
  from generate_tts_success_cleanup [OF this] show ?thesis by simp
qed

theorem generate_tts_failure_leaks_text_witness:
  "files (snd (generate_tts (demo_services\<lparr>speak := \<lambda>v t. Inl (js ''timeout'')\<rparr>) (js ''hi'') demo_world))
     (temp_text_path demo_services demo_world) = Some (TextFile (js ''hi''))"
proof -
  let ?s = "demo_services\<lparr>speak := \<lambda>v t. Inl (js ''timeout'')\<rparr>"
  have "fst (generate_tts ?s (js ''hi'') demo_world) = None" by code_simp
  moreover have "write_error ?s (temp_text_path ?s demo_world) = None"
    by (simp add: demo_services_def)
  ultimately have "files (snd (generate_tts ?s (js ''hi'') demo_world)) =
      (files demo_world)(temp_text_path ?s demo_world \<mapsto> TextFile (js ''hi''))"
    by (rule generate_tts_failure_leaks_text)
  moreover have "temp_text_path ?s demo_world = temp_text_path demo_services demo_world"
    by (simp add: temp_text_path_def)
  ultimately show ?thesis by simp
qed

end
