(* ===== verification/KeyPoints.thy ===== *)
theory KeyPoints
  imports JsString
begin

text \<open>
  The response parser of \<^verbatim>\<open>processContent\<close> (\<^verbatim>\<open>src/contentProcessor.js\<close>, lines
  187--226): the placeholder list, the scan for a header line, the recognition and
  cleaning of point lines, the collecting loop, and the final choice between the
  collected points and the placeholders. Each definition follows one block of the
  source; the lemmas characterise the collecting loop, and the claims about the
  parser as a whole are stated over \<open>parse_key_points\<close>.
\<close>

subsection \<open>The placeholder list (line 187)\<close>

definition placeholder_points :: "jstr list" where
  "placeholder_points =
     map js [''Key point 1'', ''Key point 2'', ''Key point 3'', ''Key point 4'', ''Key point 5'']"

subsection \<open>Header lines (lines 194--204)\<close>

definition is_header_line :: "jstr \<Rightarrow> bool" where
  "is_header_line raw =
     (let line = js_trim (js_lower raw) in
        js_includes line (js ''key learning points'') \<or>
        js_includes line (js ''key points'') \<or>
        js_includes line (js ''learning points'') \<or>
        js_includes line (js ''actionable takeaways'') \<or>
        (js_includes line (js ''key'') \<and> js_includes line (js ''points'')))"

subsection \<open>Point lines (lines 211--212)\<close>

text \<open>
  \<^verbatim>\<open>/^\d+\./\<close>: a maximal run of at least one ASCII digit followed by a full stop
  (backtracking into the digit run cannot help, a digit is no full stop).
\<close>

definition numbered_marker :: "jstr \<Rightarrow> bool" where
  "numbered_marker t =
     (let d = takeWhile is_digit t in d \<noteq> [] \<and> drop (length d) t \<noteq> [] \<and> hd (drop (length d) t) = 46)"

text \<open>\<^verbatim>\<open>/^[\<bullet>\-\*]/\<close>: the bullet U+2022 (code unit 8226), a hyphen or an asterisk.\<close>

definition bullet_marker :: "jstr \<Rightarrow> bool" where
  "bullet_marker t = (t \<noteq> [] \<and> hd t \<in> {8226, 45, 42})"

text \<open>\<^verbatim>\<open>/^\(\d+\)/\<close>: an opening parenthesis, digits, a closing parenthesis.\<close>

definition paren_marker :: "jstr \<Rightarrow> bool" where
  "paren_marker t =
     (t \<noteq> [] \<and> hd t = 40 \<and>
      (let d = takeWhile is_digit (tl t) in
         d \<noteq> [] \<and> drop (length d) (tl t) \<noteq> [] \<and> hd (drop (length d) (tl t)) = 41))"

definition is_point_line :: "jstr \<Rightarrow> bool" where
  "is_point_line t \<longleftrightarrow> numbered_marker t \<or> bullet_marker t \<or> paren_marker t"

text \<open>
  The three \<^verbatim>\<open>replace\<close> calls of line 212, applied one after the other, each to
  the result of the one before; each removes its marker and the white space after it
  (\<^verbatim>\<open>\s*\<close>), and leaves a string without its marker unchanged.
\<close>

definition strip_numbered :: "jstr \<Rightarrow> jstr" where
  "strip_numbered t =
     (if numbered_marker t
      then dropWhile is_js_space (drop (Suc (length (takeWhile is_digit t))) t) else t)"

definition strip_bullet :: "jstr \<Rightarrow> jstr" where
  "strip_bullet t = (if bullet_marker t then dropWhile is_js_space (tl t) else t)"

definition strip_paren :: "jstr \<Rightarrow> jstr" where
  "strip_paren t =
     (if paren_marker t
      then dropWhile is_js_space (drop (Suc (Suc (length (takeWhile is_digit (tl t))))) t) else t)"

definition clean_point :: "jstr \<Rightarrow> jstr" where
  "clean_point t = strip_paren (strip_bullet (strip_numbered t))"

definition point_length_ok :: "jstr \<Rightarrow> bool" where
  "point_length_ok c \<longleftrightarrow> 10 < length c \<and> length c < 200"

text \<open>Line 216: the lines the loop passes over without stopping.\<close>

definition skip_line :: "jstr \<Rightarrow> bool" where
  "skip_line t \<longleftrightarrow> t = [] \<or> prefix (js ''**'') t \<or> prefix (js ''#'') t"

subsection \<open>The collecting loop (lines 207--222)\<close>

text \<open>
  The \<^verbatim>\<open>for\<close> loop over the lines after the header, with \<^verbatim>\<open>points\<close> as the
  accumulator: the guard \<^verbatim>\<open>points.length < 10\<close> is tested before every line; a point
  line adds its cleaned text when the length check passes; a blank, bold or heading
  line is skipped; any other line ends the loop once a point has been collected.
  \<open>js_trim l\<close> is the \<^verbatim>\<open>line\<close> of the source and
  \<open>clean_point (js_trim l)\<close> its \<^verbatim>\<open>cleanPoint\<close>.
\<close>

fun collect_points :: "jstr list \<Rightarrow> jstr list \<Rightarrow> jstr list" where
  "collect_points [] pts = pts"
| "collect_points (l # ls) pts =
     (if 10 \<le> length pts then pts
      else if is_point_line (js_trim l) then
        (if point_length_ok (clean_point (js_trim l))
         then collect_points ls (pts @ [clean_point (js_trim l)]) else collect_points ls pts)
      else if skip_line (js_trim l) then collect_points ls pts
      else if pts \<noteq> [] then pts
      else collect_points ls pts)"

subsection \<open>The parser (lines 187--226)\<close>

definition parse_key_points :: "jstr \<Rightarrow> jstr list" where
  "parse_key_points summary =
     (let lines = js_split nl summary in
      case js_find_index is_header_line lines of
        None \<Rightarrow> placeholder_points
      | Some k \<Rightarrow>
          (let pts = collect_points (drop (Suc k) lines) [] in
           if 3 \<le> length pts then take 5 pts else placeholder_points))"

subsection \<open>The header scan as the source writes it (lines 191--204)\<close>

text \<open>
  The \<^verbatim>\<open>for\<close> loop of lines 194--204 with its index \<^verbatim>\<open>i\<close> and its result
  \<^verbatim>\<open>keyPointsStart\<close>, which stays \<open>-1\<close> when no line matches. It is written as a
  partial function in the option monad, so that its termination is proved and not
  assumed: C35 shows that from line 0 it returns what \<open>js_find_index\<close>, used by
  \<open>parse_key_points\<close>, computes, which is never \<open>None\<close>.
\<close>

partial_function (option) header_loop :: "jstr list \<Rightarrow> nat \<Rightarrow> int option" where
  "header_loop lines i =
     (if i < length lines then
        (if is_header_line (lines ! i) then Some (int i) else header_loop lines (Suc i))
      else Some (-1))"


subsection \<open>Facts about the collecting loop\<close>

abbreviation cleaned :: "jstr \<Rightarrow> jstr" where
  "cleaned l \<equiv> clean_point (js_trim l)"

text \<open>
  The four ways one iteration can go, as a case rule: the guard fails, a point is
  added, the loop continues without adding, or it stops. The loop lemmas below are
  inductions that use this rule in the step.
\<close>

lemma collect_points_Cons_cases:
  obtains (full) "10 \<le> length pts" "collect_points (l # ls) pts = pts"
  | (add) "\<not> 10 \<le> length pts" "is_point_line (js_trim l)" "point_length_ok (cleaned l)"
      "collect_points (l # ls) pts = collect_points ls (pts @ [cleaned l])"
  | (pass) "\<not> 10 \<le> length pts" "\<not> (is_point_line (js_trim l) \<and> point_length_ok (cleaned l))"
      "\<not> is_point_line (js_trim l) \<Longrightarrow> skip_line (js_trim l) \<or> pts = []"
      "collect_points (l # ls) pts = collect_points ls pts"
  | (stop) "\<not> 10 \<le> length pts" "\<not> is_point_line (js_trim l)" "\<not> skip_line (js_trim l)"
      "pts \<noteq> []" "collect_points (l # ls) pts = pts"
proof (cases "10 \<le> length pts")
  case True
  then show ?thesis using that(1) by simp
next
  case F: False
  show ?thesis
  proof (cases "is_point_line (js_trim l)")
    case P: True
    show ?thesis
    proof (cases "point_length_ok (cleaned l)")
      case True
      with F P show ?thesis using that(2) by simp
    next
      case False
      with F P show ?thesis using that(3) by simp
    qed
  next
    case NP: False
    show ?thesis
    proof (cases "skip_line (js_trim l) \<or> pts = []")
      case True
      with F NP show ?thesis using that(3) by auto
    next
      case False
      with F NP show ?thesis using that(4) by simp
    qed
  qed
qed

declare collect_points.simps(2) [simp del]

lemma collect_points_full: "10 \<le> length pts \<Longrightarrow> collect_points ls pts = pts"
  by (cases ls) (simp_all add: collect_points.simps(2))

lemma collect_points_prefix: "prefix pts (collect_points ls pts)"
proof (induction ls arbitrary: pts)
  case Nil
  then show ?case by simp
next
  case (Cons l ls)
  show ?case
  proof (cases rule: collect_points_Cons_cases [of pts l ls])
    case add
    from Cons.IH [of "pts @ [cleaned l]"] have "prefix pts (collect_points ls (pts @ [cleaned l]))"
      by (rule append_prefixD)
    with add(4) show ?thesis by simp
  next
    case pass
    with Cons.IH [of pts] show ?thesis by simp
  qed simp_all
qed

lemma collect_points_length: "length pts \<le> 10 \<Longrightarrow> length (collect_points ls pts) \<le> 10"
proof (induction ls arbitrary: pts)
  case Nil
  then show ?case by simp
next
  case (Cons l ls)
  show ?case
    by (cases rule: collect_points_Cons_cases [of pts l ls])
       (use Cons in \<open>simp_all\<close>)
qed

lemma collect_points_ok:
  "\<forall>p \<in> set pts. point_length_ok p \<Longrightarrow> \<forall>p \<in> set (collect_points ls pts). point_length_ok p"
proof (induction ls arbitrary: pts)
  case Nil
  then show ?case by simp
next
  case (Cons l ls)
  show ?case
  proof (cases rule: collect_points_Cons_cases [of pts l ls])
    case add
    with Cons.prems have "\<forall>p \<in> set (pts @ [cleaned l]). point_length_ok p" by simp
    then have "\<forall>p \<in> set (collect_points ls (pts @ [cleaned l])). point_length_ok p" by (rule Cons.IH)
    with add(4) show ?thesis by simp
  qed (use Cons in simp_all)
qed

lemma collect_points_subseq: "subseq (collect_points ls pts) (pts @ map cleaned ls)"
proof (induction ls arbitrary: pts)
  case Nil
  then show ?case by simp
next
  case (Cons l ls)
  have "subseq (map cleaned ls) ([cleaned l] @ map cleaned ls)"
    by (rule subseq_drop_many) (rule subseq_order.order_refl)
  then have step: "subseq (pts @ map cleaned ls) (pts @ map cleaned (l # ls))"
    by (simp add: subseq_append')
  have base: "subseq pts (pts @ map cleaned (l # ls))"
    by (simp add: subseq_rev_drop_many)
  show ?case
  proof (cases rule: collect_points_Cons_cases [of pts l ls])
    case full
    with base show ?thesis by (simp only:)
  next
    case add
    from Cons.IH [of "pts @ [cleaned l]"] add(4) show ?thesis
      by (simp only: list.map append.assoc append_Cons append_Nil)
  next
    case pass
    have "subseq (collect_points ls pts) (pts @ map cleaned (l # ls))"
      using Cons.IH [of pts] step by (rule subseq_order.order_trans)
    with pass(4) show ?thesis by (simp only:)
  next
    case stop
    with base show ?thesis by (simp only:)
  qed
qed

text \<open>A line that ends the loop: neither a point line nor a line the loop skips.\<close>

definition stops_scan :: "jstr \<Rightarrow> bool" where
  "stops_scan l \<longleftrightarrow> \<not> is_point_line (js_trim l) \<and> \<not> skip_line (js_trim l)"

definition good_point_line :: "jstr \<Rightarrow> bool" where
  "good_point_line l \<longleftrightarrow> is_point_line (js_trim l) \<and> point_length_ok (cleaned l)"

lemma collect_points_stop:
  assumes "rest = [] \<or> stops_scan (hd rest)" and "pts \<noteq> []"
  shows "collect_points rest pts = pts"
proof (cases rest)
  case Nil
  then show ?thesis by simp
next
  case (Cons l ls)
  with assms(1) have "stops_scan l" by simp
  then show ?thesis unfolding Cons
    by (cases rule: collect_points_Cons_cases [of pts l ls]) (use assms(2) in \<open>simp_all add: stops_scan_def\<close>)
qed

lemma collect_points_good:
  "good_point_line l \<Longrightarrow> length pts < 10 \<Longrightarrow>
     collect_points (l # ls) pts = collect_points ls (pts @ [cleaned l])"
  by (cases rule: collect_points_Cons_cases [of pts l ls]) (simp_all add: good_point_line_def)

lemma collect_points_block:
  "\<forall>l \<in> set body. good_point_line l \<Longrightarrow> length pts \<le> 10 \<Longrightarrow>
   collect_points (body @ rest) pts =
     (if length pts + length body \<le> 10 then collect_points rest (pts @ map cleaned body)
      else pts @ take (10 - length pts) (map cleaned body))"
proof (induction body arbitrary: pts)
  case Nil
  then show ?case by simp
next
  case (Cons l body)
  show ?case
  proof (cases "length pts = 10")
    case True
    then show ?thesis by (simp add: collect_points_full)
  next
    case False
    with Cons.prems have lt: "length pts < 10" by simp
    from Cons.prems have g: "good_point_line l" by simp
    from Cons.prems have gb: "\<forall>l \<in> set body. good_point_line l" by simp
    have len: "length (pts @ [cleaned l]) \<le> 10" using lt by simp
    have "collect_points ((l # body) @ rest) pts = collect_points (body @ rest) (pts @ [cleaned l])"
      using collect_points_good [OF g lt] by simp
    also have "\<dots> = (if length pts + length (l # body) \<le> 10
        then collect_points rest (pts @ map cleaned (l # body))
        else pts @ take (10 - length pts) (map cleaned (l # body)))"
      using Cons.IH [OF gb len] lt by (simp add: take_Cons')
    finally show ?thesis .
  qed
qed

subsection \<open>The placeholder list\<close>

lemma length_placeholder_points [simp]: "length placeholder_points = 5"
  by (simp add: placeholder_points_def)

lemma placeholder_points_ok: "\<forall>p \<in> set placeholder_points. point_length_ok p"
  by (simp add: placeholder_points_def point_length_ok_def)

lemma parse_key_points_cases:
  obtains (none) "js_find_index is_header_line (js_split nl s) = None"
      "parse_key_points s = placeholder_points"
  | (few) k where "js_find_index is_header_line (js_split nl s) = Some k"
      "length (collect_points (drop (Suc k) (js_split nl s)) []) < 3"
      "parse_key_points s = placeholder_points"
  | (found) k where "js_find_index is_header_line (js_split nl s) = Some k"
      "3 \<le> length (collect_points (drop (Suc k) (js_split nl s)) [])"
      "parse_key_points s = take 5 (collect_points (drop (Suc k) (js_split nl s)) [])"
proof (cases "js_find_index is_header_line (js_split nl s)")
  case None
  then show ?thesis using that(1) by (simp add: parse_key_points_def)
next
  case (Some k)
  show ?thesis
  proof (cases "3 \<le> length (collect_points (drop (Suc k) (js_split nl s)) [])")
    case True
    with Some show ?thesis using that(3) by (simp add: parse_key_points_def)
  next
    case False
    with Some show ?thesis using that(2) by (simp add: parse_key_points_def)
  qed
qed

lemma take_collect_points_ok:
  "\<forall>p \<in> set (take n (collect_points ls [])). point_length_ok p"
  using collect_points_ok [of "[]" ls] by (auto dest: in_set_takeD)

lemma subseq_map_drop: "subseq (map f (drop n xs)) (map f xs)"
  by (metis append_take_drop_id map_append subseq_drop_many subseq_order.order_refl)

lemma clean_point_bold: "clean_point (42 # 42 # r) = 42 # r"
  by (simp add: clean_point_def strip_numbered_def strip_bullet_def strip_paren_def numbered_marker_def
                bullet_marker_def paren_marker_def is_digit_def is_js_space_def)

lemma is_point_line_bold: "is_point_line (42 # 42 # r)"
  by (simp add: is_point_line_def bullet_marker_def)

lemma subseq_filter_all:
  "subseq xs ys \<Longrightarrow> \<forall>x \<in> set xs. P x \<Longrightarrow> subseq xs (filter P ys)"
  by (induction rule: list_emb.induct) auto

text \<open>
  The parser returns the placeholders when fewer than three lines of the response
  clean to a text of acceptable length: every collected point is such a text, taken
  in order from different lines.
\<close>

lemma few_good_lines_placeholders:
  assumes "length (filter point_length_ok (map cleaned (js_split nl s))) < 3"
  shows "parse_key_points s = placeholder_points"
proof (cases rule: parse_key_points_cases [of s])
  case (found k)
  let ?ls = "js_split nl s"
  let ?pts = "collect_points (drop (Suc k) ?ls) []"
  have "subseq ?pts (map cleaned (drop (Suc k) ?ls))"
    using collect_points_subseq [of "drop (Suc k) ?ls" "[]"] by simp
  also have "subseq \<dots> (map cleaned ?ls)"
    by (rule subseq_map_drop)
  finally have "subseq ?pts (filter point_length_ok (map cleaned ?ls))"
    using collect_points_ok [of "[]" "drop (Suc k) ?ls"] by (auto intro: subseq_filter_all)
  then have "length ?pts < 3"
    using assms list_emb_length by fastforce
  then show ?thesis using found(2) by simp
qed simp_all

subsection \<open>Properties of the parser\<close>

text \<open>
  C1. When the response has a header line, no earlier line is a header line, and the
  header is followed by at least three well-formed point lines and then by the end of
  the response or by a line that stops the scan, the key points are the cleaned texts
  of the first five of those lines, in their order.
\<close>

theorem parse_key_points_block:
  assumes pre: "\<forall>l \<in> set pre. \<not> is_header_line l"
    and hdr: "is_header_line h"
    and body: "\<forall>l \<in> set body. good_point_line l"
    and three: "3 \<le> length body"
    and rest: "rest = [] \<or> stops_scan (hd rest)"
    and lines: "\<forall>w \<in> set (pre @ h # body @ rest). nl \<notin> set w"
  shows "parse_key_points (js_join [nl] (pre @ h # body @ rest)) = take 5 (map cleaned body)"
proof -
  let ?ls = "pre @ h # body @ rest"
  have split: "js_split nl (js_join [nl] ?ls) = ?ls"
    using lines by (simp add: js_split_js_join)
  have k: "js_find_index is_header_line ?ls = Some (length pre)"
    using pre hdr by (rule js_find_index_append)
  have drop: "drop (Suc (length pre)) ?ls = body @ rest" by simp
  have coll: "take 5 (collect_points (body @ rest) []) = take 5 (map cleaned body)"
  proof (cases "length body \<le> 10")
    case True
    have "map cleaned body \<noteq> []" using three by auto
    then have "collect_points rest (map cleaned body) = map cleaned body"
      using rest by (simp add: collect_points_stop)
    with True body show ?thesis by (simp add: collect_points_block)
  next
    case False
    with body show ?thesis by (simp add: collect_points_block min_def)
  qed
  have "3 \<le> length (collect_points (body @ rest) [])"
  proof (cases "length body \<le> 10")
    case True
    have "map cleaned body \<noteq> []" using three by auto
    then have "collect_points rest (map cleaned body) = map cleaned body"
      using rest by (simp add: collect_points_stop)
    with True body three show ?thesis by (simp add: collect_points_block)
  next
    case False
    with body show ?thesis by (simp add: collect_points_block)
  qed
  with split k drop coll show ?thesis
    by (simp add: parse_key_points_def)
qed

text \<open>
  C2. Whatever the response, the parser returns between three and five key points,
  and every one of them is longer than 10 and shorter than 200 code units (the
  placeholders included): the length filter of line 213 bounds every entry.
\<close>

theorem parse_key_points_bounds:
  "3 \<le> length (parse_key_points s) \<and> length (parse_key_points s) \<le> 5 \<and>
   (\<forall>p \<in> set (parse_key_points s). point_length_ok p)"
proof (cases rule: parse_key_points_cases [of s])
  case none
  then show ?thesis using placeholder_points_ok by simp
next
  case (few k)
  then show ?thesis using placeholder_points_ok by simp
next
  case (found k)
  then show ?thesis using take_collect_points_ok [of 5] by simp
qed

text \<open>
  C3. When no line of the response is a header line, the parser returns the five
  placeholder points.
\<close>

theorem parse_key_points_no_header:
  "\<forall>l \<in> set (js_split nl s). \<not> is_header_line l \<Longrightarrow> parse_key_points s = placeholder_points"
  by (simp add: parse_key_points_def js_find_index_None [THEN iffD2])

text \<open>
  C4. The key points are either the placeholders or cleaned lines of the response in
  the order the lines have there: the parser never reorders or invents a point.
\<close>

theorem parse_key_points_in_order:
  "parse_key_points s = placeholder_points \<or> subseq (parse_key_points s) (map cleaned (js_split nl s))"
proof (cases rule: parse_key_points_cases [of s])
  case (found k)
  let ?ls = "js_split nl s"
  have "subseq (take 5 (collect_points (drop (Suc k) ?ls) [])) (collect_points (drop (Suc k) ?ls) [])"
    by (rule prefix_imp_subseq) (rule take_is_prefix)
  also have "subseq \<dots> (map cleaned (drop (Suc k) ?ls))"
    using collect_points_subseq [of "drop (Suc k) ?ls" "[]"] by simp
  also have "subseq \<dots> (map cleaned ?ls)"
    by (rule subseq_map_drop)
  finally show ?thesis using found(3) by simp
qed simp_all

text \<open>
  C33. A bold line is never skipped: \<^verbatim>\<open>**...\<close> matches the bullet pattern, so the
  loop takes it as a point line, strips one asterisk, and collects the rest when its
  length passes the check. The \<^verbatim>\<open>startsWith('**')\<close> test of line 216 is never
  reached with a bold line.
\<close>

theorem collect_points_bold_line:
  assumes "js_trim l = 42 # 42 # r" and "length pts < 10" and "point_length_ok (42 # r)"
  shows "collect_points (l # ls) pts = collect_points ls (pts @ [42 # r])"
  using assms by (simp add: collect_points.simps(2) clean_point_bold is_point_line_bold)

text \<open>
  C35. The header scan loop computes \<^verbatim>\<open>findIndex\<close>: started at line 0 it returns
  the index of the first header line, or \<open>-1\<close> when there is none, so the parser's
  use of \<open>js_find_index\<close> is the loop of the source.
\<close>

theorem header_loop_find_index:
  "header_loop lines 0 = Some (case js_find_index is_header_line lines of None \<Rightarrow> -1 | Some k \<Rightarrow> int k)"
proof -
  have "header_loop lines i =
          Some (case js_find_index is_header_line (drop i lines) of None \<Rightarrow> -1 | Some k \<Rightarrow> int (i + k))" for i
  proof (induction "length lines - i" arbitrary: i)
    case 0
    then show ?case by (simp add: header_loop.simps)
  next
    case (Suc n)
    then have i: "i < length lines" by simp
    have d: "drop i lines = lines ! i # drop (Suc i) lines" using i by (rule Cons_nth_drop_Suc [symmetric])
    show ?case
      using Suc.hyps(1) [of "Suc i"] Suc.hyps(2) i
      by (subst header_loop.simps) (auto simp: d split: option.splits)
  qed
  from this [of 0] show ?thesis by (simp split: option.splits)
qed

subsection \<open>Witnesses\<close>

theorem parse_key_points_block_witness:
  "parse_key_points (js_join [nl] ([js ''Intro''] @ js ''Key points:'' #
      [js ''1. Learn topic A'', js ''- Learn topic B'', js ''(3) Learn topic C''] @ [js ''Bye''])) =
   [js ''Learn topic A'', js ''Learn topic B'', js ''Learn topic C'']"
proof -
  have "parse_key_points (js_join [nl] ([js ''Intro''] @ js ''Key points:'' #
      [js ''1. Learn topic A'', js ''- Learn topic B'', js ''(3) Learn topic C''] @ [js ''Bye''])) =
    take 5 (map cleaned [js ''1. Learn topic A'', js ''- Learn topic B'', js ''(3) Learn topic C''])"
    by (rule parse_key_points_block; code_simp)
  also have "\<dots> = [js ''Learn topic A'', js ''Learn topic B'', js ''Learn topic C'']"
    by code_simp
  finally show ?thesis .
qed

theorem parse_key_points_bounds_witness:
  "3 \<le> length (parse_key_points (js ''Key points'')) \<and> length (parse_key_points (js ''Key points'')) \<le> 5 \<and>
   list_all point_length_ok (parse_key_points (js ''Key points''))"
  using parse_key_points_bounds [of "js ''Key points''"] by (simp add: list_all_iff)

theorem parse_key_points_no_header_witness:
  "parse_key_points (js ''Summary only'') = placeholder_points"
  by (rule parse_key_points_no_header) code_simp

theorem collect_points_bold_line_witness:
  "collect_points [js ''**Note:** always test your code''] [] = [js ''*Note:** always test your code'']"
proof -
  have "collect_points [js ''**Note:** always test your code''] [] =
          collect_points [] ([] @ [42 # js ''Note:** always test your code''])"
    by (rule collect_points_bold_line)
       (simp_all add: js_def js_trim_def is_js_space_def point_length_ok_def)
  then show ?thesis by (simp add: js_def)
qed

end
