(* ===== verification/Narrative.thy ===== *)
theory Narrative
  imports KeyPoints
begin

text \<open>
  The text handed to speech synthesis (\<^verbatim>\<open>src/contentProcessor.js\<close>, lines
  230--250): a second, independent scan of the response for a header line, the part
  of the response before it, and the cap at 2000 code units with an ellipsis. The
  lemmas show that the excerpt is at most 2003 code units long and never contains the
  phrases the second scan looks for, and relate the two header scans.
\<close>

subsection \<open>The second header scan (lines 234--239)\<close>

definition tts_header_line :: "jstr \<Rightarrow> bool" where
  "tts_header_line line \<longleftrightarrow>
     js_includes (js_lower line) (js ''key learning points'') \<or>
     js_includes (js_lower line) (js ''key points'') \<or>
     js_includes (js_lower line) (js ''learning points'')"

subsection \<open>The excerpt (lines 231--248)\<close>

definition tts_cap :: "jstr \<Rightarrow> jstr" where
  "tts_cap t = (if 2000 < length t then js_substring t 0 2000 @ js ''...'' else t)"

definition tts_text :: "jstr \<Rightarrow> jstr" where
  "tts_text summary =
     (let ttsLines = js_split nl summary;
          ttsText = (case js_find_index tts_header_line ttsLines of
                       None \<Rightarrow> summary
                     | Some k \<Rightarrow> js_trim (js_join [nl] (take k ttsLines)))
      in tts_cap ttsText)"

subsection \<open>Phrases absent from a text\<close>

text \<open>
  \<open>no_phrase p t\<close>: the lower-cased text \<open>t\<close> does not contain \<open>p\<close>. It is kept by
  taking a piece of the text, by joining lines that all have it, and by appending the
  ellipsis, for the phrases of the second scan.
\<close>

definition no_phrase :: "jstr \<Rightarrow> jstr \<Rightarrow> bool" where
  "no_phrase p t \<longleftrightarrow> \<not> sublist p (js_lower t)"

lemma no_phrase_sublist: "sublist u t \<Longrightarrow> no_phrase p t \<Longrightarrow> no_phrase p u"
  unfolding no_phrase_def by (meson js_lower_sublist sublist_order.order_trans)

lemma js_lower_js_join: "js_lower (js_join [nl] ws) = js_join [nl] (map js_lower ws)"
proof (induction ws)
  case Nil
  then show ?case by simp
next
  case (Cons w ws)
  then show ?case
    by (cases ws) (simp_all add: js_join_Cons js_lower_append)
qed

lemma no_phrase_js_join:
  assumes "\<forall>w \<in> set ws. no_phrase p w" and "p \<noteq> []" and "nl \<notin> set p"
  shows "no_phrase p (js_join [nl] ws)"
proof -
  have "\<not> sublist p (js_join [nl] (map js_lower ws))"
  proof
    assume "sublist p (js_join [nl] (map js_lower ws))"
    then obtain w where "w \<in> set (map js_lower ws)" "sublist p w"
      using sublist_js_join assms(2,3) by blast
    with assms(1) show False by (auto simp: no_phrase_def)
  qed
  then show ?thesis by (simp add: no_phrase_def js_lower_js_join)
qed

lemma js_lower_ellipsis [simp]: "js_lower (js ''...'') = js ''...''"
  by (simp add: js_def js_lower_def js_lower_char_def)

lemma no_phrase_ellipsis:
  assumes "no_phrase p t" and "p \<noteq> []" and "set p \<inter> set (js ''...'') = {}"
  shows "no_phrase p (t @ js ''...'')"
  using assms sublist_append_disjoint_right [of p "js_lower t" "js ''...''"]
  by (auto simp: no_phrase_def js_lower_append)

lemma no_phrase_tts_cap:
  assumes "no_phrase p t" and "p \<noteq> []" and "set p \<inter> set (js ''...'') = {}"
  shows "no_phrase p (tts_cap t)"
proof (cases "2000 < length t")
  case True
  have "no_phrase p (js_substring t 0 2000)"
    using assms(1) by (rule no_phrase_sublist [OF js_substring_sublist])
  then show ?thesis using True assms(2,3) by (simp add: tts_cap_def no_phrase_ellipsis)
next
  case False
  then show ?thesis using assms(1) by (simp add: tts_cap_def)
qed

subsection \<open>The phrases of the second scan\<close>

abbreviation kp_phrase :: jstr where "kp_phrase \<equiv> js ''key points''"
abbreviation lp_phrase :: jstr where "lp_phrase \<equiv> js ''learning points''"

lemma tts_header_line_iff:
  "tts_header_line l \<longleftrightarrow> sublist kp_phrase (js_lower l) \<or> sublist lp_phrase (js_lower l)"
proof -
  have "sublist lp_phrase (js ''key learning points'')"
    by (simp add: js_def sublist_Cons_right)
  then have "sublist (js ''key learning points'') (js_lower l) \<Longrightarrow> sublist lp_phrase (js_lower l)"
    by (rule sublist_order.order_trans)
  then show ?thesis by (auto simp: tts_header_line_def js_includes_iff_sublist)
qed

lemma phrase_facts:
  "kp_phrase \<noteq> [] \<and> nl \<notin> set kp_phrase \<and> set kp_phrase \<inter> set (js ''...'') = {}"
  "lp_phrase \<noteq> [] \<and> nl \<notin> set lp_phrase \<and> set lp_phrase \<inter> set (js ''...'') = {}"
  by (simp_all add: js_def)

lemma no_phrase_lines:
  assumes "\<forall>l \<in> set ls. \<not> tts_header_line l"
  shows "no_phrase kp_phrase (js_join [nl] ls) \<and> no_phrase lp_phrase (js_join [nl] ls)"
proof -
  have "\<forall>l \<in> set ls. no_phrase kp_phrase l" "\<forall>l \<in> set ls. no_phrase lp_phrase l"
    using assms by (auto simp: tts_header_line_iff no_phrase_def)
  then show ?thesis using phrase_facts by (simp add: no_phrase_js_join)
qed

lemma tts_text_cases:
  obtains (none) "js_find_index tts_header_line (js_split nl s) = None" "tts_text s = tts_cap s"
  | (found) k where "js_find_index tts_header_line (js_split nl s) = Some k"
      "tts_text s = tts_cap (js_trim (js_join [nl] (take k (js_split nl s))))"
  by (cases "js_find_index tts_header_line (js_split nl s)") (auto simp: tts_text_def intro: that)

lemma tts_text_no_phrase:
  "no_phrase kp_phrase (tts_text s) \<and> no_phrase lp_phrase (tts_text s)"
proof (cases rule: tts_text_cases [of s])
  case none
  then have "\<forall>l \<in> set (js_split nl s). \<not> tts_header_line l"
    by (simp add: js_find_index_None)
  then have "no_phrase kp_phrase s \<and> no_phrase lp_phrase s"
    using no_phrase_lines [of "js_split nl s"] by (simp add: js_join_js_split)
  then show ?thesis using none(2) phrase_facts by (simp add: no_phrase_tts_cap)
next
  case (found k)
  let ?t = "js_join [nl] (take k (js_split nl s))"
  have "\<forall>l \<in> set (take k (js_split nl s)). \<not> tts_header_line l"
    using found(1) by (rule js_find_index_take)
  then have "no_phrase kp_phrase ?t \<and> no_phrase lp_phrase ?t"
    by (rule no_phrase_lines)
  then have "no_phrase kp_phrase (js_trim ?t) \<and> no_phrase lp_phrase (js_trim ?t)"
    using no_phrase_sublist [OF js_trim_sublist] by blast
  then show ?thesis using found(2) phrase_facts by (simp add: no_phrase_tts_cap)
qed

lemma tts_header_line_is_header_line: "tts_header_line l \<Longrightarrow> is_header_line l"
proof -
  assume "tts_header_line l"
  then consider "sublist kp_phrase (js_lower l)" | "sublist lp_phrase (js_lower l)"
    by (auto simp: tts_header_line_iff)
  then show ?thesis
  proof cases
    case 1
    then have "sublist kp_phrase (js_trim (js_lower l))"
      by (rule sublist_js_trim) (simp_all add: js_def is_js_space_def)
    then show ?thesis by (simp add: is_header_line_def js_includes_iff_sublist)
  next
    case 2
    then have "sublist lp_phrase (js_trim (js_lower l))"
      by (rule sublist_js_trim) (simp_all add: js_def is_js_space_def)
    then show ?thesis by (simp add: is_header_line_def js_includes_iff_sublist)
  qed
qed

lemma js_find_index_weaker:
  "(\<And>x. Q x \<Longrightarrow> P x) \<Longrightarrow> js_find_index Q xs = Some j \<Longrightarrow>
     \<exists>i \<le> j. js_find_index P xs = Some i"
proof (induction xs arbitrary: j)
  case Nil
  then show ?case by simp
next
  case (Cons x xs)
  show ?case
  proof (cases "P x")
    case True
    then show ?thesis by simp
  next
    case False
    with Cons.prems(1) have "\<not> Q x" by blast
    with Cons.prems(2) obtain j' where "js_find_index Q xs = Some j'" "j = Suc j'" by auto
    with Cons.IH Cons.prems(1) False show ?thesis by fastforce
  qed
qed

subsection \<open>Properties of the excerpt\<close>

text \<open>
  C5. The text handed to speech synthesis is at most 2003 code units long: at most
  2000 of the response and the three-character ellipsis.
\<close>

theorem tts_text_length: "length (tts_text s) \<le> 2003"
  by (cases rule: tts_text_cases [of s]) (simp_all add: tts_cap_def js_substring_prefix)

text \<open>
  C6. The text handed to speech synthesis never contains, in any letter case, the
  phrases ``key points'' or ``learning points'' that the second header scan looks for.
\<close>

theorem tts_text_no_header_phrase:
  "\<not> js_includes (js_lower (tts_text s)) (js ''key points'') \<and>
   \<not> js_includes (js_lower (tts_text s)) (js ''learning points'')"
  using tts_text_no_phrase [of s] by (simp add: no_phrase_def js_includes_iff_sublist)

text \<open>
  C7. When the second scan finds no header line, the excerpt is the whole response,
  cut to its first 2000 code units followed by an ellipsis when it is longer.
\<close>

theorem tts_text_without_header:
  "js_find_index tts_header_line (js_split nl s) = None \<Longrightarrow>
     tts_text s = (if 2000 < length s then take 2000 s @ js ''...'' else s)"
  by (cases rule: tts_text_cases [of s]) (simp_all add: tts_cap_def js_substring_prefix)

text \<open>
  C8. The second scan never stops before the first: when it finds a header line at
  index \<open>j\<close>, the parser's scan finds one at an index \<open>i \<le> j\<close> of the same lines.
\<close>

theorem tts_scan_not_before_parser_scan:
  "js_find_index tts_header_line (js_split nl s) = Some j \<Longrightarrow>
     \<exists>i \<le> j. js_find_index is_header_line (js_split nl s) = Some i"
  by (rule js_find_index_weaker [OF tts_header_line_is_header_line])

text \<open>
  C9. The two scans disagree on every header that only the parser knows. Take a
  response whose lines are \<open>pre\<close>, a header line \<open>h\<close> and the lines \<open>pts\<close>
  after it, where \<open>h\<close> is the first line the parser takes for a header (``Actionable
  takeaways:'', say) but has none of the three phrases of the second scan, and no line
  of \<open>pts\<close> has one either. Then the parser reads its points from the lines after
  \<open>h\<close>, while the speech excerpt is the whole response, points included.
\<close>

theorem takeaways_header_spoken:
  assumes "list_all (\<lambda>l. nl \<notin> set l) (pre @ h # pts)"
    and "list_all (\<lambda>l. \<not> is_header_line l) pre" and "is_header_line h" and "\<not> tts_header_line h"
    and "list_all (\<lambda>l. \<not> tts_header_line l) pts"
  shows "parse_key_points (js_join [nl] (pre @ h # pts)) =
           (let ps = collect_points pts [] in if 3 \<le> length ps then take 5 ps else placeholder_points) \<and>
         tts_text (js_join [nl] (pre @ h # pts)) = tts_cap (js_join [nl] (pre @ h # pts))"
proof -
  have lines: "js_split nl (js_join [nl] (pre @ h # pts)) = pre @ h # pts"
    using assms(1) by (intro js_split_js_join) (simp_all add: list_all_iff)
  have "js_find_index is_header_line (pre @ h # pts) = Some (length pre)"
    using assms(2,3) by (intro js_find_index_append) (simp_all add: list_all_iff)
  moreover have "js_find_index tts_header_line (pre @ h # pts) = None"
    using assms(2,4,5) tts_header_line_is_header_line by (auto simp: js_find_index_None list_all_iff)
  ultimately show ?thesis
    by (simp add: parse_key_points_def tts_text_def lines)
qed

subsection \<open>Witnesses\<close>

theorem tts_text_without_header_witness:
  "tts_text (js ''Plain summary'') = js ''Plain summary''"
  by (rule trans [OF tts_text_without_header]) code_simp+

theorem tts_scan_not_before_parser_scan_witness:
  "\<exists>i \<le> 1. js_find_index is_header_line (js_split nl (js ''Intro'' @ [nl] @ js ''Key points:'')) = Some i"
  by (rule tts_scan_not_before_parser_scan) code_simp

theorem takeaways_header_spoken_witness:
  "parse_key_points (js_join [nl] [js ''Intro'', js ''Actionable takeaways:'',
      js ''1. Learn topic A'', js ''2. Learn topic B'', js ''3. Learn topic C'']) =
     [js ''Learn topic A'', js ''Learn topic B'', js ''Learn topic C''] \<and>
   tts_text (js_join [nl] [js ''Intro'', js ''Actionable takeaways:'',
      js ''1. Learn topic A'', js ''2. Learn topic B'', js ''3. Learn topic C'']) =
     js_join [nl] [js ''Intro'', js ''Actionable takeaways:'',
      js ''1. Learn topic A'', js ''2. Learn topic B'', js ''3. Learn topic C'']"
proof -
  let ?pts = "[js ''1. Learn topic A'', js ''2. Learn topic B'', js ''3. Learn topic C'']"
  have inst: "parse_key_points (js_join [nl] ([js ''Intro''] @ js ''Actionable takeaways:'' # ?pts)) =
      (let ps = collect_points ?pts [] in if 3 \<le> length ps then take 5 ps else placeholder_points) \<and>
    tts_text (js_join [nl] ([js ''Intro''] @ js ''Actionable takeaways:'' # ?pts)) =
      tts_cap (js_join [nl] ([js ''Intro''] @ js ''Actionable takeaways:'' # ?pts))"
    by (rule takeaways_header_spoken) code_simp+
  have pts: "(let ps = collect_points ?pts [] in if 3 \<le> length ps then take 5 ps else placeholder_points) =
      [js ''Learn topic A'', js ''Learn topic B'', js ''Learn topic C'']"
    by code_simp
  have cap: "tts_cap (js_join [nl] ([js ''Intro''] @ js ''Actionable takeaways:'' # ?pts)) =
      js_join [nl] ([js ''Intro''] @ js ''Actionable takeaways:'' # ?pts)"
    by code_simp
  from inst pts cap show ?thesis by simp
qed

end
