(* ===== verification/Pipeline.thy ===== *)
theory Pipeline
  imports Extractor Summarizer Speech Narrative
begin

text \<open>
  \<^verbatim>\<open>processContent\<close> as a whole (\<^verbatim>\<open>src/contentProcessor.js\<close>, lines 53--271): extract,
  summarise, parse the key points, synthesise the narrative, save the podcast, and
  post one message to the parent thread, a result or, for any exception that reaches
  the outer \<^verbatim>\<open>catch\<close>, an error string. The worker's state is the file system of
  \<open>world\<close>; the message is its only other effect.
\<close>

record job_result =
  jr_content :: jstr
  jr_title :: jstr
  jr_summary :: jstr
  jr_key_points :: "jstr list"
  jr_podcast :: "jstr option"

text \<open>The message of \<^verbatim>\<open>parentPort.postMessage\<close> (lines 266 and 268).\<close>

datatype job_msg = JobDone job_result | JobFailed jstr

definition job_failed :: "jstr \<Rightarrow> job_msg" where
  "job_failed e = JobFailed (js ''Failed to process content: '' @ e)"

text \<open>
  Lines 252--264: the outputs directory is created when it is missing, then the wave
  data is written to \<^verbatim>\<open>podcast_<sourceId>_<Date.now()>.wav\<close>. Neither call is
  guarded, so a failure here reaches the outer \<^verbatim>\<open>catch\<close>.
\<close>

definition outputs_dir :: "services \<Rightarrow> jstr" where
  "outputs_dir srv = path_join (base_dir srv) (js ''outputs'')"

definition podcast_path :: "services \<Rightarrow> content_data \<Rightarrow> world \<Rightarrow> jstr" where
  "podcast_path srv cd w =
     path_join (outputs_dir srv)
       (js ''podcast_'' @ js_show_nat (cd_source_id cd) @ js ''_'' @ js_show_nat (clock w) @ js ''.wav'')"

definition ensure_dir :: "services \<Rightarrow> jstr \<Rightarrow> world \<Rightarrow> world outcome" where
  "ensure_dir srv d w = (if d \<in> dirs w then Inr w else make_dir srv d w)"

definition save_podcast :: "services \<Rightarrow> content_data \<Rightarrow> bytes \<Rightarrow> world \<Rightarrow> (jstr \<times> world) outcome" where
  "save_podcast srv cd audio w =
     (case ensure_dir srv (outputs_dir srv) w of
        Inl e \<Rightarrow> Inl e
      | Inr w1 \<Rightarrow>
          (let p = podcast_path srv cd w1 in
           case write_file srv p (BinFile audio) w1 of
             Inl e \<Rightarrow> Inl e
           | Inr w2 \<Rightarrow> Inr (p, w2)))"

text \<open>
  Lines 176--266 after a successful extraction: the request, the parser, the
  narrative, the speech and the podcast file.
\<close>

definition finish_job :: "services \<Rightarrow> content_data \<Rightarrow> jstr \<Rightarrow> jstr \<Rightarrow> world \<Rightarrow> job_msg \<times> world" where
  "finish_job srv cd content title w =
     (case summarize srv (cd_model cd) content of
        Inl e \<Rightarrow> (job_failed e, w)
      | Inr summary \<Rightarrow>
          (let kp = parse_key_points summary;
               r = \<lparr>jr_content = content, jr_title = title, jr_summary = summary,
                    jr_key_points = kp, jr_podcast = None\<rparr>
           in case generate_tts srv (tts_text summary) w of
                (None, w1) \<Rightarrow> (JobDone r, w1)
              | (Some audio, w1) \<Rightarrow>
                  (case save_podcast srv cd audio w1 of
                     Inl e \<Rightarrow> (job_failed e, w1)
                   | Inr (p, w2) \<Rightarrow> (JobDone (r\<lparr>jr_podcast := Some p\<rparr>), w2))))"

definition process_content :: "services \<Rightarrow> content_data \<Rightarrow> world \<Rightarrow> job_msg \<times> world" where
  "process_content srv cd w =
     (case extract_content srv cd of
        Inl e \<Rightarrow> (job_failed e, w)
      | Inr (content, title) \<Rightarrow> finish_job srv cd content title w)"

text \<open>
  The job contract of the specification (sections 4.5 and 7): once content is
  extracted, the job fails exactly when summarisation fails, with that error, and
  otherwise completes with the parser's key points and an optional podcast.
\<close>

inductive job_spec :: "services \<Rightarrow> content_data \<Rightarrow> job_msg \<Rightarrow> bool" where
  summary_failed:
    "extract_content srv cd = Inr (c, t) \<Longrightarrow> summarize srv (cd_model cd) c = Inl e \<Longrightarrow>
     m = js ''Failed to process content: '' @ e \<Longrightarrow> job_spec srv cd (JobFailed m)"
| completed:
    "extract_content srv cd = Inr (jr_content r, jr_title r) \<Longrightarrow>
     summarize srv (cd_model cd) (jr_content r) = Inr (jr_summary r) \<Longrightarrow>
     jr_key_points r = parse_key_points (jr_summary r) \<Longrightarrow> job_spec srv cd (JobDone r)"

code_pred job_spec .

subsection \<open>Facts about the steps\<close>

lemma ensure_dir_Inr:
  "ensure_dir srv d w = Inr w' \<Longrightarrow> w' = w\<lparr>dirs := insert d (dirs w)\<rparr>"
  by (auto simp: ensure_dir_def make_dir_Inr insert_absorb split: if_splits)

lemma save_podcast_Inr:
  assumes "save_podcast srv cd a w = Inr (p, w')"
  shows "p = podcast_path srv cd w \<and> files w' = (files w)(p \<mapsto> BinFile a) \<and>
         dirs w' = insert (outputs_dir srv) (dirs w) \<and> clock w' = clock w"
proof -
  obtain w1 where e: "ensure_dir srv (outputs_dir srv) w = Inr w1"
    using assms by (cases "ensure_dir srv (outputs_dir srv) w") (auto simp: save_podcast_def)
  then have w1: "w1 = w\<lparr>dirs := insert (outputs_dir srv) (dirs w)\<rparr>" by (rule ensure_dir_Inr)
  have pp: "podcast_path srv cd w1 = podcast_path srv cd w" using w1 by (simp add: podcast_path_def)
  show ?thesis
    using assms e w1 pp by (auto simp: save_podcast_def Let_def write_file_Inr split: sum.splits)
qed

lemma save_podcast_Inl:
  "save_podcast srv cd a w = Inl e \<longleftrightarrow>
     (outputs_dir srv \<notin> dirs w \<and> write_error srv (outputs_dir srv) = Some e) \<or>
     ((outputs_dir srv \<in> dirs w \<or> write_error srv (outputs_dir srv) = None) \<and>
      write_error srv (podcast_path srv cd w) = Some e)"
  by (auto simp: save_podcast_def ensure_dir_def make_dir_def write_file_def podcast_path_def Let_def
           split: option.splits sum.splits)

lemma finish_job_cases:
  obtains (summary_fail) e where "summarize srv (cd_model cd) c = Inl e"
      "finish_job srv cd c t w = (job_failed e, w)"
  | (no_audio) s w1 where "summarize srv (cd_model cd) c = Inr s"
      "generate_tts srv (tts_text s) w = (None, w1)"
      "finish_job srv cd c t w = (JobDone \<lparr>jr_content = c, jr_title = t, jr_summary = s,
          jr_key_points = parse_key_points s, jr_podcast = None\<rparr>, w1)"
  | (save_fail) s a w1 e where "summarize srv (cd_model cd) c = Inr s"
      "generate_tts srv (tts_text s) w = (Some a, w1)" "save_podcast srv cd a w1 = Inl e"
      "finish_job srv cd c t w = (job_failed e, w1)"
  | (saved) s a w1 p w2 where "summarize srv (cd_model cd) c = Inr s"
      "generate_tts srv (tts_text s) w = (Some a, w1)" "save_podcast srv cd a w1 = Inr (p, w2)"
      "finish_job srv cd c t w = (JobDone \<lparr>jr_content = c, jr_title = t, jr_summary = s,
          jr_key_points = parse_key_points s, jr_podcast = Some p\<rparr>, w2)"
proof (cases "summarize srv (cd_model cd) c")
  case (Inl e)
  then show ?thesis using that(1) by (simp add: finish_job_def)
next
  case (Inr s)
  obtain ao w1 where g: "generate_tts srv (tts_text s) w = (ao, w1)" by fastforce
  show ?thesis
  proof (cases ao)
    case None
    then show ?thesis using Inr g that(2) by (simp add: finish_job_def)
  next
    case (Some a)
    show ?thesis
    proof (cases "save_podcast srv cd a w1")
      case (Inl e)
      then show ?thesis using Inr g Some that(3) by (simp add: finish_job_def)
    next
      case (Inr pw)
      then obtain p w2 where "pw = (p, w2)" by fastforce
      then show ?thesis using Inr \<open>summarize srv (cd_model cd) c = Inr s\<close> g Some that(4)
        by (simp add: finish_job_def)
    qed
  qed
qed

lemma process_content_extracted:
  "extract_content srv cd = Inr (c, t) \<Longrightarrow> process_content srv cd w = finish_job srv cd c t w"
  by (simp add: process_content_def)

lemma process_content_extract_fail:
  "extract_content srv cd = Inl e \<Longrightarrow> process_content srv cd w = (job_failed e, w)"
  by (simp add: process_content_def)

lemma podcast_path_frame: "clock w1 = clock w \<Longrightarrow> podcast_path srv cd w1 = podcast_path srv cd w"
  by (simp add: podcast_path_def)

lemma job_failed_not_done [simp]: "job_failed e \<noteq> JobDone r"
  by (simp add: job_failed_def)

subsection \<open>Properties of the job\<close>

text \<open>
  C20. Without an OpenRouter key (missing or empty) the job fails and leaves the
  file system untouched: its message is the extraction error when extraction fails,
  and otherwise \<^verbatim>\<open>Failed to process content: OpenRouter API key not found\<close>; no
  request, no speech and no podcast file follow.
\<close>

theorem process_content_missing_key:
  assumes "\<not> js_truthy (openrouter_key srv)"
  shows "process_content srv cd w =
           (job_failed (case extract_content srv cd of Inl e \<Rightarrow> e | Inr _ \<Rightarrow> missing_key_error), w)"
  using assms
  by (cases "extract_content srv cd") (auto simp: process_content_def finish_job_def summarize_def)

text \<open>
  C21. When the content was extracted and the key is set but the OpenRouter request
  fails, the job fails with that request's error and the file system is untouched:
  a job without a summary is not completed.
\<close>

theorem process_content_chat_failure:
  assumes "js_truthy (openrouter_key srv)" and "extract_content srv cd = Inr (c, t)"
    and "chat srv (the (openrouter_key srv)) (chat_model (cd_model cd)) (summary_prompt c) = Inl e"
  shows "process_content srv cd w = (job_failed e, w)"
  using assms by (simp add: process_content_def finish_job_def summarize_def)

text \<open>
  C22. When the speech engine fails, the job still completes: its result carries the
  extracted content and title, the summary, the key points the parser reads from the
  summary, and no podcast path.
\<close>

theorem process_content_tts_failure:
  assumes "extract_content srv cd = Inr (c, t)" and "summarize srv (cd_model cd) c = Inr s"
    and "speak srv tts_voice (tts_text s) = Inl e"
  shows "fst (process_content srv cd w) =
           JobDone \<lparr>jr_content = c, jr_title = t, jr_summary = s,
                    jr_key_points = parse_key_points s, jr_podcast = None\<rparr>"
proof (cases rule: finish_job_cases [of srv cd c t w])
  case (no_audio s' w1)
  then show ?thesis using assms(1,2) by (simp add: process_content_extracted)
qed (use assms generate_tts_Some_speak in \<open>auto simp: process_content_extracted\<close>)

text \<open>
  C23. When speech succeeds but the podcast file cannot be written (the outputs
  directory exists or can be created), the whole job fails with the write error: the
  save of the podcast is not guarded like the synthesis before it.
\<close>

theorem process_content_podcast_failure:
  assumes "extract_content srv cd = Inr (c, t)" and "summarize srv (cd_model cd) c = Inr s"
    and "fst (generate_tts srv (tts_text s) w) = Some a"
    and "write_error srv (outputs_dir srv) = None"
    and "write_error srv (podcast_path srv cd w) = Some e"
  shows "fst (process_content srv cd w) = job_failed e"
proof -
  obtain w1 where g: "generate_tts srv (tts_text s) w = (Some a, w1)"
    using assms(3) by (metis prod.collapse)
  have "clock w1 = clock w" using generate_tts_frame [of srv "tts_text s" w] g by simp
  then have "podcast_path srv cd w1 = podcast_path srv cd w" by (rule podcast_path_frame)
  then have sv: "save_podcast srv cd a w1 = Inl e"
    using assms(4,5) by (simp add: save_podcast_Inl)
  show ?thesis
  proof (cases rule: finish_job_cases [of srv cd c t w])
    case (save_fail s' a' w1' e')
    then show ?thesis using assms(1,2) g sv by (simp add: process_content_extracted)
  qed (use assms(2) g sv in \<open>simp_all\<close>)
qed

text \<open>
  C24. A completed job is the composition of its steps: its content and title are
  what extraction returned, its summary is the answer to the request on that content,
  its key points are the parser's reading of that summary, and a podcast path, when
  there is one, is \<^verbatim>\<open>outputs\podcast_<sourceId>_<time>.wav\<close> holding the wave data
  the engine rendered from the narrative of the summary.
\<close>

theorem process_content_done:
  assumes "process_content srv cd w = (JobDone r, w')"
  shows "extract_content srv cd = Inr (jr_content r, jr_title r) \<and>
         summarize srv (cd_model cd) (jr_content r) = Inr (jr_summary r) \<and>
         jr_key_points r = parse_key_points (jr_summary r) \<and>
         (case jr_podcast r of None \<Rightarrow> True
          | Some p \<Rightarrow> p = podcast_path srv cd w \<and>
              (\<exists>a. speak srv tts_voice (tts_text (jr_summary r)) = Inr a \<and> files w' p = Some (BinFile a)))"
proof (cases "extract_content srv cd")
  case (Inl e)
  then show ?thesis using assms by (simp add: process_content_extract_fail)
next
  case (Inr ct)
  then obtain c t where ex: "extract_content srv cd = Inr (c, t)" by (cases ct) auto
  show ?thesis
  proof (cases rule: finish_job_cases [of srv cd c t w])
    case (no_audio s w1)
    then show ?thesis using assms ex by (auto simp: process_content_extracted)
  next
    case (saved s a w1 p w2)
    have "podcast_path srv cd w1 = podcast_path srv cd w"
      using generate_tts_world(1) [OF saved(2)] by (rule podcast_path_frame)
    then show ?thesis
      using assms ex saved save_podcast_Inr [OF saved(3)] generate_tts_Some_speak [OF saved(2)]
      by (auto simp: process_content_extracted)
  qed (use assms ex in \<open>simp_all add: process_content_extracted\<close>)
qed

text \<open>
  C25. Refinement of the job contract of the specification (section 4.5): when
  extraction yields content and the podcast file can be written, the message of the
  worker is one that \<open>job_spec\<close> allows, a failure carrying the summarisation
  error or a complete result whose key points are the parser's reading of the
  summary. C17 and C23 name the two ways the code leaves the contract.
\<close>

theorem process_content_refines_spec:
  assumes "\<not> isl (extract_content srv cd)"
    and "write_error srv (outputs_dir srv) = None" and "write_error srv (podcast_path srv cd w) = None"
  shows "job_spec srv cd (fst (process_content srv cd w))"
proof -
  obtain c t where ex: "extract_content srv cd = Inr (c, t)"
    using assms(1) by (cases "extract_content srv cd") auto
  show ?thesis
  proof (cases rule: finish_job_cases [of srv cd c t w])
    case (summary_fail e)
    then show ?thesis using ex by (auto simp: process_content_extracted job_failed_def intro: job_spec.summary_failed)
  next
    case (no_audio s w1)
    then show ?thesis using ex by (simp add: process_content_extracted job_spec.simps)
  next
    case (save_fail s a w1 e)
    have "podcast_path srv cd w1 = podcast_path srv cd w"
      using generate_tts_world(1) [OF save_fail(2)] by (rule podcast_path_frame)
    then show ?thesis using save_fail(3) assms(2,3) by (simp add: save_podcast_Inl)
  next
    case (saved s a w1 p w2)
    then show ?thesis using ex by (simp add: process_content_extracted job_spec.simps)
  qed
qed

text \<open>
  C26. A job changes no file other than its two temporary files and its podcast
  file, and creates no directory other than the outputs directory.
\<close>

theorem process_content_frame:
  assumes "p \<noteq> temp_text_path srv w" and "p \<noteq> temp_audio_path srv w" and "p \<noteq> podcast_path srv cd w"
  shows "files (snd (process_content srv cd w)) p = files w p \<and>
         dirs (snd (process_content srv cd w)) \<subseteq> insert (outputs_dir srv) (dirs w)"
proof (cases "extract_content srv cd")
  case (Inl e)
  then show ?thesis by (auto simp: process_content_extract_fail)
next
  case (Inr ct)
  then obtain c t where ex: "extract_content srv cd = Inr (c, t)" by (cases ct) auto
  show ?thesis
  proof (cases rule: finish_job_cases [of srv cd c t w])
    case (summary_fail e)
    then show ?thesis using ex by (auto simp: process_content_extracted)
  next
    case (no_audio s w1)
    then show ?thesis using ex generate_tts_world [OF no_audio(2)] assms
      by (auto simp: process_content_extracted)
  next
    case (save_fail s a w1 e)
    then show ?thesis using ex generate_tts_world [OF save_fail(2)] assms
      by (auto simp: process_content_extracted)
  next
    case (saved s a w1 p' w2)
    have "podcast_path srv cd w1 = podcast_path srv cd w"
      using generate_tts_world(1) [OF saved(2)] by (rule podcast_path_frame)
    then show ?thesis
      using ex saved save_podcast_Inr [OF saved(3)] generate_tts_world [OF saved(2)] assms
      by (auto simp: process_content_extracted)
  qed
qed

subsection \<open>Witnesses\<close>

theorem process_content_missing_key_witness:
  "process_content (demo_services\<lparr>openrouter_key := None\<rparr>) demo_article demo_world =
     (job_failed missing_key_error, demo_world)"
proof -
  have "extract_content (demo_services\<lparr>openrouter_key := None\<rparr>) demo_article = Inr (js ''<html><TITLE>Test</Title></html>'', js ''Test'')"
    by code_simp
  moreover have "process_content (demo_services\<lparr>openrouter_key := None\<rparr>) demo_article demo_world =
      (job_failed (case extract_content (demo_services\<lparr>openrouter_key := None\<rparr>) demo_article of
                     Inl e \<Rightarrow> e | Inr _ \<Rightarrow> missing_key_error), demo_world)"
    by (rule process_content_missing_key) (simp add: js_truthy_def)
  ultimately show ?thesis by simp
qed

theorem process_content_chat_failure_witness:
  "process_content (demo_services\<lparr>chat := \<lambda>k m p. Inl (js ''HTTP 429'')\<rparr>) demo_article demo_world =
     (job_failed (js ''HTTP 429''), demo_world)"
proof (rule process_content_chat_failure)
  show "extract_content (demo_services\<lparr>chat := \<lambda>k m p. Inl (js ''HTTP 429'')\<rparr>) demo_article =
          Inr (js ''<html><TITLE>Test</Title></html>'', js ''Test'')"
    by code_simp
qed (simp_all add: demo_services_def js_truthy_def js_def)

theorem process_content_tts_failure_witness:
  "fst (process_content (demo_services\<lparr>speak := \<lambda>v t. Inl (js ''timeout'')\<rparr>) demo_article demo_world) =
     JobDone \<lparr>jr_content = js ''<html><TITLE>Test</Title></html>'', jr_title = js ''Test'', jr_summary = demo_answer,
              jr_key_points = parse_key_points (demo_answer), jr_podcast = None\<rparr>"
proof (rule process_content_tts_failure)
  show "extract_content (demo_services\<lparr>speak := \<lambda>v t. Inl (js ''timeout'')\<rparr>) demo_article =
          Inr (js ''<html><TITLE>Test</Title></html>'', js ''Test'')"
    by code_simp
qed (simp_all add: demo_services_def js_truthy_def summarize_def js_def)

theorem process_content_podcast_failure_witness:
  "fst (process_content
          (demo_services\<lparr>write_error := \<lambda>p. if p = podcast_path demo_services demo_article demo_world
                                           then Some (js ''EACCES'') else None\<rparr>)
          demo_article demo_world) = job_failed (js ''EACCES'')"
proof (rule process_content_podcast_failure)
  let ?s = "demo_services\<lparr>write_error := \<lambda>p. if p = podcast_path demo_services demo_article demo_world
                                           then Some (js ''EACCES'') else None\<rparr>"
  show "extract_content ?s demo_article = Inr (js ''<html><TITLE>Test</Title></html>'', js ''Test'')" by code_simp
  show "summarize ?s (cd_model demo_article) (js ''<html><TITLE>Test</Title></html>'') = Inr demo_answer"
    by (simp add: demo_services_def js_truthy_def summarize_def js_def)
  show "fst (generate_tts ?s (tts_text (demo_answer)) demo_world) = Some [1, 2]"
    by code_simp
  show "write_error ?s (outputs_dir ?s) = None" by code_simp
  show "write_error ?s (podcast_path ?s demo_article demo_world) = Some (js ''EACCES'')"
    by (simp add: podcast_path_def outputs_dir_def)
qed

theorem process_content_done_witness:
  "\<exists>a. files (snd (process_content demo_services demo_article demo_world))
          (podcast_path demo_services demo_article demo_world) = Some (BinFile a)"
proof -
  define r0 where "r0 = \<lparr>jr_content = js ''<html><TITLE>Test</Title></html>'', jr_title = js ''Test'', jr_summary = demo_answer,
      jr_key_points = parse_key_points (demo_answer),
      jr_podcast = Some (podcast_path demo_services demo_article demo_world)\<rparr>"
  have "fst (process_content demo_services demo_article demo_world) = JobDone r0"
    unfolding r0_def by code_simp
  then have "process_content demo_services demo_article demo_world =
      (JobDone r0, snd (process_content demo_services demo_article demo_world))"
    by (metis prod.collapse)
  from process_content_done [OF this] show ?thesis by (auto simp: r0_def)
qed

theorem process_content_refines_spec_witness:
  "job_spec demo_services demo_article (fst (process_content demo_services demo_article demo_world))"
proof (rule process_content_refines_spec)
  show "\<not> isl (extract_content demo_services demo_article)" by code_simp
qed (simp_all add: demo_services_def)

theorem process_content_frame_witness:
  "files (snd (process_content demo_services demo_article demo_world)) (js ''notes.txt'') = None"
proof -
  have "files (snd (process_content demo_services demo_article demo_world)) (js ''notes.txt'') =
          files demo_world (js ''notes.txt'')"
    using process_content_frame [of "js ''notes.txt''" demo_services demo_world demo_article]
    by (simp add: temp_text_path_def temp_audio_path_def podcast_path_def path_join_def js_def
                  demo_services_def outputs_dir_def)
  then show ?thesis by (simp add: demo_world_def)
qed

end
