(* ===== verification/Database.thy ===== *)
theory Database
  imports World
begin

text \<open>
  The SQLite database of \<^verbatim>\<open>src/main.js\<close>: the four tables created by
  \<^verbatim>\<open>initDatabase\<close> (lines 44--80), every statement the program sends (the three of
  the \<^verbatim>\<open>process-content\<close> handler and the eight that \<^verbatim>\<open>src/src/App.js\<close> sends), and
  the generic \<^verbatim>\<open>db-query\<close> and \<^verbatim>\<open>db-run\<close> handlers (lines 107--129) that pass the
  interface's statements to SQLite. Tables are lists of rows with their
  \<^verbatim>\<open>INTEGER PRIMARY KEY AUTOINCREMENT\<close> ids, in rowid order, which is the order a
  \<^verbatim>\<open>SELECT\<close> without \<^verbatim>\<open>ORDER BY\<close> over a table without index returns.
\<close>

subsection \<open>Tables (lines 44--80)\<close>

text \<open>The \<^verbatim>\<open>CHECK(type IN (...))\<close> constraints of lines 54 and 74 as datatypes.\<close>

datatype source_type = Youtube | Article | Podcast_src | Social | Forum

datatype output_type = Podcast | Video | Document

definition source_type_name :: "source_type \<Rightarrow> jstr" where
  "source_type_name t =
     (case t of Youtube \<Rightarrow> js ''youtube'' | Article \<Rightarrow> js ''article'' | Podcast_src \<Rightarrow> js ''podcast''
      | Social \<Rightarrow> js ''social'' | Forum \<Rightarrow> js ''forum'')"

text \<open>The text values line 54 admits; any other value fails the \<^verbatim>\<open>CHECK\<close>.\<close>

definition parse_source_type :: "jstr \<Rightarrow> source_type option" where
  "parse_source_type s =
     (if s = js ''youtube'' then Some Youtube else if s = js ''article'' then Some Article
      else if s = js ''podcast'' then Some Podcast_src else if s = js ''social'' then Some Social
      else if s = js ''forum'' then Some Forum else None)"

definition check_error :: jstr where
  "check_error = js ''SQLITE_CONSTRAINT: CHECK constraint failed: sources''"

record project_row =
  pr_name :: jstr

record source_row =
  src_project_id :: nat
  src_url :: jstr
  src_type :: source_type
  src_title :: "jstr option"
  src_content :: "jstr option"

text \<open>
  A summary row; \<^verbatim>\<open>key_points\<close> holds \<^verbatim>\<open>JSON.stringify(result.keyPoints)\<close>, kept here
  as the list it encodes.
\<close>

record summary_row =
  sm_source_id :: nat
  sm_summary :: jstr
  sm_key_points :: "jstr list"

record output_row =
  out_summary_id :: nat
  out_type :: output_type
  out_file_path :: jstr

text \<open>
  \<open>next_\<dots>\<close> are the ids the next inserts into each table receive; \<open>last_rowid\<close> is
  the connection's last inserted rowid, the \<^verbatim>\<open>this.lastID\<close> of \<^verbatim>\<open>db.run\<close>.
\<close>

record db =
  projects :: "(nat \<times> project_row) list"
  sources :: "(nat \<times> source_row) list"
  summaries :: "(nat \<times> summary_row) list"
  outputs :: "(nat \<times> output_row) list"
  next_project :: nat
  next_source :: nat
  next_summary :: nat
  next_output :: nat
  last_rowid :: nat

subsection \<open>Statements\<close>

text \<open>\<^verbatim>\<open>UPDATE ... WHERE id = ?\<close>: the rows with that id get the new values.\<close>

definition upd_rows :: "nat \<Rightarrow> ('r \<Rightarrow> 'r) \<Rightarrow> (nat \<times> 'r) list \<Rightarrow> (nat \<times> 'r) list" where
  "upd_rows i g rs = map (\<lambda>(j, r). if j = i then (j, g r) else (j, r)) rs"

text \<open>\<^verbatim>\<open>main.js\<close> line 145: \<^verbatim>\<open>UPDATE sources SET content = ?, title = ? WHERE id = ?\<close>.\<close>

definition update_source :: "nat \<Rightarrow> jstr \<Rightarrow> jstr \<Rightarrow> db \<Rightarrow> db" where
  "update_source i c t d =
     d\<lparr>sources := upd_rows i (\<lambda>row. row\<lparr>src_content := Some c, src_title := Some t\<rparr>) (sources d)\<rparr>"

text \<open>\<^verbatim>\<open>main.js\<close> line 153: \<^verbatim>\<open>INSERT INTO summaries (source_id, summary, key_points)\<close>.\<close>

definition insert_summary :: "nat \<Rightarrow> jstr \<Rightarrow> jstr list \<Rightarrow> db \<Rightarrow> nat \<times> db" where
  "insert_summary sid s kp d =
     (next_summary d,
      d\<lparr>summaries := summaries d @ [(next_summary d, \<lparr>sm_source_id = sid, sm_summary = s, sm_key_points = kp\<rparr>)],
        next_summary := Suc (next_summary d), last_rowid := next_summary d\<rparr>)"

text \<open>\<^verbatim>\<open>main.js\<close> line 163: \<^verbatim>\<open>INSERT INTO outputs (summary_id, type, file_path)\<close>.\<close>

definition insert_output :: "nat \<Rightarrow> output_type \<Rightarrow> jstr \<Rightarrow> db \<Rightarrow> db" where
  "insert_output smid ty p d =
     d\<lparr>outputs := outputs d @ [(next_output d, \<lparr>out_summary_id = smid, out_type = ty, out_file_path = p\<rparr>)],
       next_output := Suc (next_output d), last_rowid := next_output d\<rparr>"

text \<open>\<^verbatim>\<open>App.js\<close> line 102: \<^verbatim>\<open>INSERT INTO projects (name) VALUES (?)\<close>.\<close>

definition insert_project :: "jstr \<Rightarrow> db \<Rightarrow> db" where
  "insert_project name d =
     d\<lparr>projects := projects d @ [(next_project d, \<lparr>pr_name = name\<rparr>)],
       next_project := Suc (next_project d), last_rowid := next_project d\<rparr>"

text \<open>\<^verbatim>\<open>App.js\<close> line 91: \<^verbatim>\<open>INSERT INTO sources (project_id, url, type)\<close>, checked.\<close>

definition insert_source :: "nat \<Rightarrow> jstr \<Rightarrow> jstr \<Rightarrow> db \<Rightarrow> db outcome" where
  "insert_source pid url ty d =
     (case parse_source_type ty of
        None \<Rightarrow> Inl check_error
      | Some t \<Rightarrow>
          Inr (d\<lparr>sources := sources d @ [(next_source d, \<lparr>src_project_id = pid, src_url = url, src_type = t,
                                                         src_title = None, src_content = None\<rparr>)],
                 next_source := Suc (next_source d), last_rowid := next_source d\<rparr>))"

text \<open>
  \<^verbatim>\<open>App.js\<close> line 76: \<^verbatim>\<open>UPDATE sources SET url = ?, type = ? WHERE id = ?\<close>. The
  id is \<^verbatim>\<open>null\<close> when no source is being edited, and \<^verbatim>\<open>id = NULL\<close> matches no
  row; the \<^verbatim>\<open>CHECK\<close> is evaluated only on rows the statement changes.
\<close>

definition edit_source :: "jstr \<Rightarrow> jstr \<Rightarrow> nat option \<Rightarrow> db \<Rightarrow> (nat \<times> db) outcome" where
  "edit_source url ty sid d =
     (let n = length (filter (\<lambda>x. Some (fst x) = sid) (sources d)) in
      if n = 0 then Inr (0, d)
      else (case parse_source_type ty of
              None \<Rightarrow> Inl check_error
            | Some t \<Rightarrow> Inr (n, d\<lparr>sources := upd_rows (the sid) (\<lambda>r. r\<lparr>src_url := url, src_type := t\<rparr>) (sources d)\<rparr>)))"

text \<open>
  \<^verbatim>\<open>App.js\<close> line 61: \<^verbatim>\<open>DELETE FROM sources WHERE id = ?\<close>. SQLite enforces the
  \<^verbatim>\<open>FOREIGN KEY ... ON DELETE CASCADE\<close> clauses only after
  \<^verbatim>\<open>PRAGMA foreign_keys = ON\<close>, which the program never issues, so only the
  source row goes.
\<close>

definition delete_source :: "nat \<Rightarrow> db \<Rightarrow> nat \<times> db" where
  "delete_source i d =
     (length (filter (\<lambda>x. fst x = i) (sources d)), d\<lparr>sources := filter (\<lambda>x. fst x \<noteq> i) (sources d)\<rparr>)"

subsection \<open>The statements of the interface and the generic handlers\<close>

text \<open>
  The statements \<^verbatim>\<open>App.js\<close> sends through \<^verbatim>\<open>dbQuery\<close> and \<^verbatim>\<open>dbRun\<close>, with their
  parameters: lines 20, 29, 34, 40 (the \<^verbatim>\<open>IN (?, ..., ?)\<close> lists built from the ids),
  102, 91, 76 and 61.
\<close>

datatype sql =
    SelectProjects
  | SelectSources nat
  | SelectSummaries "nat list"
  | SelectOutputs "nat list"
  | InsertProject jstr
  | InsertSource nat jstr jstr
  | UpdateSource jstr jstr "nat option"
  | DeleteSource nat

datatype row =
    ProjectR nat project_row
  | SourceR nat source_row
  | SummaryR nat summary_row
  | OutputR nat output_row

record run_info =
  ri_last_id :: nat
  ri_changes :: nat

definition exec_sql :: "sql \<Rightarrow> db \<Rightarrow> (row list \<times> run_info \<times> db) outcome" where
  "exec_sql q d =
     (let info = \<lambda>n d'. \<lparr>ri_last_id = last_rowid d', ri_changes = n\<rparr> in
      case q of
        SelectProjects \<Rightarrow> Inr (map (\<lambda>(i, p). ProjectR i p) (projects d), info 0 d, d)
      | SelectSources pid \<Rightarrow>
          Inr (map (\<lambda>(i, r). SourceR i r) (filter (\<lambda>x. src_project_id (snd x) = pid) (sources d)), info 0 d, d)
      | SelectSummaries ids \<Rightarrow>
          Inr (map (\<lambda>(i, s). SummaryR i s) (filter (\<lambda>x. sm_source_id (snd x) \<in> set ids) (summaries d)), info 0 d, d)
      | SelectOutputs ids \<Rightarrow>
          Inr (map (\<lambda>(i, ot). OutputR i ot) (filter (\<lambda>x. out_summary_id (snd x) \<in> set ids) (outputs d)), info 0 d, d)
      | InsertProject name \<Rightarrow> (let d' = insert_project name d in Inr ([], info 1 d', d'))
      | InsertSource pid url ty \<Rightarrow>
          (case insert_source pid url ty d of Inl e \<Rightarrow> Inl e | Inr d' \<Rightarrow> Inr ([], info 1 d', d'))
      | UpdateSource url ty sid \<Rightarrow>
          (case edit_source url ty sid d of Inl e \<Rightarrow> Inl e | Inr (n, d') \<Rightarrow> Inr ([], info n d', d'))
      | DeleteSource i \<Rightarrow> (let (n, d') = delete_source i d in Inr ([], info n d', d')))"

text \<open>
  Lines 107--117 and 119--129: \<^verbatim>\<open>db.all\<close> and \<^verbatim>\<open>db.run\<close> with the promise rejected
  with the SQLite error. \<open>db_fail q\<close> is the error SQLite reports for \<open>q\<close> for a
  reason outside the model (a locked or unreadable file), if any.
\<close>

definition db_query_handler :: "(sql \<Rightarrow> jstr option) \<Rightarrow> sql \<Rightarrow> db \<Rightarrow> row list outcome \<times> db" where
  "db_query_handler db_fail q d =
     (case db_fail q of
        Some e \<Rightarrow> (Inl e, d)
      | None \<Rightarrow> (case exec_sql q d of Inl e \<Rightarrow> (Inl e, d) | Inr (rows, _, d') \<Rightarrow> (Inr rows, d')))"

definition db_run_handler :: "(sql \<Rightarrow> jstr option) \<Rightarrow> sql \<Rightarrow> db \<Rightarrow> run_info outcome \<times> db" where
  "db_run_handler db_fail q d =
     (case db_fail q of
        Some e \<Rightarrow> (Inl e, d)
      | None \<Rightarrow> (case exec_sql q d of Inl e \<Rightarrow> (Inl e, d) | Inr (_, info, d') \<Rightarrow> (Inr info, d')))"

subsection \<open>Facts about the statements\<close>

lemma map_of_upd_rows [simp]: "map_of (upd_rows i g rs) i = map_option g (map_of rs i)"
  by (induction rs) (auto simp: upd_rows_def)

lemma map_fst_upd_rows [simp]: "map fst (upd_rows i g rs) = map fst rs"
  by (induction rs) (auto simp: upd_rows_def)

end
