(* ===== verification/Host.thy ===== *)
theory Host
  imports Pipeline Database
begin

text \<open>
  The main process side of a job (\<^verbatim>\<open>src/main.js\<close>): the \<^verbatim>\<open>process-content\<close> IPC
  handler (lines 132--183) starts the worker, and on its message either rejects with
  the worker's error or writes the result to the database, in three statements run one
  after the other, and resolves with the summary id. The tables and statements are
  those of \<open>Database\<close>; a statement that fails is given by the \<open>db_fail\<close> oracle,
  indexed by the statement's position in the handler.
\<close>

subsection \<open>The handler\<close>

record reply =
  rp_summary_id :: nat
  rp_summary :: jstr
  rp_key_points :: "jstr list"
  rp_podcast :: "jstr option"

definition db_error_msg :: "jstr \<Rightarrow> jstr" where
  "db_error_msg e = js ''Database error: '' @ e"

text \<open>
  Lines 138--179. \<open>db_fail k\<close> is the error of the \<open>k\<close>-th statement of the handler
  (0: the update, 1: the summary insert, 2: the output insert), if it fails; each
  failure rejects the promise with \<^verbatim>\<open>Database error: ...\<close> and keeps what the
  statements before it wrote. The worker's error strings are never empty (they start
  with \<^verbatim>\<open>Failed to process content: \<close>), so \<^verbatim>\<open>result.error\<close> is truthy exactly for
  \<open>JobFailed\<close>.
\<close>

definition handle_message ::
  "(nat \<Rightarrow> jstr option) \<Rightarrow> content_data \<Rightarrow> job_msg \<Rightarrow> db \<Rightarrow> (jstr + reply) \<times> db" where
  "handle_message db_fail cd m d =
     (case m of
        JobFailed e \<Rightarrow> (Inl e, d)
      | JobDone r \<Rightarrow>
          (case db_fail 0 of
             Some e \<Rightarrow> (Inl (db_error_msg e), d)
           | None \<Rightarrow>
               (let d1 = update_source (cd_source_id cd) (jr_content r) (jr_title r) d in
                case db_fail 1 of
                  Some e \<Rightarrow> (Inl (db_error_msg e), d1)
                | None \<Rightarrow>
                    (let (smid, d2) = insert_summary (cd_source_id cd) (jr_summary r) (jr_key_points r) d1;
                         rp = \<lparr>rp_summary_id = smid, rp_summary = jr_summary r,
                               rp_key_points = jr_key_points r, rp_podcast = jr_podcast r\<rparr>
                     in if js_truthy (jr_podcast r) then
                          (case db_fail 2 of
                             Some e \<Rightarrow> (Inl (db_error_msg e), d2)
                           | None \<Rightarrow> (Inr rp, insert_output smid Podcast (the (jr_podcast r)) d2))
                        else (Inr rp, d2)))))"

text \<open>A whole request: the worker's run followed by the handler.\<close>

definition process_request ::
  "services \<Rightarrow> (nat \<Rightarrow> jstr option) \<Rightarrow> content_data \<Rightarrow> world \<Rightarrow> db \<Rightarrow> (jstr + reply) \<times> world \<times> db" where
  "process_request srv db_fail cd w d =
     (let (m, w1) = process_content srv cd w; (res, d1) = handle_message db_fail cd m d in (res, w1, d1))"

subsection \<open>Well-formed tables\<close>

text \<open>
  The primary keys are distinct and below the next id, and every output refers to an
  existing summary (the foreign key of line 78).
\<close>

definition db_ok :: "db \<Rightarrow> bool" where
  "db_ok d \<longleftrightarrow>
     distinct (map fst (summaries d)) \<and> list_all (\<lambda>x. fst x < next_summary d) (summaries d) \<and>
     distinct (map fst (outputs d)) \<and> list_all (\<lambda>x. fst x < next_output d) (outputs d) \<and>
     list_all (\<lambda>x. out_summary_id (snd x) \<in> set (map fst (summaries d))) (outputs d)"

subsection \<open>Example tables\<close>

definition demo_db :: db where
  "demo_db =
     \<lparr>projects = [(1, \<lparr>pr_name = js ''Research''\<rparr>)],
      sources = [(1, \<lparr>src_project_id = 1, src_url = js ''http://example.com'', src_type = Article,
                      src_title = None, src_content = None\<rparr>)],
      summaries = [], outputs = [], next_project = 2, next_source = 2, next_summary = 1, next_output = 1,
      last_rowid = 1\<rparr>"

definition demo_result :: job_result where
  "demo_result = \<lparr>jr_content = js ''page'', jr_title = js ''Test'', jr_summary = demo_answer,
                   jr_key_points = parse_key_points demo_answer, jr_podcast = Some (js ''podcast.wav'')\<rparr>"

subsection \<open>Facts about the statements\<close>

lemma db_ok_update_source [intro]: "db_ok d \<Longrightarrow> db_ok (update_source i c t d)"
  by (simp add: db_ok_def update_source_def)

lemma db_ok_insert_summary [intro]: "db_ok d \<Longrightarrow> db_ok (snd (insert_summary sid s kp d))"
  by (auto simp: db_ok_def insert_summary_def list_all_iff)

lemma fst_insert_summary [simp]: "fst (insert_summary sid s kp d) = next_summary d"
  by (simp add: insert_summary_def)

lemma insert_summary_id_mem: "fst (insert_summary sid s kp d) \<in> set (map fst (summaries (snd (insert_summary sid s kp d))))"
  by (simp add: insert_summary_def)

lemma db_ok_insert_output [intro]:
  "db_ok d \<Longrightarrow> smid \<in> set (map fst (summaries d)) \<Longrightarrow> db_ok (insert_output smid ty p d)"
  by (auto simp: db_ok_def insert_output_def list_all_iff)

lemma handle_message_cases:
  obtains (failed) e where "m = JobFailed e" "handle_message fl cd m d = (Inl e, d)"
  | (no_update) r e where "m = JobDone r" "fl 0 = Some e" "handle_message fl cd m d = (Inl (db_error_msg e), d)"
  | (no_summary) r e where "m = JobDone r" "fl 0 = None" "fl 1 = Some e"
      "handle_message fl cd m d =
         (Inl (db_error_msg e), update_source (cd_source_id cd) (jr_content r) (jr_title r) d)"
  | (no_output) r e where "m = JobDone r" "fl 0 = None" "fl 1 = None" "js_truthy (jr_podcast r)" "fl 2 = Some e"
      "handle_message fl cd m d =
         (Inl (db_error_msg e), snd (insert_summary (cd_source_id cd) (jr_summary r) (jr_key_points r)
                                      (update_source (cd_source_id cd) (jr_content r) (jr_title r) d)))"
  | (stored) r where "m = JobDone r" "fl 0 = None" "fl 1 = None" "\<not> js_truthy (jr_podcast r) \<or> fl 2 = None"
      "handle_message fl cd m d =
         (let (smid, d2) = insert_summary (cd_source_id cd) (jr_summary r) (jr_key_points r)
                             (update_source (cd_source_id cd) (jr_content r) (jr_title r) d)
          in (Inr \<lparr>rp_summary_id = smid, rp_summary = jr_summary r,
                   rp_key_points = jr_key_points r, rp_podcast = jr_podcast r\<rparr>,
              if js_truthy (jr_podcast r) then insert_output smid Podcast (the (jr_podcast r)) d2 else d2))"
proof (cases m)
  case (JobFailed e)
  then show ?thesis using that(1) by (simp add: handle_message_def)
next
  case (JobDone r)
  show ?thesis
  proof (cases "fl 0")
    case (Some e)
    then show ?thesis using JobDone that(2) by (simp add: handle_message_def)
  next
    case None
    note n0 = None
    show ?thesis
    proof (cases "fl 1")
      case (Some e)
      then show ?thesis using JobDone n0 that(3) by (simp add: handle_message_def Let_def)
    next
      case None
      show ?thesis
      proof (cases "js_truthy (jr_podcast r) \<and> fl 2 \<noteq> None")
        case True
        then obtain e where "fl 2 = Some e" by auto
        then show ?thesis using JobDone n0 None True that(4)
          by (simp add: handle_message_def Let_def insert_summary_def)
      next
        case False
        then show ?thesis using JobDone n0 None that(5)
          by (auto simp: handle_message_def Let_def insert_summary_def)
      qed
    qed
  qed
qed

lemma update_source_counters [simp]:
  "summaries (update_source i c t d) = summaries d" "outputs (update_source i c t d) = outputs d"
  "next_summary (update_source i c t d) = next_summary d" "next_output (update_source i c t d) = next_output d"
  by (simp_all add: update_source_def)

lemma handle_message_no_failure:
  "handle_message (\<lambda>_. None) cd (JobDone r) d =
     (Inr \<lparr>rp_summary_id = next_summary d, rp_summary = jr_summary r, rp_key_points = jr_key_points r,
           rp_podcast = jr_podcast r\<rparr>,
      (let d2 = snd (insert_summary (cd_source_id cd) (jr_summary r) (jr_key_points r)
                       (update_source (cd_source_id cd) (jr_content r) (jr_title r) d))
       in if js_truthy (jr_podcast r) then insert_output (next_summary d) Podcast (the (jr_podcast r)) d2 else d2))"
  by (simp add: handle_message_def Let_def insert_summary_def)

lemma handle_message_no_failure_tables:
  assumes "map_of (sources d) (cd_source_id cd) = Some row"
  shows "map_of (sources (snd (handle_message (\<lambda>_. None) cd (JobDone r) d))) (cd_source_id cd) =
           Some (row\<lparr>src_content := Some (jr_content r), src_title := Some (jr_title r)\<rparr>)"
    and "(next_summary d, \<lparr>sm_source_id = cd_source_id cd, sm_summary = jr_summary r, sm_key_points = jr_key_points r\<rparr>)
           \<in> set (summaries (snd (handle_message (\<lambda>_. None) cd (JobDone r) d)))"
  using assms
  by (simp_all add: handle_message_no_failure Let_def insert_summary_def insert_output_def update_source_def)

subsection \<open>Properties of the handler\<close>

text \<open>
  C27. Handling a worker message keeps the tables well formed: summary and output
  ids stay distinct and below the next id, and every output row refers to an existing
  summary, whichever statements fail.
\<close>

theorem handle_message_db_ok:
  assumes "db_ok d"
  shows "db_ok (snd (handle_message fl cd m d))"
proof (cases rule: handle_message_cases [of m fl cd d])
  case (stored r)
  obtain smid d2 where ins: "insert_summary (cd_source_id cd) (jr_summary r) (jr_key_points r)
      (update_source (cd_source_id cd) (jr_content r) (jr_title r) d) = (smid, d2)"
    by fastforce
  have ok2: "db_ok d2" using db_ok_insert_summary [OF db_ok_update_source [OF assms]] ins
    by (metis snd_conv)
  have mem: "smid \<in> set (map fst (summaries d2))" using insert_summary_id_mem ins
    by (metis fst_conv snd_conv)
  show ?thesis using stored(5) ins ok2 mem by (simp add: db_ok_insert_output)
qed (use assms in auto)

text \<open>
  C28. When no statement fails, a completed job is stored as one new summary row with
  the next summary id, the job's summary and its key points, plus one podcast output
  row referring to it exactly when the job has a podcast path; the reply carries the
  new summary id.
\<close>

theorem handle_message_stored:
  assumes "fl 0 = None" and "fl 1 = None" and "fl 2 = None"
  shows "fst (handle_message fl cd (JobDone r) d) =
           Inr \<lparr>rp_summary_id = next_summary d, rp_summary = jr_summary r,
                rp_key_points = jr_key_points r, rp_podcast = jr_podcast r\<rparr> \<and>
         summaries (snd (handle_message fl cd (JobDone r) d)) =
           summaries d @ [(next_summary d, \<lparr>sm_source_id = cd_source_id cd, sm_summary = jr_summary r,
                                            sm_key_points = jr_key_points r\<rparr>)] \<and>
         outputs (snd (handle_message fl cd (JobDone r) d)) =
           outputs d @ (if js_truthy (jr_podcast r)
                        then [(next_output d, \<lparr>out_summary_id = next_summary d, out_type = Podcast,
                                                out_file_path = the (jr_podcast r)\<rparr>)]
                        else [])"
  using assms by (simp add: handle_message_def Let_def insert_summary_def insert_output_def)

text \<open>
  C29. When the update of the source row succeeds and the summary insert fails, the
  request is rejected with \<^verbatim>\<open>Database error: ...\<close> but the source row keeps the
  new content and title: the three statements are not one transaction.
\<close>

theorem handle_message_partial_write:
  assumes "fl 0 = None" and "fl 1 = Some e" and "map_of (sources d) (cd_source_id cd) = Some row"
  shows "fst (handle_message fl cd (JobDone r) d) = Inl (db_error_msg e) \<and>
         map_of (sources (snd (handle_message fl cd (JobDone r) d))) (cd_source_id cd) =
           Some (row\<lparr>src_content := Some (jr_content r), src_title := Some (jr_title r)\<rparr>)"
  using assms by (simp add: handle_message_def update_source_def map_of_upd_rows)

text \<open>
  C30. The scenario of section 8 of the specification: without an OpenRouter key the
  request is rejected with \<^verbatim>\<open>Failed to process content: ...\<close> and neither the file
  system nor the database changes.
\<close>

theorem process_request_missing_key:
  assumes "\<not> js_truthy (openrouter_key srv)"
  shows "process_request srv fl cd w d =
           (Inl (js ''Failed to process content: '' @
                 (case extract_content srv cd of Inl e \<Rightarrow> e | Inr _ \<Rightarrow> missing_key_error)), w, d)"
proof -
  have "process_content srv cd w =
          (job_failed (case extract_content srv cd of Inl e \<Rightarrow> e | Inr _ \<Rightarrow> missing_key_error), w)"
    using assms
    by (cases "extract_content srv cd") (auto simp: process_content_def finish_job_def summarize_def)
  then show ?thesis by (simp add: process_request_def handle_message_def job_failed_def)
qed

text \<open>
  C31. The scenario of section 8 of the specification: when the speech engine fails
  (a timeout), the request still resolves with the new summary id, the summary and its
  key points, and no podcast path.
\<close>

theorem process_request_tts_timeout:
  assumes "extract_content srv cd = Inr (c, t)" and "summarize srv (cd_model cd) c = Inr s"
    and "speak srv tts_voice (tts_text s) = Inl e" and "fl 0 = None" and "fl 1 = None"
  shows "fst (process_request srv fl cd w d) =
           Inr \<lparr>rp_summary_id = next_summary d, rp_summary = s, rp_key_points = parse_key_points s,
                rp_podcast = None\<rparr>"
proof -
  obtain w1 where pc: "process_content srv cd w =
      (JobDone \<lparr>jr_content = c, jr_title = t, jr_summary = s,
                jr_key_points = parse_key_points s, jr_podcast = None\<rparr>, w1)"
  proof (cases rule: finish_job_cases [of srv cd c t w])
    case (no_audio s' w1)
    then show ?thesis using that assms(1,2) by (simp add: process_content_extracted)
  qed (use assms generate_tts_Some_speak in \<open>auto\<close>)
  then show ?thesis
    using assms(4,5)
    by (simp add: process_request_def handle_message_def Let_def insert_summary_def js_truthy_def)
qed

subsection \<open>Witnesses\<close>

theorem handle_message_db_ok_witness:
  "db_ok (snd (handle_message (\<lambda>k. None) demo_article (JobDone demo_result) demo_db))"
  by (rule handle_message_db_ok) (simp add: db_ok_def demo_db_def)

theorem handle_message_stored_witness:
  "fst (handle_message (\<lambda>k. None) demo_article (JobDone demo_result) demo_db) =
     Inr \<lparr>rp_summary_id = 1, rp_summary = demo_answer, rp_key_points = parse_key_points demo_answer,
          rp_podcast = Some (js ''podcast.wav'')\<rparr>"
  using handle_message_stored [of "\<lambda>k. None" demo_article demo_result demo_db]
  by (simp add: demo_db_def demo_result_def)

theorem handle_message_partial_write_witness:
  "map_of (sources (snd (handle_message (\<lambda>k. if k = 1 then Some (js ''SQLITE_BUSY'') else None)
                                        demo_article (JobDone demo_result) demo_db))) 1 =
     Some \<lparr>src_project_id = 1, src_url = js ''http://example.com'', src_type = Article,
           src_title = Some (js ''Test''), src_content = Some (js ''page'')\<rparr>"
  using handle_message_partial_write [of "\<lambda>k. if k = 1 then Some (js ''SQLITE_BUSY'') else None"
      "js ''SQLITE_BUSY''" demo_db demo_article
      "\<lparr>src_project_id = 1, src_url = js ''http://example.com'', src_type = Article, src_title = None,
        src_content = None\<rparr>"
      demo_result]
  by (simp add: demo_db_def demo_result_def demo_article_def)

theorem process_request_missing_key_witness:
  "process_request (demo_services\<lparr>openrouter_key := None\<rparr>) (\<lambda>k. None) demo_article demo_world demo_db =
     (Inl (js ''Failed to process content: '' @ missing_key_error), demo_world, demo_db)"
proof -
  have "extract_content (demo_services\<lparr>openrouter_key := None\<rparr>) demo_article =
          Inr (js ''<html><TITLE>Test</Title></html>'', js ''Test'')"
    by code_simp
  then show ?thesis
    using process_request_missing_key [of "demo_services\<lparr>openrouter_key := None\<rparr>" "\<lambda>k. None"
        demo_article demo_world demo_db]
    by (simp add: js_truthy_def)
qed

theorem process_request_tts_timeout_witness:
  "fst (process_request (demo_services\<lparr>speak := \<lambda>v t. Inl (js ''timeout'')\<rparr>) (\<lambda>k. None)
          demo_article demo_world demo_db) =
     Inr \<lparr>rp_summary_id = 1, rp_summary = demo_answer, rp_key_points = parse_key_points demo_answer,
          rp_podcast = None\<rparr>"
proof -
  have "fst (process_request (demo_services\<lparr>speak := \<lambda>v t. Inl (js ''timeout'')\<rparr>) (\<lambda>k. None)
          demo_article demo_world demo_db) =
     Inr \<lparr>rp_summary_id = next_summary demo_db, rp_summary = demo_answer,
          rp_key_points = parse_key_points demo_answer, rp_podcast = None\<rparr>"
  proof (rule process_request_tts_timeout)
    show "extract_content (demo_services\<lparr>speak := \<lambda>v t. Inl (js ''timeout'')\<rparr>) demo_article =
            Inr (js ''<html><TITLE>Test</Title></html>'', js ''Test'')"
      by code_simp
  qed (simp_all add: demo_services_def js_truthy_def summarize_def js_def)
  then show ?thesis by (simp add: demo_db_def)
qed

end
