(* ===== verification/App.thy ===== *)
theory App
  imports Host
begin

text \<open>
  The renderer side: the preload bridge (\<^verbatim>\<open>src/preload.js\<close>) and the React
  component of \<^verbatim>\<open>src/src/App.js\<close>. The component's \<^verbatim>\<open>useState\<close> variables are the
  fields of \<open>app_state\<close>; each handler is a function of that state and of the
  \<open>system\<close> (file system and database) that the main process owns, and reaches it only
  through \<open>invoke\<close>, the three methods of \<^verbatim>\<open>window.electronAPI\<close>. A user action is
  a \<open>ui_event\<close>; \<open>app_step\<close> runs the handler it triggers to its end. Every handler
  catches its errors and only logs them, so an error leaves the state as it was when
  the failing call was made.
\<close>

subsection \<open>The bridge (\<^verbatim>\<open>src/preload.js\<close>)\<close>

datatype ipc_call = DbQuery sql | DbRun sql | ProcessContent content_data

datatype ipc_value = Rows "row list" | RunResult run_info | Processed reply

record system =
  sys_world :: world
  sys_db :: db

text \<open>
  The environment of the main process: the services of the worker and the failures
  of the database, for the statements of the interface and for the three statements
  of the \<^verbatim>\<open>process-content\<close> handler.
\<close>

record env =
  env_services :: services
  env_db_fail :: "sql \<Rightarrow> jstr option"
  env_host_fail :: "nat \<Rightarrow> jstr option"

text \<open>
  Lines 4--6 of \<^verbatim>\<open>preload.js\<close>: each method invokes the handler of the same name in
  \<^verbatim>\<open>main.js\<close>; a rejection of the handler rejects the call.
\<close>

definition invoke :: "env \<Rightarrow> ipc_call \<Rightarrow> system \<Rightarrow> ipc_value outcome \<times> system" where
  "invoke en c sy =
     (case c of
        DbQuery q \<Rightarrow>
          (let (r, d') = db_query_handler (env_db_fail en) q (sys_db sy) in (map_sum id Rows r, sy\<lparr>sys_db := d'\<rparr>))
      | DbRun q \<Rightarrow>
          (let (r, d') = db_run_handler (env_db_fail en) q (sys_db sy) in (map_sum id RunResult r, sy\<lparr>sys_db := d'\<rparr>))
      | ProcessContent cd \<Rightarrow>
          (let (r, w', d') = process_request (env_services en) (env_host_fail en) cd (sys_world sy) (sys_db sy)
           in (map_sum id Processed r, \<lparr>sys_world = w', sys_db = d'\<rparr>)))"

subsection \<open>The component's state (\<^verbatim>\<open>App.js\<close> lines 5--16)\<close>

record app_state =
  ui_projects :: "(nat \<times> project_row) list"
  current_project :: "(nat \<times> project_row) option"
  new_project_name :: jstr
  ui_sources :: "(nat \<times> source_row) list"
  new_source_url :: jstr
  new_source_type :: jstr
  ui_summaries :: "(nat \<times> summary_row) list"
  ui_outputs :: "(nat \<times> output_row) list"
  editing_source_id :: "nat option"
  edit_url :: jstr
  edit_type :: jstr
  selected_model :: jstr

definition app_init :: app_state where
  "app_init =
     \<lparr>ui_projects = [], current_project = None, new_project_name = [], ui_sources = [],
      new_source_url = [], new_source_type = js ''article'', ui_summaries = [], ui_outputs = [],
      editing_source_id = None, edit_url = [], edit_type = js ''article'',
      selected_model = js ''meta-llama/llama-3-8b-instruct''\<rparr>"

text \<open>The \<^verbatim>\<open><option>\<close> values of the model selector (lines 128--134).\<close>

definition model_options :: "jstr list" where
  "model_options =
     map js [''meta-llama/llama-3-8b-instruct'', ''microsoft/wizardlm-2-8x22b'', ''google/gemini-flash-1.0'',
             ''mistralai/mistral-7b-instruct'', ''openai/gpt-3.5-turbo'', ''openai/gpt-4'',
             ''anthropic/claude-3-haiku'']"

subsection \<open>Handlers (lines 18--118)\<close>

definition rows_of :: "ipc_value \<Rightarrow> row list" where
  "rows_of v = (case v of Rows rs \<Rightarrow> rs | _ \<Rightarrow> [])"

definition project_rows :: "row list \<Rightarrow> (nat \<times> project_row) list" where
  "project_rows = List.map_filter (\<lambda>r. case r of ProjectR i p \<Rightarrow> Some (i, p) | _ \<Rightarrow> None)"

definition source_rows :: "row list \<Rightarrow> (nat \<times> source_row) list" where
  "source_rows = List.map_filter (\<lambda>r. case r of SourceR i s \<Rightarrow> Some (i, s) | _ \<Rightarrow> None)"

definition summary_rows :: "row list \<Rightarrow> (nat \<times> summary_row) list" where
  "summary_rows = List.map_filter (\<lambda>r. case r of SummaryR i s \<Rightarrow> Some (i, s) | _ \<Rightarrow> None)"

definition output_rows :: "row list \<Rightarrow> (nat \<times> output_row) list" where
  "output_rows = List.map_filter (\<lambda>r. case r of OutputR i ot \<Rightarrow> Some (i, ot) | _ \<Rightarrow> None)"

type_synonym ui = "app_state \<times> system"

text \<open>Lines 18--25, \<^verbatim>\<open>loadProjects\<close>.\<close>

definition load_projects :: "env \<Rightarrow> ui \<Rightarrow> ui" where
  "load_projects en u =
     (let (st, sy) = u in
      case invoke en (DbQuery SelectProjects) sy of
        (Inl _, sy') \<Rightarrow> (st, sy')
      | (Inr v, sy') \<Rightarrow> (st\<lparr>ui_projects := project_rows (rows_of v)\<rparr>, sy'))"

text \<open>
  Lines 27--52, \<^verbatim>\<open>loadSources\<close>: the sources of the project, then the summaries of
  those sources, then the outputs of those summaries; a failing query ends the
  handler with the state set so far.
\<close>

definition load_outputs :: "env \<Rightarrow> nat list \<Rightarrow> ui \<Rightarrow> ui" where
  "load_outputs en sids u =
     (let (st, sy) = u in
      if sids \<noteq> [] then
        (case invoke en (DbQuery (SelectOutputs sids)) sy of
           (Inl _, sy') \<Rightarrow> (st, sy')
         | (Inr v, sy') \<Rightarrow> (st\<lparr>ui_outputs := output_rows (rows_of v)\<rparr>, sy'))
      else (st\<lparr>ui_outputs := []\<rparr>, sy))"

definition load_summaries :: "env \<Rightarrow> nat list \<Rightarrow> ui \<Rightarrow> ui" where
  "load_summaries en ids u =
     (let (st, sy) = u in
      if ids \<noteq> [] then
        (case invoke en (DbQuery (SelectSummaries ids)) sy of
           (Inl _, sy') \<Rightarrow> (st, sy')
         | (Inr v, sy') \<Rightarrow>
             (let sms = summary_rows (rows_of v) in
              load_outputs en (map fst sms) (st\<lparr>ui_summaries := sms\<rparr>, sy')))
      else (st\<lparr>ui_summaries := [], ui_outputs := []\<rparr>, sy))"

definition load_sources :: "env \<Rightarrow> nat \<Rightarrow> ui \<Rightarrow> ui" where
  "load_sources en pid u =
     (let (st, sy) = u in
      case invoke en (DbQuery (SelectSources pid)) sy of
        (Inl _, sy') \<Rightarrow> (st, sy')
      | (Inr v, sy') \<Rightarrow>
          (let srcs = source_rows (rows_of v) in
           load_summaries en (map fst srcs) (st\<lparr>ui_sources := srcs\<rparr>, sy')))"

text \<open>
  Lines 59--66, \<^verbatim>\<open>deleteSource\<close>, and lines 74--82, \<^verbatim>\<open>saveEdit\<close>: after the
  statement the sources of \<^verbatim>\<open>currentProject\<close> are reloaded; with no current project,
  \<^verbatim>\<open>currentProject.id\<close> throws and the reload is skipped.
\<close>

definition reload_current :: "env \<Rightarrow> ui \<Rightarrow> ui" where
  "reload_current en u =
     (case current_project (fst u) of None \<Rightarrow> u | Some p \<Rightarrow> load_sources en (fst p) u)"

definition delete_source_h :: "env \<Rightarrow> nat \<Rightarrow> ui \<Rightarrow> ui" where
  "delete_source_h en sid u =
     (let (st, sy) = u in
      case invoke en (DbRun (DeleteSource sid)) sy of
        (Inl _, sy') \<Rightarrow> (st, sy')
      | (Inr _, sy') \<Rightarrow> reload_current en (st, sy'))"

definition start_edit :: "nat \<times> source_row \<Rightarrow> app_state \<Rightarrow> app_state" where
  "start_edit src st =
     st\<lparr>editing_source_id := Some (fst src), edit_url := src_url (snd src),
        edit_type := source_type_name (src_type (snd src))\<rparr>"

definition save_edit :: "env \<Rightarrow> ui \<Rightarrow> ui" where
  "save_edit en u =
     (let (st, sy) = u in
      case invoke en (DbRun (UpdateSource (js_trim (edit_url st)) (edit_type st) (editing_source_id st))) sy of
        (Inl _, sy') \<Rightarrow> (st, sy')
      | (Inr _, sy') \<Rightarrow> reload_current en (st\<lparr>editing_source_id := None\<rparr>, sy'))"

definition cancel_edit :: "app_state \<Rightarrow> app_state" where
  "cancel_edit st = st\<lparr>editing_source_id := None\<rparr>"

text \<open>Lines 88--97, \<^verbatim>\<open>addSource\<close>, with its guard.\<close>

definition add_source :: "env \<Rightarrow> ui \<Rightarrow> ui" where
  "add_source en u =
     (let (st, sy) = u in
      case current_project st of
        None \<Rightarrow> u
      | Some p \<Rightarrow>
          (if js_trim (new_source_url st) = [] then u
           else (case invoke en (DbRun (InsertSource (fst p) (js_trim (new_source_url st)) (new_source_type st))) sy of
                   (Inl _, sy') \<Rightarrow> (st, sy')
                 | (Inr _, sy') \<Rightarrow> load_sources en (fst p) (st\<lparr>new_source_url := []\<rparr>, sy'))))"

text \<open>Lines 99--108, \<^verbatim>\<open>createProject\<close>.\<close>

definition create_project :: "env \<Rightarrow> ui \<Rightarrow> ui" where
  "create_project en u =
     (let (st, sy) = u in
      if js_trim (new_project_name st) = [] then u
      else (case invoke en (DbRun (InsertProject (js_trim (new_project_name st)))) sy of
              (Inl _, sy') \<Rightarrow> (st, sy')
            | (Inr _, sy') \<Rightarrow> load_projects en (st\<lparr>new_project_name := []\<rparr>, sy')))"

text \<open>
  Lines 110--118, \<^verbatim>\<open>processContent\<close>, called with the source's id, url and type
  (line 189) and the selected model.
\<close>

definition source_job :: "nat \<times> source_row \<Rightarrow> app_state \<Rightarrow> content_data" where
  "source_job src st =
     \<lparr>cd_source_id = fst src, cd_url = src_url (snd src), cd_type = source_type_name (src_type (snd src)),
      cd_model = Some (selected_model st)\<rparr>"

definition process_source :: "env \<Rightarrow> nat \<times> source_row \<Rightarrow> ui \<Rightarrow> ui" where
  "process_source en src u =
     (let (st, sy) = u in
      case invoke en (ProcessContent (source_job src st)) sy of
        (Inl _, sy') \<Rightarrow> (st, sy')
      | (Inr _, sy') \<Rightarrow> reload_current en (st, sy'))"

text \<open>Lines 143--146: choosing a project.\<close>

definition select_project :: "env \<Rightarrow> nat \<times> project_row \<Rightarrow> ui \<Rightarrow> ui" where
  "select_project en p u = load_sources en (fst p) ((fst u)\<lparr>current_project := Some p\<rparr>, snd u)"

subsection \<open>User actions (lines 120--252)\<close>

text \<open>
  The controls the rendered page offers. A list item or a button of a list is named
  by its position in the rendered list; a \<^verbatim>\<open><select>\<close> offers its options only.
  The source controls exist only while a project is open (line 161), and a source
  being edited shows Save and Cancel instead of Process, Edit and Delete (line 168).
\<close>

datatype ui_event =
    ChooseModel nat
  | TypeProjectName jstr
  | CreateProject
  | OpenProject nat
  | TypeSourceUrl jstr
  | ChooseSourceType source_type
  | AddSource
  | ProcessAt nat
  | EditAt nat
  | TypeEditUrl jstr
  | ChooseEditType source_type
  | SaveEdit
  | CancelEdit
  | DeleteAt nat

definition shown_source :: "app_state \<Rightarrow> nat \<Rightarrow> bool" where
  "shown_source st k \<longleftrightarrow>
     current_project st \<noteq> None \<and> k < length (ui_sources st) \<and>
     editing_source_id st \<noteq> Some (fst (ui_sources st ! k))"

definition editing_shown :: "app_state \<Rightarrow> bool" where
  "editing_shown st \<longleftrightarrow>
     current_project st \<noteq> None \<and> (\<exists>x \<in> set (ui_sources st). editing_source_id st = Some (fst x))"

fun app_step :: "env \<Rightarrow> ui_event \<Rightarrow> ui \<Rightarrow> ui" where
  "app_step en (ChooseModel k) u =
     (if k < length model_options then ((fst u)\<lparr>selected_model := model_options ! k\<rparr>, snd u) else u)"
| "app_step en (TypeProjectName s) u = ((fst u)\<lparr>new_project_name := s\<rparr>, snd u)"
| "app_step en CreateProject u = create_project en u"
| "app_step en (OpenProject k) u =
     (if k < length (ui_projects (fst u)) then select_project en (ui_projects (fst u) ! k) u else u)"
| "app_step en (TypeSourceUrl s) u =
     (if current_project (fst u) \<noteq> None then ((fst u)\<lparr>new_source_url := s\<rparr>, snd u) else u)"
| "app_step en (ChooseSourceType t) u =
     (if current_project (fst u) \<noteq> None then ((fst u)\<lparr>new_source_type := source_type_name t\<rparr>, snd u) else u)"
| "app_step en AddSource u = (if current_project (fst u) \<noteq> None then add_source en u else u)"
| "app_step en (ProcessAt k) u =
     (if shown_source (fst u) k then process_source en (ui_sources (fst u) ! k) u else u)"
| "app_step en (EditAt k) u =
     (if shown_source (fst u) k then (start_edit (ui_sources (fst u) ! k) (fst u), snd u) else u)"
| "app_step en (TypeEditUrl s) u = (if editing_shown (fst u) then ((fst u)\<lparr>edit_url := s\<rparr>, snd u) else u)"
| "app_step en (ChooseEditType t) u =
     (if editing_shown (fst u) then ((fst u)\<lparr>edit_type := source_type_name t\<rparr>, snd u) else u)"
| "app_step en SaveEdit u = (if editing_shown (fst u) then save_edit en u else u)"
| "app_step en CancelEdit u = (if editing_shown (fst u) then (cancel_edit (fst u), snd u) else u)"
| "app_step en (DeleteAt k) u =
     (if shown_source (fst u) k then delete_source_h en (fst (ui_sources (fst u) ! k)) u else u)"

text \<open>The component mounts (lines 54--57) and then the user acts.\<close>

definition app_run :: "env \<Rightarrow> ui_event list \<Rightarrow> system \<Rightarrow> ui" where
  "app_run en evs sy = fold (app_step en) evs (load_projects en (app_init, sy))"

subsection \<open>What the page shows (lines 188 and 219--247)\<close>

definition source_label :: "source_row \<Rightarrow> jstr" where
  "source_label row =
     (case src_title row of Some t \<Rightarrow> if t \<noteq> [] then t else source_type_name (src_type row)
      | None \<Rightarrow> source_type_name (src_type row))"

text \<open>\<^verbatim>\<open>file_path.split('\\\\').pop()\<close>, the name shown for a podcast (line 240).\<close>

definition shown_file_name :: "jstr \<Rightarrow> jstr" where
  "shown_file_name p = last (js_split 92 p)"

definition podcast_shown :: "(nat \<times> output_row) list \<Rightarrow> nat \<Rightarrow> jstr option" where
  "podcast_shown outs smid =
     map_option (\<lambda>x. shown_file_name (out_file_path (snd x)))
       (find (\<lambda>x. out_type (snd x) = Podcast) (filter (\<lambda>x. out_summary_id (snd x) = smid) outs))"

definition summary_view :: "(nat \<times> output_row) list \<Rightarrow> nat \<times> summary_row \<Rightarrow> jstr \<times> jstr list \<times> jstr option" where
  "summary_view outs s = (sm_summary (snd s), sm_key_points (snd s), podcast_shown outs (fst s))"


subsection \<open>Example page\<close>

text \<open>The example tables with no failing call, and the page with the project opened.\<close>

definition demo_env :: env where
  "demo_env = \<lparr>env_services = demo_services, env_db_fail = \<lambda>_. None, env_host_fail = \<lambda>_. None\<rparr>"

definition demo_system :: system where
  "demo_system = \<lparr>sys_world = demo_world, sys_db = demo_db\<rparr>"

definition demo_app :: app_state where
  "demo_app = app_init\<lparr>ui_projects := projects demo_db, current_project := Some (hd (projects demo_db)),
                        ui_sources := sources demo_db\<rparr>"

subsection \<open>Facts about the page\<close>

lemma last_js_split_append_sep: "last (js_split c (a @ c # b)) = last (js_split c b)"
proof (induction a)
  case Nil
  then show ?case by simp
next
  case (Cons x a)
  obtain r0 rs where r: "js_split c (a @ c # b) = r0 # rs"
    by (cases "js_split c (a @ c # b)") auto
  have "length (js_split c (a @ c # b)) \<ge> 2" by (simp add: length_js_split)
  then have "rs \<noteq> []" using r by auto
  then show ?case using Cons r by (simp add: Let_def)
qed

lemma digits_no_backslash: "92 \<notin> set (js_show_nat n)"
  using js_show_nat_digits [of n] by (auto simp: is_digit_def)

lemma parse_source_type_name [simp]: "parse_source_type (source_type_name t) = Some t"
  by (cases t) (simp_all add: parse_source_type_def source_type_name_def js_def)

lemma source_rows_map [simp]: "source_rows (map (\<lambda>(i, r). SourceR i r) xs) = xs"
  by (induction xs) (auto simp: source_rows_def List.map_filter_simps)

lemma summary_rows_map [simp]: "summary_rows (map (\<lambda>(i, s). SummaryR i s) xs) = xs"
  by (induction xs) (auto simp: summary_rows_def List.map_filter_simps)

lemma load_outputs_summaries [frame]:
  "ui_summaries (fst (load_outputs en sids u)) = ui_summaries (fst u)"
  by (cases u) (auto simp: load_outputs_def split: prod.splits sum.splits)

lemma loaders_keep_tables:
  "sys_db (snd (load_outputs en sids u)) = sys_db (snd u)"
  "sys_db (snd (load_summaries en ids u)) = sys_db (snd u)"
  "sys_db (snd (load_sources en pid u)) = sys_db (snd u)"
  "sys_db (snd (reload_current en u)) = sys_db (snd u)"
  by (cases u; auto simp: load_outputs_def load_summaries_def load_sources_def reload_current_def invoke_def
                          db_query_handler_def exec_sql_def Let_def split: prod.splits sum.splits option.splits)+

text \<open>
  A Delete click removes the source row only: the \<^verbatim>\<open>ON DELETE CASCADE\<close> of the
  schema is not enforced without \<^verbatim>\<open>PRAGMA foreign_keys = ON\<close>, so the summaries and
  outputs of the deleted source stay in their tables, whatever the outcome, and
  no longer appear on the page once the sources are reloaded.
\<close>

lemma delete_keeps_summaries:
  "summaries (sys_db (snd (app_step en (DeleteAt k) u))) = summaries (sys_db (snd u)) \<and>
   outputs (sys_db (snd (app_step en (DeleteAt k) u))) = outputs (sys_db (snd u))"
  by (cases u) (auto simp: delete_source_h_def invoke_def db_run_handler_def exec_sql_def delete_source_def
                          loaders_keep_tables split: prod.splits sum.splits option.splits)

subsection \<open>Properties of the page\<close>

text \<open>
  C19. Adding a source stores what the user entered: after typing a URL that is not
  blank, choosing a type in the selector and clicking Add Resource in an open project,
  with no failing statement, the sources table has one more row, with the next id,
  the project, the trimmed URL, the chosen type and no title or content yet.
\<close>

theorem add_source_stores_choice:
  assumes "current_project st = Some p" and "js_trim url \<noteq> []" and "env_db_fail en = (\<lambda>_. None)"
  shows "sources (sys_db (snd (app_step en AddSource
             (app_step en (ChooseSourceType t) (app_step en (TypeSourceUrl url) (st, sy)))))) =
           sources (sys_db sy) @
             [(next_source (sys_db sy), \<lparr>src_project_id = fst p, src_url = js_trim url, src_type = t,
                                          src_title = None, src_content = None\<rparr>)]"
  using assms
  by (simp add: add_source_def invoke_def db_run_handler_def exec_sql_def insert_source_def
                loaders_keep_tables)


text \<open>
  C37. Clicking Process on a listed source of the open project, when the worker
  succeeds and no statement fails, ends with the new summary, under the id the
  summaries table gave it, in the summaries the page shows: the handler's writes and
  the reload that follows compose.
\<close>

theorem process_click_shows_summary:
  assumes "shown_source st k" and "ui_sources st ! k = src" and "current_project st = Some p"
    and "map_of (sources (sys_db sy)) (fst src) = Some row" and "src_project_id row = fst p"
    and "env_db_fail en = (\<lambda>_. None)" and "env_host_fail en = (\<lambda>_. None)"
    and "fst (process_content (env_services en) (source_job src st) (sys_world sy)) = JobDone r"
  shows "(next_summary (sys_db sy), \<lparr>sm_source_id = fst src, sm_summary = jr_summary r, sm_key_points = jr_key_points r\<rparr>)
           \<in> set (ui_summaries (fst (app_step en (ProcessAt k) (st, sy))))"
proof -
  let ?cd = "source_job src st"
  obtain w1 where pc: "process_content (env_services en) ?cd (sys_world sy) = (JobDone r, w1)"
    using assms(8) by (cases "process_content (env_services en) ?cd (sys_world sy)") auto
  define d2 where "d2 = snd (handle_message (\<lambda>_. None) ?cd (JobDone r) (sys_db sy))"
  have sid: "cd_source_id ?cd = fst src" by (simp add: source_job_def)
  have inv: "invoke en (ProcessContent ?cd) sy =
               (Inr (Processed (projr (fst (handle_message (\<lambda>_. None) ?cd (JobDone r) (sys_db sy))))),
                \<lparr>sys_world = w1, sys_db = d2\<rparr>)"
    using assms(7) pc by (simp add: invoke_def process_request_def d2_def handle_message_no_failure)
  have src2: "map_of (sources d2) (fst src) =
                Some (row\<lparr>src_content := Some (jr_content r), src_title := Some (jr_title r)\<rparr>)"
    using handle_message_no_failure_tables(1) [of "sys_db sy" ?cd row r] assms(4) sid by (simp add: d2_def)
  have sm2: "(next_summary (sys_db sy), \<lparr>sm_source_id = fst src, sm_summary = jr_summary r, sm_key_points = jr_key_points r\<rparr>)
               \<in> set (summaries d2)"
    using handle_message_no_failure_tables(2) [of "sys_db sy" ?cd row r] assms(4) sid by (simp add: d2_def)
  define srcs where "srcs = filter (\<lambda>x. src_project_id (snd x) = fst p) (sources d2)"
  have mem: "fst src \<in> set (map fst srcs)"
  proof -
    have "(fst src, row\<lparr>src_content := Some (jr_content r), src_title := Some (jr_title r)\<rparr>) \<in> set srcs"
      using map_of_SomeD [OF src2] assms(5) by (simp add: srcs_def)
    then show ?thesis by (metis fst_conv image_eqI set_map)
  qed
  define sms where "sms = filter (\<lambda>x. sm_source_id (snd x) \<in> set (map fst srcs)) (summaries d2)"
  have insms: "(next_summary (sys_db sy), \<lparr>sm_source_id = fst src, sm_summary = jr_summary r, sm_key_points = jr_key_points r\<rparr>)
          \<in> set sms"
    using sm2 mem by (simp add: sms_def)
  let ?sy2 = "\<lparr>sys_world = w1, sys_db = d2\<rparr>"
  have "app_step en (ProcessAt k) (st, sy) = load_sources en (fst p) (st, ?sy2)"
    using assms(1,2,3) inv by (simp add: process_source_def reload_current_def)
  also have "\<dots> = load_summaries en (map fst srcs) (st\<lparr>ui_sources := srcs\<rparr>, ?sy2)"
    using assms(6) by (simp add: load_sources_def invoke_def db_query_handler_def exec_sql_def rows_of_def srcs_def Let_def)
  also have "\<dots> = load_outputs en (map fst sms) (st\<lparr>ui_sources := srcs, ui_summaries := sms\<rparr>, ?sy2)"
    using assms(6) mem
    by (auto simp: load_summaries_def invoke_def db_query_handler_def exec_sql_def rows_of_def sms_def Let_def)
  finally have "ui_summaries (fst (app_step en (ProcessAt k) (st, sy))) = sms"
    by (simp add: load_outputs_summaries)
  with insms show ?thesis by simp
qed

text \<open>
  C38. The file name the page shows for a podcast (the last part of its path after a
  backslash) is the name the worker gave it, with the source id and the clock.
\<close>

theorem podcast_name_shown:
  "shown_file_name (podcast_path srv cd w) =
     js ''podcast_'' @ js_show_nat (cd_source_id cd) @ js ''_'' @ js_show_nat (clock w) @ js ''.wav''"
proof -
  have "92 \<notin> set (js ''podcast_'' @ js_show_nat (cd_source_id cd) @ js ''_'' @ js_show_nat (clock w) @ js ''.wav'')"
    using digits_no_backslash by (simp add: js_def)
  then show ?thesis
    by (simp add: shown_file_name_def podcast_path_def outputs_dir_def path_join_def
                  last_js_split_append_sep js_split_no_sep)
qed

subsection \<open>Witnesses\<close>

theorem add_source_stores_choice_witness:
  "sources (sys_db (snd (app_step demo_env AddSource
      (app_step demo_env (ChooseSourceType Youtube) (app_step demo_env (TypeSourceUrl (js '' https://youtu.be/abc ''))
        (demo_app, demo_system)))))) =
     sources demo_db @ [(2, \<lparr>src_project_id = 1, src_url = js ''https://youtu.be/abc'', src_type = Youtube,
                              src_title = None, src_content = None\<rparr>)]"
proof -
  have "js_trim (js '' https://youtu.be/abc '') = js ''https://youtu.be/abc''" by code_simp
  then show ?thesis
    using add_source_stores_choice [of demo_app "hd (projects demo_db)" "js '' https://youtu.be/abc ''" demo_env
                                       Youtube demo_system]
    by (simp add: demo_app_def app_init_def demo_db_def demo_env_def demo_system_def js_def)
qed


theorem process_click_shows_summary_witness:
  "(1, \<lparr>sm_source_id = 1, sm_summary = demo_answer, sm_key_points = parse_key_points demo_answer\<rparr>)
     \<in> set (ui_summaries (fst (app_step demo_env (ProcessAt 0) (demo_app, demo_system))))"
proof -
  define src where "src = hd (sources demo_db)"
  define r0 where "r0 = \<lparr>jr_content = js ''<html><TITLE>Test</Title></html>'', jr_title = js ''Test'',
      jr_summary = demo_answer, jr_key_points = parse_key_points demo_answer,
      jr_podcast = Some (podcast_path demo_services (source_job src demo_app) demo_world)\<rparr>"
  have pc: "fst (process_content (env_services demo_env) (source_job src demo_app) (sys_world demo_system)) = JobDone r0"
    unfolding r0_def src_def demo_env_def demo_system_def by code_simp
  have "(next_summary (sys_db demo_system),
         \<lparr>sm_source_id = fst src, sm_summary = jr_summary r0, sm_key_points = jr_key_points r0\<rparr>)
          \<in> set (ui_summaries (fst (app_step demo_env (ProcessAt 0) (demo_app, demo_system))))"
    by (rule process_click_shows_summary [where p = "hd (projects demo_db)" and row = "snd src", OF _ _ _ _ _ _ _ pc])
       (simp_all add: shown_source_def demo_app_def app_init_def demo_db_def src_def demo_system_def demo_env_def)
  then show ?thesis by (simp add: r0_def src_def demo_db_def demo_system_def)
qed

end
