(* ===== verification/Lifecycle.thy ===== *)
theory Lifecycle
  imports Database
begin

text \<open>
  The life of the main process (\<^verbatim>\<open>src/main.js\<close> lines 7--104): the globals
  \<^verbatim>\<open>mainWindow\<close> and \<^verbatim>\<open>db\<close>, \<^verbatim>\<open>initDatabase\<close>, \<^verbatim>\<open>createWindow\<close> and the three
  application events the file listens to. The state is a record of what those
  handlers change; an event is one of the callbacks Electron runs, and
  \<open>life_step\<close> runs it to its end. The states the program can reach are the inductive
  set \<open>reachable\<close>, and its invariant \<open>life_ok\<close> is proved by rule induction.
\<close>

subsection \<open>Opening the database (lines 34--87)\<close>

text \<open>
  The tables of a new database file: the four \<^verbatim>\<open>CREATE TABLE\<close> statements of
  lines 44--82 on an empty file, with every \<^verbatim>\<open>AUTOINCREMENT\<close> counter at its start.
\<close>

definition empty_db :: db where
  "empty_db =
     \<lparr>projects = [], sources = [], summaries = [], outputs = [], next_project = 1, next_source = 1,
      next_summary = 1, next_output = 1, last_rowid = 0\<rparr>"

text \<open>
  \<^verbatim>\<open>initDatabase\<close>: \<open>open_err\<close> is the error of \<^verbatim>\<open>new sqlite3.Database\<close>, if any,
  and \<open>create_err\<close> that of the last \<^verbatim>\<open>CREATE TABLE\<close>, the only one with a
  callback. \<^verbatim>\<open>IF NOT EXISTS\<close> keeps the tables a file already holds, so on success
  the connection sees \<open>stored\<close>, the file's tables (\<open>empty_db\<close> for a new file).
\<close>

definition init_database :: "jstr option \<Rightarrow> jstr option \<Rightarrow> db \<Rightarrow> db outcome" where
  "init_database open_err create_err stored =
     (case open_err of
        Some e \<Rightarrow> Inl e
      | None \<Rightarrow> (case create_err of Some e \<Rightarrow> Inl e | None \<Rightarrow> Inr stored))"

subsection \<open>The process (lines 7--32 and 89--104)\<close>

datatype platform = Darwin | Win32 | Linux

text \<open>
  \<open>ready_done\<close>: the \<^verbatim>\<open>whenReady\<close> callback has run; \<open>life_db\<close>: the tables of
  \<^verbatim>\<open>db\<close> once \<^verbatim>\<open>initDatabase\<close> resolved; \<open>windows\<close>: the number of open
  \<^verbatim>\<open>BrowserWindow\<close>s; \<open>main_window\<close>: \<^verbatim>\<open>mainWindow\<close> is not \<^verbatim>\<open>null\<close>;
  \<open>activate_on\<close>: the \<^verbatim>\<open>activate\<close> listener is registered; \<open>quit\<close>: \<^verbatim>\<open>app.quit()\<close>
  has been called.
\<close>

record life =
  ready_done :: bool
  life_db :: "db option"
  windows :: nat
  main_window :: bool
  activate_on :: bool
  quit :: bool

definition life_init :: life where
  "life_init =
     \<lparr>ready_done = False, life_db = None, windows = 0, main_window = False, activate_on = False, quit = False\<rparr>"

text \<open>Lines 10--32: a new window, assigned to \<^verbatim>\<open>mainWindow\<close>.\<close>

definition create_window :: "life \<Rightarrow> life" where
  "create_window s = s\<lparr>windows := Suc (windows s), main_window := True\<rparr>"

text \<open>
  The events: \<^verbatim>\<open>whenReady\<close> resolving (with the outcome of opening the file),
  \<^verbatim>\<open>activate\<close> (a click on the dock icon), and the user closing a window, whose
  \<^verbatim>\<open>closed\<close> listener clears \<^verbatim>\<open>mainWindow\<close> and, when it was the last one, is
  followed by \<^verbatim>\<open>window-all-closed\<close>.
\<close>

datatype life_event = Ready "jstr option" "jstr option" db | Activate | CloseWindow

text \<open>
  Lines 89--104. A rejected \<^verbatim>\<open>initDatabase\<close> rejects the \<^verbatim>\<open>whenReady\<close> callback
  at its first line: no window is created and no \<^verbatim>\<open>activate\<close> listener registered.
  After \<^verbatim>\<open>app.quit()\<close> no callback runs.
\<close>

fun life_step :: "platform \<Rightarrow> life_event \<Rightarrow> life \<Rightarrow> life" where
  "life_step p (Ready oe ce stored) s =
     (if quit s \<or> ready_done s then s
      else (case init_database oe ce stored of
              Inl _ \<Rightarrow> s\<lparr>ready_done := True\<rparr>
            | Inr d \<Rightarrow> (create_window (s\<lparr>ready_done := True, life_db := Some d\<rparr>))\<lparr>activate_on := True\<rparr>))"
| "life_step p Activate s =
     (if quit s \<or> \<not> activate_on s then s else if windows s = 0 then create_window s else s)"
| "life_step p CloseWindow s =
     (if quit s \<or> windows s = 0 then s
      else (let s' = s\<lparr>windows := windows s - 1, main_window := False\<rparr> in
            if windows s' = 0 \<and> p \<noteq> Darwin then s'\<lparr>quit := True\<rparr> else s'))"

inductive reachable :: "platform \<Rightarrow> life \<Rightarrow> bool" where
  init: "reachable p life_init"
| step: "reachable p s \<Longrightarrow> reachable p (life_step p ev s)"

text \<open>
  The invariant: at most one window, \<^verbatim>\<open>mainWindow\<close> set exactly while it is open,
  windows and the \<^verbatim>\<open>activate\<close> listener only with an open database, nothing before
  \<^verbatim>\<open>whenReady\<close>, and, except on macOS, a running process with an open database
  always shows its window.
\<close>

definition life_ok :: "platform \<Rightarrow> life \<Rightarrow> bool" where
  "life_ok p s \<longleftrightarrow>
     windows s \<le> 1 \<and> (main_window s \<longleftrightarrow> windows s = 1) \<and> (0 < windows s \<longrightarrow> life_db s \<noteq> None) \<and>
     (activate_on s \<longleftrightarrow> life_db s \<noteq> None) \<and> (\<not> ready_done s \<longrightarrow> windows s = 0 \<and> life_db s = None) \<and>
     (p \<noteq> Darwin \<and> life_db s \<noteq> None \<and> \<not> quit s \<longrightarrow> windows s = 1)"

subsection \<open>Facts about the process\<close>

lemma life_ok_init: "life_ok p life_init"
  by (simp add: life_ok_def life_init_def)

lemma life_ok_step: "life_ok p s \<Longrightarrow> life_ok p (life_step p ev s)"
  by (cases ev) (auto simp: life_ok_def create_window_def init_database_def Let_def split: option.splits)

lemma reachable_life_ok: "reachable p s \<Longrightarrow> life_ok p s"
  by (induction rule: reachable.induct) (simp_all add: life_ok_init life_ok_step)

lemma failed_start_step:
  assumes "ready_done s" "\<not> activate_on s" "windows s = 0" "\<not> quit s"
  shows "ready_done (life_step p ev s) \<and> \<not> activate_on (life_step p ev s) \<and>
         windows (life_step p ev s) = 0 \<and> \<not> quit (life_step p ev s)"
  using assms by (cases ev) simp_all

lemma failed_start_run:
  "ready_done s \<Longrightarrow> \<not> activate_on s \<Longrightarrow> windows s = 0 \<Longrightarrow> \<not> quit s \<Longrightarrow>
   windows (fold (life_step p) evs s) = 0 \<and> \<not> quit (fold (life_step p) evs s)"
proof (induction evs arbitrary: s)
  case Nil
  then show ?case by simp
next
  case (Cons ev evs)
  then show ?case using failed_start_step [of s p ev] by simp
qed

subsection \<open>Properties of the process\<close>

text \<open>
  C39. In every state the process can reach there is at most one window,
  \<^verbatim>\<open>mainWindow\<close> is set exactly while it is open, and a window is open only
  once \<^verbatim>\<open>initDatabase\<close> has resolved: the renderer never runs without the
  database its IPC handlers use.
\<close>

theorem reachable_window_db:
  assumes "reachable p s"
  shows "windows s \<le> 1 \<and> (main_window s \<longleftrightarrow> windows s = 1) \<and> (0 < windows s \<longrightarrow> life_db s \<noteq> None)"
  using reachable_life_ok [OF assms] by (simp add: life_ok_def)

text \<open>
  C40. Once the database is open and the process has not quit, the window can
  always be brought back: after an \<^verbatim>\<open>activate\<close> event exactly one window is open
  (on macOS \<^verbatim>\<open>activate\<close> recreates it after the last one closed; elsewhere
  closing the last window quits, so it is still there).
\<close>

theorem activate_shows_window:
  assumes "reachable p s" and "life_db s \<noteq> None" and "\<not> quit s"
  shows "windows (life_step p Activate s) = 1 \<and> main_window (life_step p Activate s)"
  using reachable_life_ok [OF assms(1)] assms(2,3) by (auto simp: life_ok_def create_window_def)

text \<open>
  C34. When \<^verbatim>\<open>initDatabase\<close> rejects, because the file cannot be opened or the
  last table cannot be created, the process never shows a window and never quits,
  whatever events follow: the rejected \<^verbatim>\<open>initDatabase\<close> skips
  \<^verbatim>\<open>createWindow\<close> and the \<^verbatim>\<open>activate\<close> listener, and
  \<^verbatim>\<open>window-all-closed\<close> never fires.
\<close>

theorem failed_open_no_window:
  assumes "isl (init_database oe ce stored)"
  shows "windows (fold (life_step p) evs (life_step p (Ready oe ce stored) life_init)) = 0 \<and>
         \<not> quit (fold (life_step p) evs (life_step p (Ready oe ce stored) life_init))"
proof -
  obtain e where "init_database oe ce stored = Inl e"
    using assms by (cases "init_database oe ce stored") simp_all
  then show ?thesis by (intro failed_start_run) (simp_all add: life_init_def)
qed

subsection \<open>Witnesses\<close>

theorem reachable_window_db_witness:
  "windows (life_step Win32 (Ready None None empty_db) life_init) = 1 \<and>
   life_db (life_step Win32 (Ready None None empty_db) life_init) = Some empty_db"
  using reachable_window_db [OF reachable.step [OF reachable.init, of Win32 "Ready None None empty_db"]]
  by (simp add: life_init_def init_database_def create_window_def)

theorem activate_shows_window_witness:
  "windows (life_step Darwin Activate (life_step Darwin CloseWindow (life_step Darwin (Ready None None empty_db) life_init))) = 1"
proof -
  let ?s = "life_step Darwin CloseWindow (life_step Darwin (Ready None None empty_db) life_init)"
  have "reachable Darwin ?s" by (intro reachable.step reachable.init)
  moreover have "life_db ?s \<noteq> None" "\<not> quit ?s"
    by (simp_all add: life_init_def init_database_def create_window_def)
  ultimately show ?thesis using activate_shows_window by blast
qed

theorem failed_open_no_window_witness:
  "windows (fold (life_step Linux) [Activate, CloseWindow, Activate]
      (life_step Linux (Ready None (Some (js ''SQLITE_FULL'')) empty_db) life_init)) = 0"
  using failed_open_no_window [of None "Some (js ''SQLITE_FULL'')" empty_db Linux "[Activate, CloseWindow, Activate]"]
  by (simp add: init_database_def)

end
