(* ===== verification/Spec2Isabelle.thy ===== *)
theory Spec2Isabelle
  imports App Lifecycle
begin

text \<open>
  \<^bold>\<open>A verification development for the Maximus Resource Scraper.\<close>

  \<^bold>\<open>The program.\<close> An Electron application (\<^verbatim>\<open>src/main.js\<close>) keeps projects,
  sources, summaries and outputs in SQLite. For one source the React interface
  (\<^verbatim>\<open>src/src/App.js\<close>) calls the \<^verbatim>\<open>process-content\<close> handler through the preload
  bridge (\<^verbatim>\<open>src/preload.js\<close>); the handler starts a worker thread running
  \<^verbatim>\<open>processContent\<close> (\<^verbatim>\<open>src/contentProcessor.js\<close>), which extracts the content of
  the source (article page, YouTube metadata and transcript, or a stub), asks
  OpenRouter for a summary, parses the key learning points out of the answer, has the
  Windows speech engine read the narrative part (\<^verbatim>\<open>generateTTS\<close>), saves the audio
  as a podcast file and posts one message back: the result or an error string. The
  handler then writes the result to the database and answers the interface.

  \<^bold>\<open>Theories, in import order, and the code they model.\<close>
  \<^item> \<open>Prelude\<close>: JavaScript strings as lists of UTF-16 code units (\<open>jstr\<close>), literals
    (\<open>js\<close>), the shared collections \<open>js_string\<close> and \<open>frame\<close>, list and sublist lemmas.
  \<^item> \<open>JsString\<close>: the built-ins the worker calls, each as the ECMAScript algorithm:
    \<^verbatim>\<open>trim\<close> (\<open>js_trim\<close>), \<^verbatim>\<open>toLowerCase\<close> (\<open>js_lower\<close>), \<^verbatim>\<open>includes\<close>
    (\<open>js_index_of\<close>, \<open>js_includes\<close>, proved equal to \<open>sublist\<close>), \<^verbatim>\<open>split\<close> and
    \<^verbatim>\<open>join\<close> on one code unit (round trips both ways), \<^verbatim>\<open>substring\<close> with its clamping
    and swapping, \<^verbatim>\<open>findIndex\<close> (\<open>None\<close> for -1), and numbers in template literals.
  \<^item> \<open>KeyPoints\<close>: lines 187--226, the header scan, the three point-line regular
    expressions and replacements, the length filter, the collecting loop
    (\<open>collect_points\<close>, with its \<^verbatim>\<open>break\<close>, \<^verbatim>\<open>continue\<close> and 10-point bound) and
    the placeholder fallback (\<open>parse_key_points\<close>). Claims C1--C4 and C33; the
    header scan written as the source's \<^verbatim>\<open>for\<close> loop (\<open>header_loop\<close>) returns,
    from line 0, what the \<^verbatim>\<open>findIndex\<close> form returns (C35).
  \<^item> \<open>Narrative\<close>: lines 230--250, the second header scan and the 2000-unit cap of the
    text given to speech (\<open>tts_text\<close>). Claims C5--C9.
  \<^item> \<open>Transcript\<close>: the video-id regular expression of line 71 and the sampled
    transcript summary of lines 96--111. Claims C10--C13.
  \<^item> \<open>World\<close>: the interface of the worker. External services are fields of a
    read-only \<open>services\<close> record (HTTP GET, the two YouTube metadata requests, the
    transcript library, the OpenRouter call, the speech engine, write failures,
    \<^verbatim>\<open>__dirname\<close>); the state is a \<open>world\<close> record (files, directories, clock).
    Thrown errors are \<open>Inl\<close> of an \<open>outcome\<close>.
  \<^item> \<open>Speech\<close>: \<^verbatim>\<open>generateTTS\<close> (lines 12--50), temporary files, engine, cleanup.
    Claims C14--C15.
  \<^item> \<open>Extractor\<close>: lines 55--142, the dispatch on the source type, the article fetch
    and its title regular expression (\<open>title_search\<close>), the YouTube \<^verbatim>\<open>try\<close> block and
    its \<^verbatim>\<open>catch\<close> fallback, the stubs. Claims C16--C18.
  \<^item> \<open>Summarizer\<close>: lines 145--184, key check, model fallback, the exact prompt with
    the 6000-unit content prefix (\<open>summarize\<close>). Its one property, that the
    request depends on the first 6000 code units of the content only, is immediate from
    the definition and is not stated as a claim.
  \<^item> \<open>Pipeline\<close>: \<^verbatim>\<open>processContent\<close> as a whole (\<open>process_content\<close>,
    \<open>finish_job\<close>, \<open>save_podcast\<close>), the posted message \<open>job_msg\<close>, and the job
    contract of the specification as the inductive \<open>job_spec\<close>. Claims C20--C26.
  \<^item> \<open>Database\<close>: the four tables of the schema (lines 44--82 of \<^verbatim>\<open>main.js\<close>) as
    records kept in rowid order with their \<^verbatim>\<open>AUTOINCREMENT\<close> counters, the \<^verbatim>\<open>CHECK\<close>
    constraints as datatypes, every statement the program sends (\<open>sql\<close>,
    \<open>exec_sql\<close>) and the generic \<^verbatim>\<open>db-query\<close> and \<^verbatim>\<open>db-run\<close> handlers of lines
    107--129 (\<open>db_query_handler\<close>, \<open>db_run_handler\<close>).
  \<^item> \<open>Host\<close>: the \<^verbatim>\<open>process-content\<close> handler of \<^verbatim>\<open>src/main.js\<close> (lines 132--183,
    \<open>handle_message\<close>) and a whole request (\<open>process_request\<close>). Claims C27--C31.
  \<^item> \<open>App\<close>: the preload bridge (\<open>invoke\<close>, \<^verbatim>\<open>src/preload.js\<close>) and the React
    component of \<^verbatim>\<open>src/src/App.js\<close>: its \<^verbatim>\<open>useState\<close> variables as the record
    \<open>app_state\<close>, each handler (\<open>load_projects\<close>, \<open>load_sources\<close> with
    \<open>load_summaries\<close> and \<open>load_outputs\<close>, \<open>delete_source_h\<close>, \<open>save_edit\<close>,
    \<open>add_source\<close>, \<open>create_project\<close>, \<open>process_source\<close>) as a function of the
    page state and the \<open>system\<close> (world and tables) that the main process owns, the
    controls of the rendered page as \<open>ui_event\<close> with their visibility conditions
    (\<open>app_step\<close>), and what the page shows of summaries and podcasts.
    Claims C19, C36--C38.
  \<^item> \<open>Lifecycle\<close>: \<^verbatim>\<open>initDatabase\<close>, \<^verbatim>\<open>createWindow\<close> and the \<^verbatim>\<open>whenReady\<close>,
    \<^verbatim>\<open>activate\<close> and \<^verbatim>\<open>window-all-closed\<close> listeners of \<^verbatim>\<open>main.js\<close> (lines
    7--104) as the step function \<open>life_step\<close>, with the reachable states as the
    inductive \<open>reachable\<close>. Claims C34, C39, C40.
  \<^item> This theory: the key points of a completed job whose answer has too few
    points of acceptable length, and the scenario of section 8 of the specification
    as its instance. Claim C32.

  \<^bold>\<open>What the lemmas show.\<close> For the parser: the points are read exactly from a
  well-formed block, there are always three to five of them and each has 11 to 199
  code units, no header gives the placeholders, and the points occur in the response
  in order. For the narrative: at most 2003 code units, never the header phrase the
  scan looks for, and, for every header only the parser knows, the disagreement of the
  two scans (the points are spoken). For extraction: the
  title round trip, the exact conditions under which extraction fails, and the
  transcript fallback. For speech: cleanup on success and the temporary file left on
  failure. For the job: every error path (missing key, failed request, failed speech,
  failed podcast save), the composition of a completed job, refinement of
  \<open>job_spec\<close>, and the files a job may touch. For the host: the table invariant
  \<open>db_ok\<close> is kept, the rows a completed job adds, the partial write when a later
  statement fails, and the two scenarios of the specification. For a whole job: an
  answer with fewer than three acceptable point lines yields the placeholders. For
  the page: adding a source stores the URL and type the user entered, editing and
  saving a source unchanged is a round trip, a Process click that succeeds shows the summary the handler stored (the
  composition of interface, bridge, worker, handler and reload), and the podcast
  name shown is the one the worker built. For the process: at most one window, only
  with an open database (rule induction over \<open>reachable\<close>), the window can always
  be brought back while the process runs, and when \<^verbatim>\<open>initDatabase\<close> rejects no
  window ever appears and the process never quits.

  \<^bold>\<open>Bounds.\<close> Every loop of the code runs over a finite list (lines, characters of a
  string, transcript segments) and is structural recursion, or, for
  \<open>js_index_of\<close>, recursion with a measure; no fuel is needed. The one loop
  written with an index, the header scan of lines 191--204, is also given as a
  \<open>partial_function (option)\<close>, whose result from line 0 is proved to be a value
  (C35), so its termination is not assumed. The numeric bounds of
  the code (10 collected points, 5 kept, 11--199 code units, 2000 + 3 for speech, 3000
  and 1000 for transcript sampling, 6000 for the prompt) are kept as written.

  \<^bold>\<open>Abstractions.\<close> \<^verbatim>\<open>toLowerCase\<close> is modelled on ASCII letters; the header
  phrases are ASCII, and a non-ASCII letter that lower-cases to an ASCII one (the
  Kelvin sign) is the only difference. The services are arbitrary functions, so
  every theorem holds for every way they answer; the two metadata requests of the
  YouTube branch are separate answers. One job reads one clock value; the paths it
  builds differ by their names, not by the time. \<^verbatim>\<open>path.join\<close> is the Windows
  form, where the speech engine runs. The key points in the database are the list
  that \<^verbatim>\<open>JSON.stringify\<close> encodes. \<^verbatim>\<open>console.log\<close> has no effect on the model.

  The interface's handlers each run to their end before the next user action (React
  runs them as separate tasks, and the model does not interleave two of them). A
  statement's failure for a reason outside the model (a locked file) is an oracle
  of the environment (\<open>env_db_fail\<close>, \<open>env_host_fail\<close>). Rows come back in rowid
  order, SQLite's order for these queries without \<^verbatim>\<open>ORDER BY\<close>.

  \<^bold>\<open>Not modelled.\<close> The markup and styles of the page (only what it shows of
  sources, summaries and podcasts is modelled), the window options, the start URL
  and the developer tools (lines 11--27 of \<^verbatim>\<open>main.js\<close>), the timestamp columns,
  and the errors of the first three \<^verbatim>\<open>CREATE TABLE\<close> statements, which have no
  callback. The SQL engine is a library: each statement the program sends is
  modelled by its effect on the tables, not by parsing its text. The worker's
  \<^verbatim>\<open>error\<close> and \<^verbatim>\<open>exit\<close> events are not reached, because \<^verbatim>\<open>processContent\<close>
  catches every exception before posting its message.
\<close>

definition scenario_page :: jstr where
  "scenario_page = js ''<html><title>Test</title></html>''"

definition scenario_answer :: jstr where
  "scenario_answer = js ''Narrative text'' @ [nl, nl] @ js ''**Key Learning Points:**'' @ [nl] @
     js ''1. Learn A'' @ [nl] @ js ''2. Learn B'' @ [nl] @ js ''3. Learn C''"

definition scenario_services :: services where
  "scenario_services = demo_services\<lparr>http_get := \<lambda>u. Inr scenario_page, chat := \<lambda>k m p. Inr scenario_answer\<rparr>"

text \<open>
  C32. Whatever page is extracted and whatever the model answers, a completed job
  carries the five placeholder key points when fewer than three lines of the answer
  clean to a point of 11 to 199 code units: the header and the numbering do not
  matter, the length filter does. The article scenario of section 8 of the
  specification is such a job: its points \<^verbatim>\<open>Learn A\<close>, \<^verbatim>\<open>Learn B\<close>,
  \<^verbatim>\<open>Learn C\<close> have 7 code units each, so the job reports the placeholders, not them.
\<close>

theorem short_points_placeholders:
  assumes "extract_content srv cd = Inr (c, t)" and "summarize srv (cd_model cd) c = Inr s"
    and "length (filter point_length_ok (map (\<lambda>l. clean_point (js_trim l)) (js_split nl s))) < 3"
    and "fst (process_content srv cd w) = JobDone r"
  shows "jr_summary r = s \<and> jr_key_points r = placeholder_points"
proof -
  have pc: "process_content srv cd w = finish_job srv cd c t w"
    using assms(1) by (rule process_content_extracted)
  have kp: "parse_key_points s = placeholder_points"
    using assms(3) by (rule few_good_lines_placeholders)
  show ?thesis
    by (cases rule: finish_job_cases [of srv cd c t w]) (use assms(2,4) pc kp in auto)
qed

theorem short_points_placeholders_witness:
  "jr_key_points (case fst (process_content scenario_services demo_article demo_world) of
                    JobDone r \<Rightarrow> r | JobFailed e \<Rightarrow> undefined) = placeholder_points"
proof -
  define r where "r = \<lparr>jr_content = scenario_page, jr_title = js ''Test'', jr_summary = scenario_answer,
      jr_key_points = placeholder_points,
      jr_podcast = Some (podcast_path scenario_services demo_article demo_world)\<rparr>"
  have jd: "fst (process_content scenario_services demo_article demo_world) = JobDone r"
    unfolding r_def by code_simp
  have ex: "extract_content scenario_services demo_article = Inr (scenario_page, js ''Test'')"
    by code_simp
  have sm: "summarize scenario_services (cd_model demo_article) scenario_page = Inr scenario_answer"
    by code_simp
  have few: "length (filter point_length_ok (map (\<lambda>l. clean_point (js_trim l)) (js_split nl scenario_answer))) < 3"
    by code_simp
  show ?thesis
    using short_points_placeholders [OF ex sm few jd] jd by simp
qed

end
